theory Spec2Isabelle
  imports Main "HOL-Library.Word"
begin

unbundle bit_operations_syntax

section \<open>TCP stream analysis of epan/dissectors/packet-tcp.c\<close>

subsection \<open>Machine types\<close>

type_synonym guint8 = "8 word"
type_synonym guint16 = "16 word"
type_synonym guint32 = "32 word"
type_synonym guint64 = "64 word"

text \<open>
  \<open>nstime_t\<close> is \<open>{ time_t secs; int nsecs; }\<close>; \<open>time_t\<close> is taken as a 64-bit
  signed integer and \<open>int\<close> as a 32-bit signed integer, both kept as words and read
  with \<open>sint\<close>/\<open>scast\<close> where the code converts them.
\<close>

record nstime_t =
  secs :: guint64
  nsecs :: guint32

definition nstime_zero :: nstime_t where
  "nstime_zero = \<lparr> secs = 0, nsecs = 0 \<rparr>"

text \<open>
  The fields of \<open>packet_info\<close> that the analysis reads: \<open>pinfo->num\<close>,
  \<open>pinfo->fd->num\<close>, \<open>pinfo->abs_ts\<close> and \<open>pinfo->fd->visited\<close>.
\<close>

record packet_info =
  num :: guint32
  fd_num :: guint32
  abs_ts :: nstime_t
  visited :: bool

subsection \<open>Sequence-space comparison\<close>

text \<open>
  Modelled from the spec: the macros \<open>GT_SEQ\<close>, \<open>LT_SEQ\<close>, \<open>GE_SEQ\<close>, \<open>LE_SEQ\<close>
  and \<open>EQ_SEQ\<close> are used by packet-tcp.c but defined in packet-tcp.h, which is not
  among the sources. The specification fixes them as signed-difference comparisons
  on the circular 32-bit space, \<open>(int32)(a - b) > 0\<close> for "greater".
\<close>

definition GT_SEQ :: "guint32 \<Rightarrow> guint32 \<Rightarrow> bool" where
  "GT_SEQ x y = (sint (x - y) > 0)"

definition LT_SEQ :: "guint32 \<Rightarrow> guint32 \<Rightarrow> bool" where
  "LT_SEQ x y = (sint (x - y) < 0)"


definition LE_SEQ :: "guint32 \<Rightarrow> guint32 \<Rightarrow> bool" where
  "LE_SEQ x y = (sint (x - y) \<le> 0)"

definition EQ_SEQ :: "guint32 \<Rightarrow> guint32 \<Rightarrow> bool" where
  "EQ_SEQ x y = (x = y)"

subsection \<open>Flag constants defined in packet-tcp.c\<close>

definition TCP_A_RETRANSMISSION :: guint16 where "TCP_A_RETRANSMISSION = 0x0001"
definition TCP_A_LOST_PACKET :: guint16 where "TCP_A_LOST_PACKET = 0x0002"
definition TCP_A_ACK_LOST_PACKET :: guint16 where "TCP_A_ACK_LOST_PACKET = 0x0004"
definition TCP_A_KEEP_ALIVE :: guint16 where "TCP_A_KEEP_ALIVE = 0x0008"
definition TCP_A_DUPLICATE_ACK :: guint16 where "TCP_A_DUPLICATE_ACK = 0x0010"
definition TCP_A_ZERO_WINDOW :: guint16 where "TCP_A_ZERO_WINDOW = 0x0020"
definition TCP_A_ZERO_WINDOW_PROBE :: guint16 where "TCP_A_ZERO_WINDOW_PROBE = 0x0040"
definition TCP_A_ZERO_WINDOW_PROBE_ACK :: guint16 where "TCP_A_ZERO_WINDOW_PROBE_ACK = 0x0080"
definition TCP_A_KEEP_ALIVE_ACK :: guint16 where "TCP_A_KEEP_ALIVE_ACK = 0x0100"
definition TCP_A_OUT_OF_ORDER :: guint16 where "TCP_A_OUT_OF_ORDER = 0x0200"
definition TCP_A_FAST_RETRANSMISSION :: guint16 where "TCP_A_FAST_RETRANSMISSION = 0x0400"
definition TCP_A_WINDOW_UPDATE :: guint16 where "TCP_A_WINDOW_UPDATE = 0x0800"
definition TCP_A_WINDOW_FULL :: guint16 where "TCP_A_WINDOW_FULL = 0x1000"
definition TCP_A_REUSED_PORTS :: guint16 where "TCP_A_REUSED_PORTS = 0x2000"
definition TCP_A_SPURIOUS_RETRANSMISSION :: guint16 where "TCP_A_SPURIOUS_RETRANSMISSION = 0x4000"

definition TCP_S_BASE_SEQ_SET :: guint8 where "TCP_S_BASE_SEQ_SET = 0x01"
definition TCP_S_SAW_SYN :: guint8 where "TCP_S_SAW_SYN = 0x03"
definition TCP_S_SAW_SYNACK :: guint8 where "TCP_S_SAW_SYNACK = 0x05"

text \<open>
  What packet-tcp.c takes from outside the file: the TCP header flag masks
  \<open>TH_*\<close> and the cap \<open>TCP_MAX_UNACKED_SEGMENTS\<close> (packet-tcp.h), the helper
  \<open>nstime_delta\<close> (wsutil), and the preference variable
  \<open>tcp_track_bytes_in_flight\<close>. They are parameters of the model.
\<close>

record tcp_env =
  TH_FIN :: guint16
  TH_SYN :: guint16
  TH_RST :: guint16
  TH_PUSH :: guint16
  TH_ACK :: guint16
  TCP_MAX_UNACKED_SEGMENTS :: guint32
  nstime_delta :: "nstime_t \<Rightarrow> nstime_t \<Rightarrow> nstime_t"
  tcp_track_bytes_in_flight :: bool

subsection \<open>Data model\<close>

text \<open>\<open>tcp_unacked_t\<close>: one entry of a flow's list of unacknowledged segments.\<close>

record tcp_unacked_t =
  ua_frame :: guint32
  ua_seq :: guint32
  ua_nextseq :: guint32
  ua_ts :: nstime_t

text \<open>\<open>struct tcp_acked\<close>: the per-packet analysis result.\<close>

record tcp_acked =
  frame_acked :: guint32
  ta_ts :: nstime_t
  rto_frame :: guint32
  rto_ts :: nstime_t
  ta_flags :: guint16
  dupack_num :: guint32
  dupack_frame :: guint32
  bytes_in_flight :: guint32
  ta_push_bytes_sent :: guint32

text \<open>\<open>wmem_new0\<close> of a \<open>struct tcp_acked\<close>.\<close>

definition tcp_acked_new0 :: tcp_acked where
  "tcp_acked_new0 = \<lparr> frame_acked = 0, ta_ts = nstime_zero, rto_frame = 0,
     rto_ts = nstime_zero, ta_flags = 0, dupack_num = 0, dupack_frame = 0,
     bytes_in_flight = 0, ta_push_bytes_sent = 0 \<rparr>"

text \<open>\<open>struct tcp_multisegment_pdu\<close>.\<close>

record tcp_multisegment_pdu =
  msp_seq :: guint32
  nxtpdu :: guint32
  first_frame :: guint32
  first_frame_with_seq :: guint32
  last_frame :: guint32
  last_frame_time :: nstime_t
  msp_flags :: guint32

text \<open>
  \<open>tcp_flow_t\<close>, with the members of its \<open>tcp_analyze_seq_info\<close> written as fields
  of the flow itself. \<open>win_scale\<close> is a signed field holding -1 (unknown), -2 (known
  absent) or the shift count. \<open>multisegment_pdus\<close> is the tree keyed by the starting
  sequence number, kept as the list of its (key, value) pairs with distinct keys.
\<close>

record tcp_flow_t =
  static_flags :: guint8
  base_seq :: guint32
  window :: guint32
  win_scale :: int
  lastsegmentflags :: guint16
  valid_bif :: bool
  push_bytes_sent :: guint32
  push_set_last :: bool
  scps_capable :: bool
  maxsizeacked :: guint32
  segments :: "tcp_unacked_t list"
  segment_count :: guint32
  lastack :: guint32
  lastacktime :: nstime_t
  lastnondupack :: guint32
  dupacknum :: guint32
  nextseq :: guint32
  maxseqtobeacked :: guint32
  nextseqframe :: guint32
  nextseqtime :: nstime_t
  flow_flags :: guint32
  fin :: guint32
  maxnextseq :: guint32
  multisegment_pdus :: "(guint32 \<times> tcp_multisegment_pdu) list"

type_synonym acked_key = "guint32 \<times> guint32 \<times> guint32"

text \<open>
  \<open>struct tcp_analysis\<close>. The pointers \<open>fwd\<close> and \<open>rev\<close> always point at the two
  distinct members \<open>flow1\<close> and \<open>flow2\<close>, so they are one boolean. The pointer \<open>ta\<close>
  points into \<open>acked_table\<close>, so it is the key of the entry it points at.
\<close>

record tcp_analysis =
  flow1 :: tcp_flow_t
  flow2 :: tcp_flow_t
  fwd_is_flow1 :: bool
  ta :: "acked_key option"
  acked_table :: "acked_key \<rightharpoonup> tcp_acked"
  ts_mru_syn :: nstime_t
  ts_first_rtt :: nstime_t

definition fwd :: "tcp_analysis \<Rightarrow> tcp_flow_t" where
  "fwd tcpd = (if fwd_is_flow1 tcpd then flow1 tcpd else flow2 tcpd)"

definition rev_flow :: "tcp_analysis \<Rightarrow> tcp_flow_t" where
  "rev_flow tcpd = (if fwd_is_flow1 tcpd then flow2 tcpd else flow1 tcpd)"

definition fwd_upd :: "(tcp_flow_t \<Rightarrow> tcp_flow_t) \<Rightarrow> tcp_analysis \<Rightarrow> tcp_analysis" where
  "fwd_upd f tcpd = (if fwd_is_flow1 tcpd then tcpd\<lparr>flow1 := f (flow1 tcpd)\<rparr>
                     else tcpd\<lparr>flow2 := f (flow2 tcpd)\<rparr>)"

definition rev_upd :: "(tcp_flow_t \<Rightarrow> tcp_flow_t) \<Rightarrow> tcp_analysis \<Rightarrow> tcp_analysis" where
  "rev_upd f tcpd = (if fwd_is_flow1 tcpd then tcpd\<lparr>flow2 := f (flow2 tcpd)\<rparr>
                     else tcpd\<lparr>flow1 := f (flow1 tcpd)\<rparr>)"

text \<open>Reading and writing through the pointer \<open>tcpd->ta\<close>.\<close>

definition ta_get :: "tcp_analysis \<Rightarrow> tcp_acked option" where
  "ta_get tcpd = (case ta tcpd of None \<Rightarrow> None | Some k \<Rightarrow> acked_table tcpd k)"

definition ta_upd :: "(tcp_acked \<Rightarrow> tcp_acked) \<Rightarrow> tcp_analysis \<Rightarrow> tcp_analysis" where
  "ta_upd f tcpd = (case ta tcpd of None \<Rightarrow> tcpd
     | Some k \<Rightarrow> (case acked_table tcpd k of None \<Rightarrow> tcpd
         | Some a \<Rightarrow> tcpd\<lparr>acked_table := (acked_table tcpd)(k \<mapsto> f a)\<rparr>))"

text \<open>\<open>tcpd->ta && (tcpd->ta->flags & fl)\<close>.\<close>

definition ta_has_flag :: "guint16 \<Rightarrow> tcp_analysis \<Rightarrow> bool" where
  "ta_has_flag fl tcpd = (case ta_get tcpd of None \<Rightarrow> False | Some a \<Rightarrow> ta_flags a AND fl \<noteq> 0)"

text \<open>
  \<open>tcp_analyze_get_acked_struct\<close> for a non-null \<open>tcpd\<close>: look the key
  \<open>(frame, seq, ack)\<close> up and, with \<open>createflag\<close>, insert a zeroed result if there
  is none.
\<close>

definition tcp_analyze_get_acked_struct ::
  "guint32 \<Rightarrow> guint32 \<Rightarrow> guint32 \<Rightarrow> bool \<Rightarrow> tcp_analysis \<Rightarrow> tcp_analysis" where
  "tcp_analyze_get_acked_struct frame seq ack createflag tcpd =
     (case acked_table tcpd (frame, seq, ack) of
        Some a \<Rightarrow> tcpd\<lparr>ta := Some (frame, seq, ack)\<rparr>
      | None \<Rightarrow>
          if createflag
          then tcpd\<lparr>ta := Some (frame, seq, ack),
                    acked_table := (acked_table tcpd)((frame, seq, ack) \<mapsto> tcp_acked_new0)\<rparr>
          else tcpd\<lparr>ta := None\<rparr>)"

text \<open>
  The idiom \<open>if(!tcpd->ta) tcp_analyze_get_acked_struct(pinfo->num, seq, ack, TRUE, tcpd);\<close>
  followed by assignments to members of \<open>tcpd->ta\<close>.
\<close>

definition with_ta ::
  "guint32 \<Rightarrow> guint32 \<Rightarrow> guint32 \<Rightarrow> (tcp_acked \<Rightarrow> tcp_acked) \<Rightarrow> tcp_analysis \<Rightarrow> tcp_analysis" where
  "with_ta frame seq ack f tcpd =
     ta_upd f (if ta tcpd = None then tcp_analyze_get_acked_struct frame seq ack True tcpd
               else tcpd)"

definition flag_ta ::
  "packet_info \<Rightarrow> guint32 \<Rightarrow> guint32 \<Rightarrow> guint16 \<Rightarrow> tcp_analysis \<Rightarrow> tcp_analysis" where
  "flag_ta pinfo seq ack fl tcpd =
     with_ta (num pinfo) seq ack (\<lambda>a. a\<lparr>ta_flags := ta_flags a OR fl\<rparr>) tcpd"

subsection \<open>tcp_analyze_sequence_number\<close>

text \<open>
  The function is one straight-line body with the labels \<open>finished_fwd\<close> and
  \<open>finished_checking_retransmission_type\<close>. Each commented block of the source is
  one definition below, in source order; the parameter \<open>window\<close> of the source is
  \<open>win\<close> and its local \<open>nextseq\<close> is \<open>nseq\<close>.
\<close>

text \<open>Lines 1875-1904: base sequence numbers and \<open>valid_bif\<close>.\<close>

definition store_base_seq ::
  "tcp_env \<Rightarrow> guint32 \<Rightarrow> guint32 \<Rightarrow> guint16 \<Rightarrow> tcp_analysis \<Rightarrow> tcp_analysis" where
  "store_base_seq e seq ack flags tcpd =
     (let t1 = (if static_flags (fwd tcpd) AND TCP_S_BASE_SEQ_SET = 0
                then fwd_upd (\<lambda>f.
                       (let f1 = (if flags AND TH_SYN e \<noteq> 0
                                  then f\<lparr>base_seq := seq,
                                         static_flags := static_flags f OR
                                           (if flags AND TH_ACK e \<noteq> 0 then TCP_S_SAW_SYNACK
                                            else TCP_S_SAW_SYN)\<rparr>
                                  else f\<lparr>base_seq := seq - 1\<rparr>)
                        in f1\<lparr>static_flags := static_flags f1 OR TCP_S_BASE_SEQ_SET\<rparr>)) tcpd
                else tcpd);
          t2 = (if static_flags (rev_flow t1) AND TCP_S_BASE_SEQ_SET = 0 \<and> flags AND TH_ACK e \<noteq> 0
                then rev_upd (\<lambda>f. f\<lparr>base_seq := ack - 1,
                                       static_flags := static_flags f OR TCP_S_BASE_SEQ_SET\<rparr>) t1
                else t1)
      in (if flags AND TH_ACK e \<noteq> 0 then rev_upd (\<lambda>f. f\<lparr>valid_bif := True\<rparr>) t2 else t2))"

text \<open>\<open>(flags&(TH_SYN|TH_FIN|TH_RST))==0\<close>.\<close>

definition no_syn_fin_rst :: "tcp_env \<Rightarrow> guint16 \<Rightarrow> bool" where
  "no_syn_fin_rst e flags = (flags AND (TH_SYN e OR TH_FIN e OR TH_RST e) = 0)"

text \<open>ZERO WINDOW PROBE (condition of line 1912; the block ends in \<open>goto finished_fwd\<close>).\<close>

definition zero_window_probe_cond :: "guint32 \<Rightarrow> guint32 \<Rightarrow> tcp_analysis \<Rightarrow> bool" where
  "zero_window_probe_cond seq seglen tcpd =
     (seglen = 1 \<and> seq = nextseq (fwd tcpd) \<and> window (rev_flow tcpd) = 0)"

text \<open>ZERO WINDOW.\<close>

definition zero_window_cond :: "tcp_env \<Rightarrow> guint16 \<Rightarrow> guint32 \<Rightarrow> bool" where
  "zero_window_cond e flags win =
     (win = 0 \<and> flags AND (TH_RST e OR TH_FIN e OR TH_SYN e) = 0)"

definition zero_window ::
  "tcp_env \<Rightarrow> packet_info \<Rightarrow> guint32 \<Rightarrow> guint32 \<Rightarrow> guint16 \<Rightarrow> guint32 \<Rightarrow> tcp_analysis \<Rightarrow> tcp_analysis" where
  "zero_window e pinfo seq ack flags win tcpd =
     (if zero_window_cond e flags win
      then flag_ta pinfo seq ack TCP_A_ZERO_WINDOW tcpd else tcpd)"

text \<open>LOST PACKET.\<close>

definition lost_packet_cond :: "tcp_env \<Rightarrow> guint32 \<Rightarrow> guint16 \<Rightarrow> tcp_analysis \<Rightarrow> bool" where
  "lost_packet_cond e seq flags tcpd =
     (nextseq (fwd tcpd) \<noteq> 0 \<and> GT_SEQ seq (nextseq (fwd tcpd)) \<and> flags AND TH_RST e = 0)"

definition lost_packet ::
  "tcp_env \<Rightarrow> packet_info \<Rightarrow> guint32 \<Rightarrow> guint32 \<Rightarrow> guint16 \<Rightarrow> tcp_analysis \<Rightarrow> tcp_analysis" where
  "lost_packet e pinfo seq ack flags tcpd =
     (if lost_packet_cond e seq flags tcpd
      then fwd_upd (\<lambda>f. f\<lparr>valid_bif := False\<rparr>) (flag_ta pinfo seq ack TCP_A_LOST_PACKET tcpd)
      else tcpd)"

text \<open>KEEP ALIVE.\<close>

definition keep_alive_cond :: "tcp_env \<Rightarrow> guint32 \<Rightarrow> guint32 \<Rightarrow> guint16 \<Rightarrow> tcp_analysis \<Rightarrow> bool" where
  "keep_alive_cond e seq seglen flags tcpd =
     ((seglen = 0 \<or> seglen = 1) \<and> seq = nextseq (fwd tcpd) - 1 \<and> no_syn_fin_rst e flags)"

definition keep_alive ::
  "tcp_env \<Rightarrow> packet_info \<Rightarrow> guint32 \<Rightarrow> guint32 \<Rightarrow> guint32 \<Rightarrow> guint16 \<Rightarrow> tcp_analysis \<Rightarrow> tcp_analysis" where
  "keep_alive e pinfo seq ack seglen flags tcpd =
     (if keep_alive_cond e seq seglen flags tcpd
      then flag_ta pinfo seq ack TCP_A_KEEP_ALIVE tcpd else tcpd)"

text \<open>WINDOW UPDATE.\<close>

definition window_update_cond ::
  "tcp_env \<Rightarrow> guint32 \<Rightarrow> guint32 \<Rightarrow> guint32 \<Rightarrow> guint16 \<Rightarrow> guint32 \<Rightarrow> tcp_analysis \<Rightarrow> bool" where
  "window_update_cond e seq ack seglen flags win tcpd =
     (seglen = 0 \<and> win \<noteq> 0 \<and> win \<noteq> window (fwd tcpd) \<and> seq = nextseq (fwd tcpd)
      \<and> ack = lastack (fwd tcpd) \<and> no_syn_fin_rst e flags)"

definition tcp_window_update ::
  "tcp_env \<Rightarrow> packet_info \<Rightarrow> guint32 \<Rightarrow> guint32 \<Rightarrow> guint32 \<Rightarrow> guint16 \<Rightarrow> guint32 \<Rightarrow> tcp_analysis \<Rightarrow> tcp_analysis" where
  "tcp_window_update e pinfo seq ack seglen flags win tcpd =
     (if window_update_cond e seq ack seglen flags win tcpd
      then flag_ta pinfo seq ack TCP_A_WINDOW_UPDATE tcpd else tcpd)"

text \<open>
  WINDOW FULL. The shift count is 0 for \<open>win_scale == -2\<close> and \<open>win_scale\<close> otherwise;
  \<open>push_bit\<close> on a 32-bit word gives 0 for a count of 32 or more, where C leaves the
  shift undefined.
\<close>

definition window_full_cond ::
  "tcp_env \<Rightarrow> guint32 \<Rightarrow> guint32 \<Rightarrow> guint16 \<Rightarrow> tcp_analysis \<Rightarrow> bool" where
  "window_full_cond e seq seglen flags tcpd =
     (0 < seglen \<and> win_scale (rev_flow tcpd) \<noteq> - 1
      \<and> seq + seglen = lastack (rev_flow tcpd) +
           push_bit (if win_scale (rev_flow tcpd) = - 2 then 0 else nat (win_scale (rev_flow tcpd)))
             (window (rev_flow tcpd))
      \<and> no_syn_fin_rst e flags)"

definition window_full ::
  "tcp_env \<Rightarrow> packet_info \<Rightarrow> guint32 \<Rightarrow> guint32 \<Rightarrow> guint32 \<Rightarrow> guint16 \<Rightarrow> tcp_analysis \<Rightarrow> tcp_analysis" where
  "window_full e pinfo seq ack seglen flags tcpd =
     (if window_full_cond e seq seglen flags tcpd
      then flag_ta pinfo seq ack TCP_A_WINDOW_FULL tcpd else tcpd)"

text \<open>KEEP ALIVE ACK (the block ends in \<open>goto finished_fwd\<close>).\<close>

definition keep_alive_ack_cond ::
  "tcp_env \<Rightarrow> guint32 \<Rightarrow> guint32 \<Rightarrow> guint32 \<Rightarrow> guint16 \<Rightarrow> guint32 \<Rightarrow> tcp_analysis \<Rightarrow> bool" where
  "keep_alive_ack_cond e seq ack seglen flags win tcpd =
     (seglen = 0 \<and> win \<noteq> 0 \<and> win = window (fwd tcpd) \<and> seq = nextseq (fwd tcpd)
      \<and> ack = lastack (fwd tcpd) \<and> lastsegmentflags (rev_flow tcpd) AND TCP_A_KEEP_ALIVE \<noteq> 0
      \<and> no_syn_fin_rst e flags)"

text \<open>ZERO WINDOW PROBE ACK (the block ends in \<open>goto finished_fwd\<close>).\<close>

definition zero_window_probe_ack_cond ::
  "tcp_env \<Rightarrow> guint32 \<Rightarrow> guint32 \<Rightarrow> guint32 \<Rightarrow> guint16 \<Rightarrow> guint32 \<Rightarrow> tcp_analysis \<Rightarrow> bool" where
  "zero_window_probe_ack_cond e seq ack seglen flags win tcpd =
     (seglen = 0 \<and> win = 0 \<and> win = window (fwd tcpd) \<and> seq = nextseq (fwd tcpd)
      \<and> ack = lastack (fwd tcpd) \<and> lastsegmentflags (rev_flow tcpd) AND TCP_A_ZERO_WINDOW_PROBE \<noteq> 0
      \<and> no_syn_fin_rst e flags)"

text \<open>DUPLICATE ACK: the test of line 2048 and the block it guards.\<close>

definition duplicate_ack_cond ::
  "tcp_env \<Rightarrow> guint32 \<Rightarrow> guint32 \<Rightarrow> guint32 \<Rightarrow> guint16 \<Rightarrow> guint32 \<Rightarrow> tcp_analysis \<Rightarrow> bool" where
  "duplicate_ack_cond e seq ack seglen flags win tcpd =
     (seglen = 0 \<and> win \<noteq> 0 \<and> win = window (fwd tcpd) \<and> seq = nextseq (fwd tcpd)
      \<and> ack = lastack (fwd tcpd) \<and> no_syn_fin_rst e flags)"

definition duplicate_ack ::
  "tcp_env \<Rightarrow> packet_info \<Rightarrow> guint32 \<Rightarrow> guint32 \<Rightarrow> guint32 \<Rightarrow> guint16 \<Rightarrow> guint32 \<Rightarrow> tcp_analysis \<Rightarrow> tcp_analysis" where
  "duplicate_ack e pinfo seq ack seglen flags win tcpd =
     (if duplicate_ack_cond e seq ack seglen flags win tcpd
      then (let t1 = fwd_upd (\<lambda>f. f\<lparr>dupacknum := dupacknum f + 1\<rparr>) tcpd
            in with_ta (num pinfo) seq ack
                 (\<lambda>a. a\<lparr>ta_flags := ta_flags a OR TCP_A_DUPLICATE_ACK,
                        dupack_num := dupacknum (fwd t1),
                        dupack_frame := lastnondupack (fwd t1)\<rparr>) t1)
      else tcpd)"

text \<open>Lines 1906-2061: the checks before the label \<open>finished_fwd\<close>.\<close>

definition fwd_checks ::
  "tcp_env \<Rightarrow> packet_info \<Rightarrow> guint32 \<Rightarrow> guint32 \<Rightarrow> guint32 \<Rightarrow> guint16 \<Rightarrow> guint32 \<Rightarrow> tcp_analysis \<Rightarrow> tcp_analysis" where
  "fwd_checks e pinfo seq ack seglen flags win tcpd =
     (if zero_window_probe_cond seq seglen tcpd
      then flag_ta pinfo seq ack TCP_A_ZERO_WINDOW_PROBE tcpd
      else
        (let t1 = zero_window e pinfo seq ack flags win tcpd;
             t2 = lost_packet e pinfo seq ack flags t1;
             t3 = keep_alive e pinfo seq ack seglen flags t2;
             t4 = tcp_window_update e pinfo seq ack seglen flags win t3;
             t5 = window_full e pinfo seq ack seglen flags t4
         in if keep_alive_ack_cond e seq ack seglen flags win t5
            then flag_ta pinfo seq ack TCP_A_KEEP_ALIVE_ACK t5
            else if zero_window_probe_ack_cond e seq ack seglen flags win t5
            then flag_ta pinfo seq ack TCP_A_ZERO_WINDOW_PROBE_ACK t5
            else duplicate_ack e pinfo seq ack seglen flags win t5))"

text \<open>Label \<open>finished_fwd\<close>, lines 2066-2070: reset of the duplicate-ACK counters.\<close>

definition reset_dupack ::
  "packet_info \<Rightarrow> guint32 \<Rightarrow> tcp_analysis \<Rightarrow> tcp_analysis" where
  "reset_dupack pinfo ack tcpd =
     (if ack \<noteq> lastack (fwd tcpd)
      then fwd_upd (\<lambda>f. f\<lparr>lastnondupack := num pinfo, dupacknum := 0\<rparr>) tcpd
      else tcpd)"

text \<open>ACKED LOST PACKET.\<close>

definition acked_lost_packet_cond :: "tcp_env \<Rightarrow> guint32 \<Rightarrow> guint16 \<Rightarrow> tcp_analysis \<Rightarrow> bool" where
  "acked_lost_packet_cond e ack flags tcpd =
     (maxseqtobeacked (rev_flow tcpd) \<noteq> 0 \<and> GT_SEQ ack (maxseqtobeacked (rev_flow tcpd))
      \<and> flags AND TH_ACK e \<noteq> 0)"

definition acked_lost_packet ::
  "tcp_env \<Rightarrow> packet_info \<Rightarrow> guint32 \<Rightarrow> guint32 \<Rightarrow> guint16 \<Rightarrow> tcp_analysis \<Rightarrow> tcp_analysis" where
  "acked_lost_packet e pinfo seq ack flags tcpd =
     (if acked_lost_packet_cond e ack flags tcpd
      then rev_upd (\<lambda>f. f\<lparr>maxseqtobeacked := nextseq f\<rparr>)
             (flag_ta pinfo seq ack TCP_A_ACK_LOST_PACKET tcpd)
      else tcpd)"

text \<open>
  The elapsed time the retransmission checks compute into the \<open>guint64 t\<close>:
  \<open>t = (now.secs - past.secs) * 1000000000; t = t + now.nsecs - past.nsecs\<close>.
\<close>

definition time_since :: "nstime_t \<Rightarrow> nstime_t \<Rightarrow> guint64" where
  "time_since now past =
     (secs now - secs past) * 1000000000 + scast (nsecs now) - scast (nsecs past)"

text \<open>Lines 2152-2156: the out-of-order threshold.\<close>

definition ooo_thres :: "tcp_analysis \<Rightarrow> guint64" where
  "ooo_thres tcpd =
     (if nsecs (ts_first_rtt tcpd) = 0 \<and> secs (ts_first_rtt tcpd) = 0 then 3000000
      else scast (nsecs (ts_first_rtt tcpd)) + secs (ts_first_rtt tcpd) * 1000000000)"

text \<open>
  RETRANSMISSION/FAST RETRANSMISSION/OUT-OF-ORDER, lines 2104-2191. Every
  \<open>goto finished_checking_retransmission_type\<close> is the end of its branch.
\<close>

definition retransmission_check ::
  "tcp_env \<Rightarrow> packet_info \<Rightarrow> guint32 \<Rightarrow> guint32 \<Rightarrow> guint32 \<Rightarrow> guint16 \<Rightarrow> tcp_analysis \<Rightarrow> tcp_analysis" where
  "retransmission_check e pinfo seq ack seglen flags tcpd =
     (if 0 < seglen \<or> flags AND (TH_SYN e OR TH_FIN e) \<noteq> 0
      then
        (let seq_not_advanced0 = (nextseq (fwd tcpd) \<noteq> 0 \<and> LT_SEQ seq (nextseq (fwd tcpd)))
         in if ta_has_flag TCP_A_KEEP_ALIVE tcpd then tcpd
            else
              (let seq_not_advanced =
                     (if 1 < seglen \<and> nextseq (fwd tcpd) - 1 = seq then False
                      else seq_not_advanced0);
                   t = time_since (abs_ts pinfo) (lastacktime (rev_flow tcpd))
               in if seq_not_advanced \<and> 2 \<le> dupacknum (rev_flow tcpd)
                     \<and> lastack (rev_flow tcpd) = seq \<and> t < 20000000
                  then flag_ta pinfo seq ack TCP_A_FAST_RETRANSMISSION tcpd
                  else
                    (let t = time_since (abs_ts pinfo) (nextseqtime (fwd tcpd))
                     in if seq_not_advanced \<and> t < ooo_thres tcpd
                           \<and> nextseq (fwd tcpd) \<noteq> seq + seglen
                        then flag_ta pinfo seq ack TCP_A_OUT_OF_ORDER tcpd
                        else if 0 < seglen \<and> lastack (rev_flow tcpd) \<noteq> 0
                                \<and> LE_SEQ (seq + seglen) (lastack (rev_flow tcpd))
                        then flag_ta pinfo seq ack TCP_A_SPURIOUS_RETRANSMISSION tcpd
                        else if seq_not_advanced
                        then with_ta (num pinfo) seq ack
                               (\<lambda>a. a\<lparr>ta_flags := ta_flags a OR TCP_A_RETRANSMISSION,
                                      rto_ts := nstime_delta e (abs_ts pinfo) (nextseqtime (fwd tcpd)),
                                      rto_frame := nextseqframe (fwd tcpd)\<rparr>) tcpd
                        else tcpd)))
      else tcpd)"

text \<open>
  Label \<open>finished_checking_retransmission_type\<close>, lines 2195-2213: the value of the
  local \<open>nextseq\<close> and the new head of the forward list of unacknowledged segments.
\<close>

definition adds_unacked :: "tcp_env \<Rightarrow> guint32 \<Rightarrow> guint16 \<Rightarrow> tcp_analysis \<Rightarrow> bool" where
  "adds_unacked e seglen flags tcpd =
     ((seglen \<noteq> 0 \<or> flags AND (TH_SYN e OR TH_FIN e) \<noteq> 0)
      \<and> segment_count (fwd tcpd) < TCP_MAX_UNACKED_SEGMENTS e)"

definition local_nextseq ::
  "tcp_env \<Rightarrow> guint32 \<Rightarrow> guint32 \<Rightarrow> guint16 \<Rightarrow> tcp_analysis \<Rightarrow> guint32" where
  "local_nextseq e seq seglen flags tcpd =
     (if adds_unacked e seglen flags tcpd \<and> flags AND (TH_SYN e OR TH_FIN e) \<noteq> 0
      then seq + seglen + 1 else seq + seglen)"

definition add_unacked ::
  "tcp_env \<Rightarrow> packet_info \<Rightarrow> guint32 \<Rightarrow> guint32 \<Rightarrow> guint16 \<Rightarrow> tcp_analysis \<Rightarrow> tcp_analysis" where
  "add_unacked e pinfo seq seglen flags tcpd =
     (if adds_unacked e seglen flags tcpd
      then fwd_upd (\<lambda>f. f\<lparr>segments :=
                            \<lparr>ua_frame = num pinfo, ua_seq = seq,
                             ua_nextseq = local_nextseq e seq seglen flags tcpd,
                             ua_ts = abs_ts pinfo\<rparr> # segments f,
                          segment_count := segment_count f + 1\<rparr>) tcpd
      else tcpd)"

text \<open>Lines 2215-2227: the highest \<open>nextseq\<close> seen so far.\<close>

definition store_nextseq :: "packet_info \<Rightarrow> guint32 \<Rightarrow> tcp_analysis \<Rightarrow> tcp_analysis" where
  "store_nextseq pinfo nseq tcpd =
     (if GT_SEQ nseq (nextseq (fwd tcpd)) \<or> nextseq (fwd tcpd) = 0
      then (if \<not> ta_has_flag TCP_A_ZERO_WINDOW_PROBE tcpd
            then fwd_upd (\<lambda>f. f\<lparr>nextseq := nseq, nextseqframe := num pinfo,
                                  nextseqtime := \<lparr>secs = secs (abs_ts pinfo),
                                                  nsecs = nsecs (abs_ts pinfo)\<rparr>\<rparr>) tcpd
            else tcpd)
      else tcpd)"

text \<open>Lines 2229-2236: the highest continuous sequence number, \<open>maxseqtobeacked\<close>.\<close>

definition store_maxseqtobeacked :: "guint32 \<Rightarrow> tcp_analysis \<Rightarrow> tcp_analysis" where
  "store_maxseqtobeacked seq tcpd =
     (if EQ_SEQ seq (maxseqtobeacked (fwd tcpd)) \<or> maxseqtobeacked (fwd tcpd) = 0
      then (if \<not> ta_has_flag TCP_A_ZERO_WINDOW_PROBE tcpd
            then fwd_upd (\<lambda>f. f\<lparr>maxseqtobeacked := nextseq f\<rparr>) tcpd
            else tcpd)
      else tcpd)"

text \<open>Lines 2239-2253: remember window, ack and the flags of this segment.\<close>

definition remember_segment ::
  "packet_info \<Rightarrow> guint32 \<Rightarrow> guint32 \<Rightarrow> tcp_analysis \<Rightarrow> tcp_analysis" where
  "remember_segment pinfo ack win tcpd =
     fwd_upd (\<lambda>f. f\<lparr>window := win, lastack := ack,
                     lastacktime := \<lparr>secs = secs (abs_ts pinfo), nsecs = nsecs (abs_ts pinfo)\<rparr>,
                     lastsegmentflags := (case ta_get tcpd of None \<Rightarrow> 0 | Some a \<Rightarrow> ta_flags a)\<rparr>)
       tcpd"

text \<open>
  Lines 2282-2301: deleting one entry of the reverse list. The count of the reverse
  flow is decremented and, for an SCPS-capable reverse flow, the largest acknowledged
  segment size of the forward flow is tracked.
\<close>

definition delete_unacked :: "tcp_unacked_t \<Rightarrow> tcp_analysis \<Rightarrow> tcp_analysis" where
  "delete_unacked ual tcpd =
     (let t1 = (if scps_capable (rev_flow tcpd)
                   \<and> ua_nextseq ual - ua_seq ual > maxsizeacked (fwd tcpd)
                then fwd_upd (\<lambda>f. f\<lparr>maxsizeacked := ua_nextseq ual - ua_seq ual\<rparr>) tcpd
                else tcpd)
      in rev_upd (\<lambda>f. f\<lparr>segment_count := segment_count f - 1\<rparr>) t1)"

text \<open>
  Lines 2256-2302: the loop over the reverse list. The result is the list of the
  entries that stay, in order, and the state. A partly acknowledged entry has its
  \<open>seq\<close> moved to \<open>ack\<close> and is looked at again (\<open>continue\<close> without advancing).
\<close>

function ack_unacked ::
  "tcp_env \<Rightarrow> packet_info \<Rightarrow> guint32 \<Rightarrow> guint32 \<Rightarrow> tcp_unacked_t list \<Rightarrow> tcp_analysis
   \<Rightarrow> tcp_unacked_t list \<times> tcp_analysis" where
  "ack_unacked e pinfo seq ack [] tcpd = ([], tcpd)"
| "ack_unacked e pinfo seq ack (ual # rest) tcpd =
     (if ack = ua_nextseq ual
      then ack_unacked e pinfo seq ack rest
             (delete_unacked ual
                (ta_upd (\<lambda>a. a\<lparr>frame_acked := ua_frame ual,
                               ta_ts := nstime_delta e (abs_ts pinfo) (ua_ts ual)\<rparr>)
                   (tcp_analyze_get_acked_struct (num pinfo) seq ack True tcpd)))
      else if GT_SEQ ack (ua_seq ual) \<and> LE_SEQ ack (ua_nextseq ual)
      then ack_unacked e pinfo seq ack (ual\<lparr>ua_seq := ack\<rparr> # rest) tcpd
      else if GT_SEQ (ua_nextseq ual) ack
      then (case ack_unacked e pinfo seq ack rest tcpd of (kept, t') \<Rightarrow> (ual # kept, t'))
      else ack_unacked e pinfo seq ack rest (delete_unacked ual tcpd))"
  by pat_completeness auto
termination
  by (relation "measure (\<lambda>(e, pinfo, seq, ack, l, tcpd).
        2 * length l + (case l of [] \<Rightarrow> 0
          | ual # rest \<Rightarrow> if GT_SEQ ack (ua_seq ual) \<and> LE_SEQ ack (ua_nextseq ual) then 1 else 0))")
     (auto simp: GT_SEQ_def split: list.splits)

definition ack_segments ::
  "tcp_env \<Rightarrow> packet_info \<Rightarrow> guint32 \<Rightarrow> guint32 \<Rightarrow> tcp_analysis \<Rightarrow> tcp_analysis" where
  "ack_segments e pinfo seq ack tcpd =
     (case ack_unacked e pinfo seq ack (segments (rev_flow tcpd)) tcpd of
        (kept, t') \<Rightarrow> rev_upd (\<lambda>f. f\<lparr>segments := kept\<rparr>) t')"

text \<open>
  Lines 2311-2321: the scan for the lowest \<open>seq\<close> and the highest \<open>nextseq\<close>, both
  relative to \<open>base_seq\<close>, over the forward list.
\<close>

primrec bif_scan :: "guint32 \<Rightarrow> tcp_unacked_t list \<Rightarrow> guint32 \<times> guint32 \<Rightarrow> guint32 \<times> guint32" where
  "bif_scan base [] fl = fl"
| "bif_scan base (ual # rest) fl =
     bif_scan base rest
       (case fl of (first_seq, last_seq) \<Rightarrow>
          (if ua_seq ual - base < first_seq then ua_seq ual - base else first_seq,
           if ua_nextseq ual - base > last_seq then ua_nextseq ual - base else last_seq))"

definition in_flight :: "tcp_flow_t \<Rightarrow> guint32" where
  "in_flight f =
     (case segments f of [] \<Rightarrow> 0
      | ual # rest \<Rightarrow>
          (case bif_scan (base_seq f) (segments f)
                  (ua_seq ual - base_seq f, ua_nextseq ual - base_seq f) of
             (first_seq, last_seq) \<Rightarrow> last_seq - first_seq))"

text \<open>Lines 2331-2342: the counter of bytes sent since the last PSH.\<close>

definition push_bytes :: "tcp_env \<Rightarrow> guint32 \<Rightarrow> guint16 \<Rightarrow> tcp_flow_t \<Rightarrow> tcp_flow_t" where
  "push_bytes e seglen flags f =
     (if flags AND TH_PUSH e \<noteq> 0 \<and> \<not> push_set_last f
      then f\<lparr>push_bytes_sent := push_bytes_sent f + seglen, push_set_last := True\<rparr>
      else if flags AND TH_PUSH e \<noteq> 0 \<and> push_set_last f
      then f\<lparr>push_bytes_sent := seglen, push_set_last := True\<rparr>
      else if push_set_last f
      then f\<lparr>push_bytes_sent := seglen, push_set_last := False\<rparr>
      else f\<lparr>push_bytes_sent := push_bytes_sent f + seglen\<rparr>)"

text \<open>Lines 2304-2347: bytes in flight.\<close>

definition bif_cond :: "tcp_env \<Rightarrow> guint32 \<Rightarrow> tcp_analysis \<Rightarrow> bool" where
  "bif_cond e seglen tcpd =
     (tcp_track_bytes_in_flight e \<and> seglen \<noteq> 0 \<and> segments (fwd tcpd) \<noteq> []
      \<and> valid_bif (fwd tcpd))"

definition track_bytes_in_flight ::
  "tcp_env \<Rightarrow> packet_info \<Rightarrow> guint32 \<Rightarrow> guint32 \<Rightarrow> guint32 \<Rightarrow> guint16 \<Rightarrow> tcp_analysis \<Rightarrow> tcp_analysis" where
  "track_bytes_in_flight e pinfo seq ack seglen flags tcpd =
     (if bif_cond e seglen tcpd
      then
        (let t1 = (if 0 < in_flight (fwd tcpd) \<and> in_flight (fwd tcpd) < 2000000000
                   then with_ta (num pinfo) seq ack
                          (\<lambda>a. a\<lparr>bytes_in_flight := in_flight (fwd tcpd)\<rparr>) tcpd
                   else tcpd);
             t2 = fwd_upd (push_bytes e seglen flags) t1
         in with_ta (fd_num pinfo) seq ack
              (\<lambda>a. a\<lparr>ta_push_bytes_sent := push_bytes_sent (fwd t2)\<rparr>) t2)
      else tcpd)"

text \<open>The whole function; a null \<open>tcpd\<close> returns at once.\<close>

definition tcp_analyze_sequence_number ::
  "tcp_env \<Rightarrow> packet_info \<Rightarrow> guint32 \<Rightarrow> guint32 \<Rightarrow> guint32 \<Rightarrow> guint16 \<Rightarrow> guint32
   \<Rightarrow> tcp_analysis option \<Rightarrow> tcp_analysis option" where
  "tcp_analyze_sequence_number e pinfo seq ack seglen flags win tcpd_ptr =
     (case tcpd_ptr of
        None \<Rightarrow> None
      | Some tcpd \<Rightarrow>
          (let t1 = store_base_seq e seq ack flags tcpd;
               t2 = fwd_checks e pinfo seq ack seglen flags win t1;
               t3 = reset_dupack pinfo ack t2;
               t4 = acked_lost_packet e pinfo seq ack flags t3;
               t5 = retransmission_check e pinfo seq ack seglen flags t4;
               nseq = local_nextseq e seq seglen flags t5;
               t6 = add_unacked e pinfo seq seglen flags t5;
               t7 = store_nextseq pinfo nseq t6;
               t8 = store_maxseqtobeacked seq t7;
               t9 = remember_segment pinfo ack win t8;
               t10 = ack_segments e pinfo seq ack t9
           in Some (track_bytes_in_flight e pinfo seq ack seglen flags t10)))"

subsection \<open>Conversation data and the caller in dissect_tcp\<close>

text \<open>\<open>wmem_new0\<close> of a flow: every field zero, the tree of multisegment PDUs empty.\<close>

definition tcp_flow_new0 :: tcp_flow_t where
  "tcp_flow_new0 = \<lparr> static_flags = 0, base_seq = 0, window = 0, win_scale = 0,
     lastsegmentflags = 0, valid_bif = False, push_bytes_sent = 0, push_set_last = False,
     scps_capable = False, maxsizeacked = 0, segments = [], segment_count = 0, lastack = 0,
     lastacktime = nstime_zero, lastnondupack = 0, dupacknum = 0, nextseq = 0,
     maxseqtobeacked = 0, nextseqframe = 0, nextseqtime = nstime_zero, flow_flags = 0,
     fin = 0, maxnextseq = 0, multisegment_pdus = [] \<rparr>"

text \<open>
  \<open>init_tcp_conversation_data\<close> (lines 1406-1450), with \<open>tcp_analyze_seq\<close> enabled so that
  the sequence-analysis members exist.
\<close>

definition init_tcp_conversation_data :: tcp_analysis where
  "init_tcp_conversation_data =
     \<lparr> flow1 = tcp_flow_new0\<lparr>win_scale := - 1, window := 0xFFFFFFFF, valid_bif := True,
                               push_bytes_sent := 0, push_set_last := False\<rparr>,
       flow2 = tcp_flow_new0\<lparr>window := 0xFFFFFFFF, win_scale := - 1, valid_bif := True,
                               push_bytes_sent := 0, push_set_last := False\<rparr>,
       fwd_is_flow1 = True, ta = None, acked_table = Map.empty, ts_mru_syn = nstime_zero,
       ts_first_rtt = nstime_zero \<rparr>"

text \<open>
  \<open>get_tcp_conversation_data\<close> (lines 1479-1526) called with a conversation whose data
  exists: \<open>direction\<close> is the result of comparing the packet's addresses (ports when the
  addresses are equal); the pointers are set from it and \<open>ta\<close> is cleared.
\<close>

definition get_tcp_conversation_data :: "int \<Rightarrow> tcp_analysis \<Rightarrow> tcp_analysis" where
  "get_tcp_conversation_data direction tcpd = tcpd\<lparr>fwd_is_flow1 := (direction \<ge> 0), ta := None\<rparr>"

text \<open>
  What \<open>dissect_tcp\<close> reads of a packet before the analysis: the frame (\<open>pinfo\<close>), the
  direction, the header fields of \<open>tcph\<close>, and the conversation that
  \<open>find_conversation\<close> would return for the reversed addresses (line 6120).
\<close>

record tcp_packet =
  pk_pinfo :: packet_info
  pk_direction :: int
  th_seq :: guint32
  th_ack :: guint32
  th_seglen :: guint32
  th_flags :: guint16
  th_win :: guint32
  pk_other_conv :: "tcp_analysis option"

text \<open>Lines 6088-6090: a SYN whose sequence number differs from the recorded base.\<close>

definition port_reuse_syn :: "tcp_env \<Rightarrow> tcp_packet \<Rightarrow> tcp_analysis \<Rightarrow> bool" where
  "port_reuse_syn e pk tcpd =
     (th_flags pk AND (TH_SYN e OR TH_ACK e) = TH_SYN e
      \<and> static_flags (fwd tcpd) AND TCP_S_BASE_SEQ_SET \<noteq> 0
      \<and> th_seq pk \<noteq> base_seq (fwd tcpd))"

text \<open>Lines 6111-6113: the same test for a SYN/ACK.\<close>

definition port_reuse_synack :: "tcp_env \<Rightarrow> tcp_packet \<Rightarrow> tcp_analysis \<Rightarrow> bool" where
  "port_reuse_synack e pk tcpd =
     (th_flags pk AND (TH_SYN e OR TH_ACK e) = (TH_SYN e OR TH_ACK e)
      \<and> static_flags (fwd tcpd) AND TCP_S_BASE_SEQ_SET \<noteq> 0
      \<and> th_seq pk \<noteq> base_seq (fwd tcpd))"

text \<open>
  Lines 6078-6130: the conversation data the packet is analysed in. On a reused port a
  SYN starts a fresh \<open>tcp_analysis\<close>; a SYN/ACK moves to the conversation of the opposite
  direction when there is one. Both mark the packet \<open>TCP_A_REUSED_PORTS\<close>.
\<close>

definition dissect_tcp_conversation :: "tcp_env \<Rightarrow> tcp_packet \<Rightarrow> tcp_analysis \<Rightarrow> tcp_analysis" where
  "dissect_tcp_conversation e pk conv =
     (let pinfo = pk_pinfo pk;
          t0 = get_tcp_conversation_data (pk_direction pk) conv;
          t1 = (if port_reuse_syn e pk t0
                then flag_ta pinfo (th_seq pk) (th_ack pk) TCP_A_REUSED_PORTS
                       (if \<not> visited pinfo
                        then get_tcp_conversation_data (pk_direction pk) init_tcp_conversation_data
                        else t0)
                else t0)
      in if port_reuse_synack e pk t1
         then flag_ta pinfo (th_seq pk) (th_ack pk) TCP_A_REUSED_PORTS
                (case pk_other_conv pk of
                   None \<Rightarrow> t1
                 | Some c \<Rightarrow> get_tcp_conversation_data (pk_direction pk) c)
         else t1)"

text \<open>
  \<open>verify_tcp_window_scaling\<close> (lines 1752-1777) and \<open>verify_scps\<close> (lines 5068-5081).
\<close>

definition verify_tcp_window_scaling :: "bool \<Rightarrow> tcp_analysis \<Rightarrow> tcp_analysis" where
  "verify_tcp_window_scaling is_synack tcpd =
     (if win_scale (fwd tcpd) = - 1
      then rev_upd (\<lambda>f. f\<lparr>win_scale := - 2\<rparr>) (fwd_upd (\<lambda>f. f\<lparr>win_scale := - 2\<rparr>) tcpd)
      else if is_synack \<and> win_scale (rev_flow tcpd) = - 2
      then fwd_upd (\<lambda>f. f\<lparr>win_scale := - 2\<rparr>) tcpd
      else tcpd)"

definition verify_scps :: "tcp_analysis \<Rightarrow> tcp_analysis" where
  "verify_scps tcpd =
     (if \<not> scps_capable (flow1 tcpd) \<or> \<not> scps_capable (flow2 tcpd)
      then tcpd\<lparr>flow1 := (flow1 tcpd)\<lparr>scps_capable := False\<rparr>,
                flow2 := (flow2 tcpd)\<lparr>scps_capable := False\<rparr>\<rparr>
      else tcpd)"

text \<open>
  Modelled from the spec: \<open>nstime_is_zero\<close> belongs to wsutil, outside the sources; a
  time is zero when both of its fields are.
\<close>

definition nstime_is_zero :: "nstime_t \<Rightarrow> bool" where
  "nstime_is_zero ts = (secs ts = 0 \<and> nsecs ts = 0)"

text \<open>
  What \<open>dissect_tcp\<close> writes to \<open>tcpd\<close> after the analysis, with \<open>tcp_analyze_seq\<close>
  enabled: the time of the most recent SYN (line 6364), the initial round-trip time,
  taken at the first pure ACK after a SYN (lines 6381-6394), and, for a packet seen for
  the first time, the window scaling and SCPS capability settled by a SYN (lines
  6596-6614).
\<close>

definition dissect_tcp_after_analysis :: "tcp_env \<Rightarrow> tcp_packet \<Rightarrow> tcp_analysis \<Rightarrow> tcp_analysis" where
  "dissect_tcp_after_analysis e pk tcpd =
     (let pinfo = pk_pinfo pk;
          flags = th_flags pk;
          t1 = (if flags AND TH_SYN e \<noteq> 0 \<and> flags AND TH_ACK e = 0
                then tcpd\<lparr>ts_mru_syn := abs_ts pinfo\<rparr> else tcpd);
          t2 = (if flags AND (TH_SYN e OR TH_ACK e) = TH_ACK e
                   \<and> \<not> nstime_is_zero (ts_mru_syn t1) \<and> nstime_is_zero (ts_first_rtt t1)
                then t1\<lparr>ts_first_rtt := nstime_delta e (abs_ts pinfo) (ts_mru_syn t1)\<rparr>
                else t1)
      in if \<not> visited pinfo
         then (let t3 = (if flags AND TH_SYN e = TH_SYN e
                         then verify_tcp_window_scaling (flags AND TH_ACK e = TH_ACK e) t2
                         else t2)
               in if flags AND (TH_SYN e OR TH_ACK e) = (TH_SYN e OR TH_ACK e)
                     \<and> (scps_capable (rev_flow t3) \<or> scps_capable (fwd t3))
                  then verify_scps t3 else t3)
         else t2)"

text \<open>
  The part of \<open>dissect_tcp\<close> that reads and writes \<open>tcpd\<close> for a whole segment (not an
  IP fragment, not part of an error packet, the header complete) without TCP options,
  with \<open>tcp_analyze_seq\<close> enabled and out-of-order reassembly disabled: the
  conversation is chosen (lines 6078-6130), a packet seen for the first time is handed
  to \<open>tcp_analyze_sequence_number\<close> (lines 6188-6191), and the writes above follow.
  The dissection of options and of the payload, which also write to \<open>tcpd\<close>
  (\<open>win_scale\<close> and \<open>scps_capable\<close> from options, the index of multisegment PDUs from
  the payload), is not part of it.
\<close>

definition dissect_tcp_analyze :: "tcp_env \<Rightarrow> tcp_packet \<Rightarrow> tcp_analysis \<Rightarrow> tcp_analysis option" where
  "dissect_tcp_analyze e pk conv =
     (let tcpd = dissect_tcp_conversation e pk conv
      in map_option (dissect_tcp_after_analysis e pk)
           (if \<not> visited (pk_pinfo pk)
            then tcp_analyze_sequence_number e (pk_pinfo pk) (th_seq pk) (th_ack pk)
                   (th_seglen pk) (th_flags pk) (th_win pk) (Some tcpd)
            else Some tcpd))"

text \<open>
  A capture read once from its first packet: the packets of one conversation in order,
  each through \<open>dissect_tcp_analyze\<close>.
\<close>

fun first_pass :: "tcp_env \<Rightarrow> tcp_packet list \<Rightarrow> tcp_analysis \<Rightarrow> tcp_analysis option" where
  "first_pass e [] conv = Some conv"
| "first_pass e (pk # pks) conv =
     (case dissect_tcp_analyze e pk conv of
        None \<Rightarrow> None
      | Some conv' \<Rightarrow> first_pass e pks conv')"


subsection \<open>tcp_dissect_pdus\<close>

text \<open>
  \<open>tcp_dissect_pdus\<close> (lines 3651-3842) walks the PDUs of a buffer. \<open>int\<close> is a 32-bit
  word read with \<open>sint\<close>; \<open>offset += plen\<close> wraps. What the function calls outside the
  file is a parameter: the tvbuff accessors, \<open>proto_tree_add_uint\<close> (line 3783), the
  construction of the tvbuff of the PDU by \<open>tvb_new_subset_length_caplen\<close> (line 3803),
  the callbacks \<open>get_pdu_len\<close> and \<open>dissect_pdu\<close>, the exception classes and
  \<open>DESEGMENT_ONE_MORE_SEGMENT\<close>. A call that throws returns \<open>Inl\<close> (or \<open>Some\<close>) of the
  exception; only the exceptions of \<open>dissect_pdu\<close> are caught (lines 3818-3831), every
  other one leaves the function. The search for the TCP layer (lines 3770-3775) and
  \<open>show_reported_bounds_error\<close> do not decide how the loop goes on and are left out.
\<close>

type_synonym gint = "32 word"

text \<open>How the function leaves the loop.\<close>

datatype 'x pdu_outcome =
  No_More_Data | Need_More_Data | Bounds_Error | Offset_Overflow | Assertion_Failed | Thrown 'x

record 'u pdu_pinfo =
  can_desegment :: guint16
  pd_visited :: bool
  desegment_offset :: gint
  desegment_len :: guint32
  want_pdu_tracking :: gint
  bytes_until_next_pdu :: guint32
  dissector_state :: 'u

record ('u, 'x) pdu_env =
  tvb_reported_length_remaining :: "gint \<Rightarrow> gint"
  tvb_ensure_captured_length_remaining :: "gint \<Rightarrow> 'x + guint32"
  get_pdu_len :: "'u pdu_pinfo \<Rightarrow> gint \<Rightarrow> 'x + guint32"
  proto_tree_add_uint :: "gint \<Rightarrow> guint32 \<Rightarrow> 'x option"
  tvb_new_subset_length_caplen :: "gint \<Rightarrow> guint32 \<Rightarrow> guint32 \<Rightarrow> 'x option"
  dissect_pdu :: "gint \<Rightarrow> guint32 \<Rightarrow> guint32 \<Rightarrow> 'u pdu_pinfo \<Rightarrow> 'x option \<times> 'u pdu_pinfo"
  nonfatal_error :: "'x \<Rightarrow> bool"
  DESEGMENT_ONE_MORE_SEGMENT :: guint32
  pdu_tcp_analyze_seq :: bool

text \<open>
  One pass through the body of the \<open>while\<close> loop at \<open>offset\<close>: \<open>Return\<close> for the exits
  before the PDU is dissected (the loop test included), \<open>Break_After_PDU\<close> for the exits
  after \<open>dissect_pdu\<close> ran (a rethrown exception, or the overflow test of line 3839), and
  \<open>Next_PDU\<close> with the new offset when the loop goes round again.
\<close>

datatype ('u, 'x) pdu_step =
  Return "'x pdu_outcome" "'u pdu_pinfo"
| Break_After_PDU "'x pdu_outcome" "'u pdu_pinfo"
| Next_PDU gint "'u pdu_pinfo"

definition tcp_dissect_pdus_step ::
  "('u, 'x) pdu_env \<Rightarrow> bool \<Rightarrow> guint32 \<Rightarrow> gint \<Rightarrow> 'u pdu_pinfo \<Rightarrow> ('u, 'x) pdu_step" where
  "tcp_dissect_pdus_step env proto_desegment fixed_len offset pinfo =
     (if \<not> (0 < sint (tvb_reported_length_remaining env offset)) then Return No_More_Data pinfo
      else
        (case tvb_ensure_captured_length_remaining env offset of
           Inl x \<Rightarrow> Return (Thrown x) pinfo
         | Inr captured_length_remaining \<Rightarrow>
             if proto_desegment \<and> can_desegment pinfo \<noteq> 0
                \<and> captured_length_remaining < fixed_len
             then Return Need_More_Data
                   (pinfo\<lparr>desegment_offset := offset,
                          desegment_len := DESEGMENT_ONE_MORE_SEGMENT env\<rparr>)
             else
               (case get_pdu_len env pinfo offset of
                  Inl x \<Rightarrow> Return (Thrown x) pinfo
                | Inr plen \<Rightarrow>
                    if plen = 0
                    then (if proto_desegment \<and> can_desegment pinfo \<noteq> 0
                          then Return Need_More_Data
                                (pinfo\<lparr>desegment_offset := offset,
                                       desegment_len := DESEGMENT_ONE_MORE_SEGMENT env\<rparr>)
                          else Return Assertion_Failed pinfo)
                    else if plen < fixed_len then Return Bounds_Error pinfo
                    else
                      (let remaining_bytes = tvb_reported_length_remaining env offset;
                           p1 = (if \<not> pd_visited pinfo \<and> pdu_tcp_analyze_seq env
                                    \<and> plen > remaining_bytes
                                 then pinfo\<lparr>want_pdu_tracking := 2,
                                            bytes_until_next_pdu := plen - remaining_bytes\<rparr>
                                 else pinfo)
                       in if proto_desegment \<and> can_desegment p1 \<noteq> 0
                             \<and> captured_length_remaining < plen
                          then Return Need_More_Data
                                (p1\<lparr>desegment_offset := offset,
                                    desegment_len := plen - captured_length_remaining\<rparr>)
                          else
                            (case proto_tree_add_uint env offset plen of
                               Some x \<Rightarrow> Return (Thrown x) p1
                             | None \<Rightarrow>
                                 (let length = (if captured_length_remaining > plen then plen
                                                else captured_length_remaining)
                                  in case tvb_new_subset_length_caplen env offset length plen of
                                       Some x \<Rightarrow> Return (Thrown x) p1
                                     | None \<Rightarrow>
                                         (case dissect_pdu env offset length plen p1 of
                                            (thrown, p2) \<Rightarrow>
                                              (case (case thrown of
                                                       None \<Rightarrow> None
                                                     | Some x \<Rightarrow>
                                                         if nonfatal_error env x then None
                                                         else Some x) of
                                                 Some x \<Rightarrow> Break_After_PDU (Thrown x) p2
                                               | None \<Rightarrow>
                                                   if sint (offset + plen) \<le> sint offset
                                                   then Break_After_PDU Offset_Overflow p2
                                                   else Next_PDU (offset + plen) p2))))))))"

text \<open>
  The loop. The result is how it ended, the offsets at which \<open>dissect_pdu\<close> was called,
  in order, and the final \<open>pinfo\<close>.
\<close>

function tcp_dissect_pdus_loop ::
  "('u, 'x) pdu_env \<Rightarrow> bool \<Rightarrow> guint32 \<Rightarrow> gint \<Rightarrow> 'u pdu_pinfo
   \<Rightarrow> 'x pdu_outcome \<times> gint list \<times> 'u pdu_pinfo" where
  "tcp_dissect_pdus_loop env proto_desegment fixed_len offset pinfo =
     (case tcp_dissect_pdus_step env proto_desegment fixed_len offset pinfo of
        Return outcome p \<Rightarrow> (outcome, [], p)
      | Break_After_PDU outcome p \<Rightarrow> (outcome, [offset], p)
      | Next_PDU offset' p \<Rightarrow>
          (case tcp_dissect_pdus_loop env proto_desegment fixed_len offset' p of
             (outcome, offsets, p') \<Rightarrow> (outcome, offset # offsets, p')))"
  by pat_completeness auto
termination
  by (relation "measure (\<lambda>(env, proto_desegment, fixed_len, offset, pinfo).
                  nat (2 ^ 31 - sint offset))")
     (auto simp add: tcp_dissect_pdus_step_def Let_def sint_lt [where 'a = 32, simplified]
        split: if_splits sum.splits option.splits prod.splits)

definition tcp_dissect_pdus ::
  "('u, 'x) pdu_env \<Rightarrow> bool \<Rightarrow> guint32 \<Rightarrow> 'u pdu_pinfo
   \<Rightarrow> 'x pdu_outcome \<times> gint list \<times> 'u pdu_pinfo" where
  "tcp_dissect_pdus env proto_desegment fixed_len pinfo =
     tcp_dissect_pdus_loop env proto_desegment fixed_len 0 pinfo"


subsection \<open>mptcp_cryptodata_sha1\<close>

text \<open>
  Modelled from the spec: \<open>HASH_SHA1_LENGTH\<close> (20, the size of a SHA-1 digest) and the
  glib byte-order macros are used by packet-tcp.c but defined outside the sources. An
  integer object of \<open>n\<close> bytes lies in memory in the byte order of the host
  (\<open>object_bytes\<close>, \<open>object_value\<close>); \<open>GUINT64_TO_BE\<close> and the \<open>FROM_BE\<close> macros reverse
  the bytes on a little-endian host and do nothing on a big-endian one. The hash
  function of libgcrypt is a parameter.
\<close>

definition HASH_SHA1_LENGTH :: nat where "HASH_SHA1_LENGTH = 20"

definition be_bytes :: "nat \<Rightarrow> 'a::len word \<Rightarrow> guint8 list" where
  "be_bytes n w = map (\<lambda>i. ucast (drop_bit (8 * (n - 1 - i)) w)) [0..<n]"

definition be_word :: "guint8 list \<Rightarrow> 'a::len word" where
  "be_word bs = foldl (\<lambda>acc b. push_bit 8 acc OR ucast b) 0 bs"

definition GUINT32_SWAP_LE_BE :: "guint32 \<Rightarrow> guint32" where
  "GUINT32_SWAP_LE_BE v = be_word (rev (be_bytes 4 v))"

definition GUINT64_SWAP_LE_BE :: "guint64 \<Rightarrow> guint64" where
  "GUINT64_SWAP_LE_BE v = be_word (rev (be_bytes 8 v))"

definition GUINT64_TO_BE :: "bool \<Rightarrow> guint64 \<Rightarrow> guint64" where
  "GUINT64_TO_BE little_endian v = (if little_endian then GUINT64_SWAP_LE_BE v else v)"
definition GUINT64_FROM_BE :: "bool \<Rightarrow> guint64 \<Rightarrow> guint64" where
  "GUINT64_FROM_BE little_endian v = (if little_endian then GUINT64_SWAP_LE_BE v else v)"
definition GUINT32_FROM_BE :: "bool \<Rightarrow> guint32 \<Rightarrow> guint32" where
  "GUINT32_FROM_BE little_endian v = (if little_endian then GUINT32_SWAP_LE_BE v else v)"

definition object_bytes :: "bool \<Rightarrow> nat \<Rightarrow> 'a::len word \<Rightarrow> guint8 list" where
  "object_bytes little_endian n w = (if little_endian then rev (be_bytes n w) else be_bytes n w)"

definition object_value :: "bool \<Rightarrow> guint8 list \<Rightarrow> 'a::len word" where
  "object_value little_endian bs = be_word (if little_endian then rev bs else bs)"

text \<open>Lines 2556-2571.\<close>

definition mptcp_cryptodata_sha1 ::
  "bool \<Rightarrow> (guint8 list \<Rightarrow> guint8 list) \<Rightarrow> guint64 \<Rightarrow> guint32 \<times> guint64" where
  "mptcp_cryptodata_sha1 little_endian sha1 key =
     (let pseudokey = GUINT64_TO_BE little_endian key;
          digest_buf = sha1 (object_bytes little_endian 8 pseudokey);
          token' = (object_value little_endian (take 4 digest_buf) :: guint32);
          isdn' = (object_value little_endian
                     (take 8 (drop (HASH_SHA1_LENGTH - 8) digest_buf)) :: guint64)
      in (GUINT32_FROM_BE little_endian token', GUINT64_FROM_BE little_endian isdn'))"


subsection \<open>Multisegment PDUs: the head of desegment_tcp and the FIN block of dissect_tcp\<close>

text \<open>
  Modelled from the spec: \<open>wmem_tree_lookup32\<close> and \<open>wmem_tree_lookup32_le\<close> belong to the
  wmem library, outside the sources. On the list of (key, value) pairs the first is the
  value stored under the key, the second the value stored under the greatest key that
  is less than or equal to the one asked for.
\<close>

definition wmem_tree_lookup32 :: "(guint32 \<times> 'a) list \<Rightarrow> guint32 \<Rightarrow> 'a option" where
  "wmem_tree_lookup32 tree k = map_of tree k"

definition wmem_tree_lookup32_le :: "(guint32 \<times> 'a) list \<Rightarrow> guint32 \<Rightarrow> 'a option" where
  "wmem_tree_lookup32_le tree k =
     (case filter (\<lambda>k'. k' \<le> k) (map fst tree) of
        [] \<Rightarrow> None
      | k0 # ks \<Rightarrow> map_of tree (fold max ks k0))"

text \<open>
  What the two pieces of code take from outside the file: the flag masks
  \<open>TCP_FLOW_REASSEMBLE_UNTIL_FIN\<close> and \<open>MSP_FLAGS_MISSING_FIRST_SEGMENT\<close> (packet-tcp.h)
  and the reassembly table. \<open>fragment_add\<close> gets the frame, the identifier of the
  reassembly (\<open>msp->first_frame\<close>), the offset of the fragment and its length, and
  returns the reassembled data when the reassembly is complete; \<open>fragment_get\<close> returns
  the field \<open>reassembled_in\<close> of the head it finds.
\<close>

record 'd reassembly_env =
  TCP_FLOW_REASSEMBLE_UNTIL_FIN :: guint32
  MSP_FLAGS_MISSING_FIRST_SEGMENT :: guint32
  fragment_add :: "packet_info \<Rightarrow> guint32 \<Rightarrow> guint32 \<Rightarrow> guint32 \<Rightarrow> 'd option"
  fragment_get :: "packet_info \<Rightarrow> guint32 \<Rightarrow> guint32 option"

text \<open>
  What the code does to the outside: text appended to the Info column, items added to
  the protocol tree, a fragment handed to the reassembly table, and the payload handed
  to \<open>process_tcp_payload\<close>, which calls the subdissector.
\<close>

datatype 'd tcp_event =
  Col_Info string
| Reassembled_In guint32
| Segment_Data string gint
| Fragment_Added guint32 guint32 guint32
| Payload_Processed 'd
| Fin_Retransmission guint32

text \<open>
  The head of \<open>desegment_tcp\<close>, lines 3047-3181, from the label \<open>again\<close> to the lookup
  of the MSP that the segment continues. \<open>nbytes\<close> is
  \<open>tvb_reported_length_remaining(tvb, offset)\<close>. The head either returns, with the items
  it added, or goes on with the MSP it found. It reads \<open>tcpd\<close> and never writes it.
\<close>

datatype 'd desegment_head =
  Returned "'d tcp_event list"
| Goes_On "tcp_multisegment_pdu option"

definition desegment_tcp_head ::
  "'d reassembly_env \<Rightarrow> packet_info \<Rightarrow> guint32 \<Rightarrow> guint32 \<Rightarrow> gint \<Rightarrow> tcp_analysis option
   \<Rightarrow> 'd desegment_head" where
  "desegment_tcp_head r pinfo seq nxtseq nbytes tcpd_ptr =
     (case tcpd_ptr of
        None \<Rightarrow> Goes_On None
      | Some tcpd \<Rightarrow>
          (let msp = wmem_tree_lookup32 (multisegment_pdus (fwd tcpd)) seq
           in if (case msp of
                    None \<Rightarrow> False
                  | Some m \<Rightarrow> nxtseq \<le> nxtpdu m
                      \<and> msp_flags m AND MSP_FLAGS_MISSING_FIRST_SEGMENT r = 0
                      \<and> last_frame m \<noteq> num pinfo)
              then (case msp of
                      None \<Rightarrow> Goes_On None
                    | Some m \<Rightarrow>
                        if first_frame m = num pinfo \<or> first_frame_with_seq m = num pinfo
                        then Returned
                               (Col_Info ''[TCP segment of a reassembled PDU]''
                                # (case fragment_get r pinfo (first_frame m) of
                                     None \<Rightarrow> []
                                   | Some reassembled_in \<Rightarrow>
                                       if reassembled_in \<noteq> 0
                                       then [Reassembled_In reassembled_in] else [])
                                @ [Segment_Data [] nbytes])
                        else Returned [Segment_Data ''Retransmitted '' nbytes])
              else if ta_has_flag TCP_A_RETRANSMISSION tcpd
              then Returned [Segment_Data ''Retransmitted '' nbytes]
              else Goes_On (case msp of
                              None \<Rightarrow> wmem_tree_lookup32_le (multisegment_pdus (fwd tcpd)) (seq - 1)
                            | Some m \<Rightarrow> Some m)))"

text \<open>
  \<open>desegment_tcp\<close>. The lines after the head (3183-3649), where the segment is added to
  the reassembly, the index of MSPs is updated and the subdissector is called, are the
  parameter \<open>rest\<close>: it gets the MSP found by the head and \<open>tcpd\<close>, and returns its events
  and the new \<open>tcpd\<close>.
\<close>

definition desegment_tcp ::
  "'d reassembly_env
   \<Rightarrow> (tcp_multisegment_pdu option \<Rightarrow> tcp_analysis option \<Rightarrow> 'd tcp_event list \<times> tcp_analysis option)
   \<Rightarrow> packet_info \<Rightarrow> guint32 \<Rightarrow> guint32 \<Rightarrow> gint \<Rightarrow> tcp_analysis option
   \<Rightarrow> 'd tcp_event list \<times> tcp_analysis option" where
  "desegment_tcp r rest pinfo seq nxtseq nbytes tcpd_ptr =
     (case desegment_tcp_head r pinfo seq nxtseq nbytes tcpd_ptr of
        Returned events \<Rightarrow> (events, tcpd_ptr)
      | Goes_On msp \<Rightarrow> rest msp tcpd_ptr)"

text \<open>
  The FIN block of \<open>dissect_tcp\<close>, lines 6655-6709. The result is the new \<open>tcpd\<close>, the
  events, and whether \<open>dissect_tcp\<close> returns from inside the block (line 6699). What the
  subdissector does inside \<open>process_tcp_payload\<close> is not followed.
\<close>

definition dissect_tcp_fin ::
  "tcp_env \<Rightarrow> 'd reassembly_env \<Rightarrow> packet_info \<Rightarrow> bool \<Rightarrow> guint32 \<Rightarrow> guint32 \<Rightarrow> guint16
   \<Rightarrow> tcp_analysis option \<Rightarrow> tcp_analysis option \<times> 'd tcp_event list \<times> bool" where
  "dissect_tcp_fin e r pinfo th_have_seglen seq seglen flags tcpd_ptr =
     (case tcpd_ptr of
        None \<Rightarrow> (None, [], False)
      | Some tcpd \<Rightarrow>
          if th_have_seglen \<and> flags AND TH_FIN e \<noteq> 0
             \<and> flow_flags (fwd tcpd) AND TCP_FLOW_REASSEMBLE_UNTIL_FIN r \<noteq> 0
          then
            (if fin (fwd tcpd) = 0 \<or> fin (fwd tcpd) = num pinfo
             then
               (let t1 = fwd_upd (\<lambda>f. f\<lparr>fin := num pinfo\<rparr>) tcpd
                in case wmem_tree_lookup32_le (multisegment_pdus (fwd t1)) (seq - 1) of
                     None \<Rightarrow> (Some t1, [], False)
                   | Some msp \<Rightarrow>
                       (case fragment_add r pinfo (first_frame msp) (seq - msp_seq msp) seglen of
                          None \<Rightarrow>
                            (Some t1,
                             [Fragment_Added (first_frame msp) (seq - msp_seq msp) seglen],
                             False)
                        | Some data \<Rightarrow>
                            (Some t1,
                             [Fragment_Added (first_frame msp) (seq - msp_seq msp) seglen,
                              Payload_Processed data],
                             True)))
             else (Some tcpd, [Fin_Retransmission (fin (fwd tcpd))], False))
          else (Some tcpd, [], False))"


section \<open>Vocabulary of the properties\<close>

subsection \<open>The analysis struct of the packet\<close>

text \<open>
  \<open>tcp_analyze_get_acked_struct\<close> looks the packet up under the key (frame, seq, ack) and
  points \<open>tcpd->ta\<close> at the entry. \<open>ta_inv k\<close> says \<open>tcpd->ta\<close> and the table agree for the
  key \<open>k\<close> of the packet being analysed: either no struct exists for the packet yet and
  \<open>ta\<close> is null, or \<open>ta\<close> points at the packet's struct. \<open>ta_or0\<close> reads the struct, a zeroed
  one when there is none; \<open>packet_flags\<close> reads the flags stored for a key.
\<close>

definition ta_inv :: "acked_key \<Rightarrow> tcp_analysis \<Rightarrow> bool" where
  "ta_inv k tcpd = ((ta tcpd = None \<and> acked_table tcpd k = None)
                    \<or> (ta tcpd = Some k \<and> acked_table tcpd k \<noteq> None))"

definition ta_or0 :: "tcp_analysis \<Rightarrow> tcp_acked" where
  "ta_or0 tcpd = (case ta_get tcpd of None \<Rightarrow> tcp_acked_new0 | Some a \<Rightarrow> a)"

definition packet_flags :: "tcp_analysis \<Rightarrow> acked_key \<Rightarrow> guint16" where
  "packet_flags t k = (case acked_table t k of None \<Rightarrow> 0 | Some a \<Rightarrow> ta_flags a)"

subsection \<open>The checks before the label finished_fwd\<close>

text \<open>
  \<open>counts_dupack\<close>: the DUPLICATE ACK block is reached and its test holds.
  \<open>fwd_check_flags\<close>: the flags that lines 1906-2061 add to the packet.
\<close>

definition counts_dupack ::
  "tcp_env \<Rightarrow> guint32 \<Rightarrow> guint32 \<Rightarrow> guint32 \<Rightarrow> guint16 \<Rightarrow> guint32 \<Rightarrow> tcp_analysis \<Rightarrow> bool" where
  "counts_dupack e s a l fl w t =
     (\<not> zero_window_probe_cond s l t \<and> \<not> keep_alive_ack_cond e s a l fl w t
      \<and> \<not> zero_window_probe_ack_cond e s a l fl w t
      \<and> duplicate_ack_cond e s a l fl w t)"

definition fwd_check_flags ::
  "tcp_env \<Rightarrow> guint32 \<Rightarrow> guint32 \<Rightarrow> guint32 \<Rightarrow> guint16 \<Rightarrow> guint32 \<Rightarrow> tcp_analysis \<Rightarrow> guint16" where
  "fwd_check_flags e s a l fl w t =
     (if zero_window_probe_cond s l t then TCP_A_ZERO_WINDOW_PROBE
      else (if zero_window_cond e fl w then TCP_A_ZERO_WINDOW else 0)
        OR (if lost_packet_cond e s fl t then TCP_A_LOST_PACKET else 0)
        OR (if keep_alive_cond e s l fl t then TCP_A_KEEP_ALIVE else 0)
        OR (if window_update_cond e s a l fl w t then TCP_A_WINDOW_UPDATE else 0)
        OR (if window_full_cond e s l fl t then TCP_A_WINDOW_FULL else 0)
        OR (if keep_alive_ack_cond e s a l fl w t then TCP_A_KEEP_ALIVE_ACK
            else if zero_window_probe_ack_cond e s a l fl w t then TCP_A_ZERO_WINDOW_PROBE_ACK
            else if duplicate_ack_cond e s a l fl w t then TCP_A_DUPLICATE_ACK else 0))"

subsection \<open>The retransmission family\<close>

text \<open>
  The chain of lines 2126-2190 as a function of the out-of-order threshold, and the
  condition of line 2104 under which it is evaluated.
\<close>

datatype retransmission_type =
  Not_Retransmission | Fast_Retransmission | Out_Of_Order | Spurious_Retransmission | Retransmission

fun retransmission_flag :: "retransmission_type \<Rightarrow> guint16" where
  "retransmission_flag Not_Retransmission = 0"
| "retransmission_flag Fast_Retransmission = TCP_A_FAST_RETRANSMISSION"
| "retransmission_flag Out_Of_Order = TCP_A_OUT_OF_ORDER"
| "retransmission_flag Spurious_Retransmission = TCP_A_SPURIOUS_RETRANSMISSION"
| "retransmission_flag Retransmission = TCP_A_RETRANSMISSION"

definition seq_not_advanced :: "guint32 \<Rightarrow> guint32 \<Rightarrow> tcp_analysis \<Rightarrow> bool" where
  "seq_not_advanced seq seglen tcpd =
     (nextseq (fwd tcpd) \<noteq> 0 \<and> LT_SEQ seq (nextseq (fwd tcpd))
      \<and> \<not> (1 < seglen \<and> seq = nextseq (fwd tcpd) - 1))"

definition retransmission_family ::
  "guint64 \<Rightarrow> packet_info \<Rightarrow> guint32 \<Rightarrow> guint32 \<Rightarrow> tcp_analysis \<Rightarrow> retransmission_type" where
  "retransmission_family thres pinfo seq seglen tcpd =
     (if seq_not_advanced seq seglen tcpd \<and> 2 \<le> dupacknum (rev_flow tcpd)
         \<and> lastack (rev_flow tcpd) = seq
         \<and> time_since (abs_ts pinfo) (lastacktime (rev_flow tcpd)) < 20000000
      then Fast_Retransmission
      else if seq_not_advanced seq seglen tcpd
         \<and> time_since (abs_ts pinfo) (nextseqtime (fwd tcpd)) < thres
         \<and> nextseq (fwd tcpd) \<noteq> seq + seglen
      then Out_Of_Order
      else if 0 < seglen \<and> lastack (rev_flow tcpd) \<noteq> 0
         \<and> LE_SEQ (seq + seglen) (lastack (rev_flow tcpd))
      then Spurious_Retransmission
      else if seq_not_advanced seq seglen tcpd then Retransmission
      else Not_Retransmission)"

definition checks_retransmission :: "tcp_env \<Rightarrow> guint32 \<Rightarrow> guint16 \<Rightarrow> bool" where
  "checks_retransmission e seglen flags = (0 < seglen \<or> flags AND (TH_SYN e OR TH_FIN e) \<noteq> 0)"

definition retransmission_family_mask :: guint16 where
  "retransmission_family_mask =
     TCP_A_RETRANSMISSION OR TCP_A_FAST_RETRANSMISSION OR TCP_A_OUT_OF_ORDER
       OR TCP_A_SPURIOUS_RETRANSMISSION"

text \<open>
  The threshold in the words of the specification: the larger of 3 ms and the initial
  round-trip time, in nanoseconds.
\<close>

definition claimed_ooo_thres :: "tcp_analysis \<Rightarrow> guint64" where
  "claimed_ooo_thres tcpd =
     max 3000000 (scast (nsecs (ts_first_rtt tcpd)) + secs (ts_first_rtt tcpd) * 1000000000)"

subsection \<open>The steps of tcp_analyze_sequence_number\<close>

definition advances_nextseq :: "guint32 \<Rightarrow> tcp_analysis \<Rightarrow> bool" where
  "advances_nextseq nseq tcpd =
     ((GT_SEQ nseq (nextseq (fwd tcpd)) \<or> nextseq (fwd tcpd) = 0)
      \<and> \<not> ta_has_flag TCP_A_ZERO_WINDOW_PROBE tcpd)"

definition advances_maxseqtobeacked :: "guint32 \<Rightarrow> tcp_analysis \<Rightarrow> bool" where
  "advances_maxseqtobeacked seq tcpd =
     ((EQ_SEQ seq (maxseqtobeacked (fwd tcpd)) \<or> maxseqtobeacked (fwd tcpd) = 0)
      \<and> \<not> ta_has_flag TCP_A_ZERO_WINDOW_PROBE tcpd)"

definition ack_flow_inv :: "tcp_analysis \<Rightarrow> tcp_analysis \<Rightarrow> bool" where
  "ack_flow_inv t x =
     ((\<exists>m. fwd x = (fwd t)\<lparr>maxsizeacked := m\<rparr>)
      \<and> (\<exists>c. rev_flow x = (rev_flow t)\<lparr>segment_count := c\<rparr>)
      \<and> ts_first_rtt x = ts_first_rtt t)"

definition ack_ta_inv :: "acked_key \<Rightarrow> tcp_analysis \<Rightarrow> tcp_analysis \<Rightarrow> bool" where
  "ack_ta_inv k t x =
     (ta_inv k x \<and> (\<exists>fa ts. ta_or0 x = (ta_or0 t)\<lparr>frame_acked := fa, ta_ts := ts\<rparr>))"

definition acked_fwd_maxsizeacked :: "tcp_env \<Rightarrow> packet_info \<Rightarrow> guint32 \<Rightarrow> guint32 \<Rightarrow> tcp_analysis \<Rightarrow> guint32" where
  "acked_fwd_maxsizeacked e p s a t = maxsizeacked (fwd (ack_segments e p s a t))"

definition acked_rev_segments :: "tcp_env \<Rightarrow> packet_info \<Rightarrow> guint32 \<Rightarrow> guint32 \<Rightarrow> tcp_analysis \<Rightarrow> tcp_unacked_t list" where
  "acked_rev_segments e p s a t = segments (rev_flow (ack_segments e p s a t))"

definition acked_rev_segment_count :: "tcp_env \<Rightarrow> packet_info \<Rightarrow> guint32 \<Rightarrow> guint32 \<Rightarrow> tcp_analysis \<Rightarrow> guint32" where
  "acked_rev_segment_count e p s a t = segment_count (rev_flow (ack_segments e p s a t))"

definition acked_frame_acked :: "tcp_env \<Rightarrow> packet_info \<Rightarrow> guint32 \<Rightarrow> guint32 \<Rightarrow> tcp_analysis \<Rightarrow> guint32" where
  "acked_frame_acked e p s a t = frame_acked (ta_or0 (ack_segments e p s a t))"

definition acked_ta_ts :: "tcp_env \<Rightarrow> packet_info \<Rightarrow> guint32 \<Rightarrow> guint32 \<Rightarrow> tcp_analysis \<Rightarrow> nstime_t" where
  "acked_ta_ts e p s a t = ta_ts (ta_or0 (ack_segments e p s a t))"

definition bif_in_range :: "tcp_flow_t \<Rightarrow> bool" where
  "bif_in_range f = (0 < in_flight f \<and> in_flight f < 2000000000)"

definition before_retransmission ::
  "tcp_env \<Rightarrow> packet_info \<Rightarrow> guint32 \<Rightarrow> guint32 \<Rightarrow> guint32 \<Rightarrow> guint16 \<Rightarrow> guint32
   \<Rightarrow> tcp_analysis \<Rightarrow> tcp_analysis" where
  "before_retransmission e p s a l fl w t =
     acked_lost_packet e p s a fl
       (reset_dupack p a (fwd_checks e p s a l fl w (store_base_seq e s a fl t)))"

definition after_remember ::
  "tcp_env \<Rightarrow> packet_info \<Rightarrow> guint32 \<Rightarrow> guint32 \<Rightarrow> guint32 \<Rightarrow> guint16 \<Rightarrow> guint32
   \<Rightarrow> tcp_analysis \<Rightarrow> tcp_analysis" where
  "after_remember e p s a l fl w t =
     (let t5 = retransmission_check e p s a l fl (before_retransmission e p s a l fl w t)
      in remember_segment p a w
           (store_maxseqtobeacked s
              (store_nextseq p (local_nextseq e s l fl t5) (add_unacked e p s l fl t5))))"

definition flags_before_retransmission ::
  "tcp_env \<Rightarrow> guint32 \<Rightarrow> guint32 \<Rightarrow> guint32 \<Rightarrow> guint16 \<Rightarrow> guint32 \<Rightarrow> tcp_analysis \<Rightarrow> guint16" where
  "flags_before_retransmission e s a l fl w t =
     (ta_flags (ta_or0 t) OR fwd_check_flags e s a l fl w t)
       OR (if acked_lost_packet_cond e a fl t then TCP_A_ACK_LOST_PACKET else 0)"

definition runs_retransmission_check ::
  "tcp_env \<Rightarrow> guint32 \<Rightarrow> guint32 \<Rightarrow> guint32 \<Rightarrow> guint16 \<Rightarrow> guint32 \<Rightarrow> tcp_analysis \<Rightarrow> bool" where
  "runs_retransmission_check e s a l fl w t =
     (checks_retransmission e l fl
      \<and> flags_before_retransmission e s a l fl w t AND TCP_A_KEEP_ALIVE = 0)"

definition flags_after_retransmission ::
  "tcp_env \<Rightarrow> packet_info \<Rightarrow> guint32 \<Rightarrow> guint32 \<Rightarrow> guint32 \<Rightarrow> guint16 \<Rightarrow> guint32 \<Rightarrow> tcp_analysis \<Rightarrow> guint16" where
  "flags_after_retransmission e p s a l fl w t =
     flags_before_retransmission e s a l fl w t OR
       (if runs_retransmission_check e s a l fl w t
        then retransmission_flag (retransmission_family (ooo_thres t) p s l t) else 0)"

definition records_rto ::
  "tcp_env \<Rightarrow> packet_info \<Rightarrow> guint32 \<Rightarrow> guint32 \<Rightarrow> guint32 \<Rightarrow> guint16 \<Rightarrow> guint32 \<Rightarrow> tcp_analysis \<Rightarrow> bool" where
  "records_rto e p s a l fl w t =
     (runs_retransmission_check e s a l fl w t
      \<and> retransmission_family (ooo_thres t) p s l t = Retransmission)"

definition classified_zwp :: "guint32 \<Rightarrow> guint32 \<Rightarrow> tcp_analysis \<Rightarrow> bool" where
  "classified_zwp s l t = (ta_has_flag TCP_A_ZERO_WINDOW_PROBE t \<or> zero_window_probe_cond s l t)"

definition nextseq_advances :: "tcp_env \<Rightarrow> guint32 \<Rightarrow> guint32 \<Rightarrow> guint16 \<Rightarrow> tcp_analysis \<Rightarrow> bool" where
  "nextseq_advances e s l fl t =
     ((GT_SEQ (local_nextseq e s l fl t) (nextseq (fwd t)) \<or> nextseq (fwd t) = 0)
      \<and> \<not> classified_zwp s l t)"

definition new_nextseq :: "tcp_env \<Rightarrow> guint32 \<Rightarrow> guint32 \<Rightarrow> guint16 \<Rightarrow> tcp_analysis \<Rightarrow> guint32" where
  "new_nextseq e s l fl t =
     (if nextseq_advances e s l fl t then local_nextseq e s l fl t else nextseq (fwd t))"

definition maxseqtobeacked_advances :: "guint32 \<Rightarrow> guint32 \<Rightarrow> tcp_analysis \<Rightarrow> bool" where
  "maxseqtobeacked_advances s l t =
     ((EQ_SEQ s (maxseqtobeacked (fwd t)) \<or> maxseqtobeacked (fwd t) = 0)
      \<and> \<not> classified_zwp s l t)"

definition new_maxseqtobeacked :: "tcp_env \<Rightarrow> guint32 \<Rightarrow> guint32 \<Rightarrow> guint16 \<Rightarrow> tcp_analysis \<Rightarrow> guint32" where
  "new_maxseqtobeacked e s l fl t =
     (if maxseqtobeacked_advances s l t then new_nextseq e s l fl t
      else maxseqtobeacked (fwd t))"

definition analysis_result ::
  "tcp_env \<Rightarrow> packet_info \<Rightarrow> guint32 \<Rightarrow> guint32 \<Rightarrow> guint32 \<Rightarrow> guint16 \<Rightarrow> guint32
   \<Rightarrow> tcp_analysis \<Rightarrow> tcp_analysis" where
  "analysis_result e p s a l fl w t =
     track_bytes_in_flight e p s a l fl (ack_segments e p s a (after_remember e p s a l fl w t))"

text \<open>
  The advance of \<open>nextseq\<close> and \<open>maxseqtobeacked\<close> in the words of the specification: the
  maximum, in sequence-space order, of the current value and \<open>seq + length\<close>, plus one for
  SYN or FIN.
\<close>

definition claimed_advance :: "tcp_env \<Rightarrow> guint32 \<Rightarrow> guint32 \<Rightarrow> guint16 \<Rightarrow> guint32 \<Rightarrow> guint32" where
  "claimed_advance e seq seglen flags current =
     (let candidate = seq + seglen + (if flags AND (TH_SYN e OR TH_FIN e) \<noteq> 0 then 1 else 0)
      in if GT_SEQ candidate current then candidate else current)"

text \<open>
  The estimate of the bytes in flight in the words of the specification: the greatest
  \<open>nextseq\<close> minus the least \<open>seq\<close> of the unacknowledged segments, both relative to
  \<open>base_seq\<close>.
\<close>

definition claimed_in_flight :: "tcp_flow_t \<Rightarrow> guint32" where
  "claimed_in_flight f =
     Max ((\<lambda>u. ua_nextseq u - base_seq f) ` set (segments f))
       - Min ((\<lambda>u. ua_seq u - base_seq f) ` set (segments f))"

subsection \<open>The PDU loop\<close>

text \<open>
  \<open>offsets_advance offset offsets\<close>: the offsets are at or after \<open>offset\<close>, strictly
  increasing as signed integers, and no more than the integers from \<open>offset\<close> up.
\<close>

definition offsets_advance :: "gint \<Rightarrow> gint list \<Rightarrow> bool" where
  "offsets_advance offset offsets =
     ((\<forall>x \<in> set offsets. sint offset \<le> sint x) \<and> sorted_wrt (\<lambda>x y. sint x < sint y) offsets
      \<and> int (length offsets) \<le> 2 ^ 31 - sint offset)"

subsection \<open>Example captures\<close>

text \<open>
  The values of packet-tcp.h for the constants that are parameters of the model, a
  field-wise difference for \<open>nstime_delta\<close>, and bytes-in-flight tracking switched on.
\<close>

definition example_env :: tcp_env where
  "example_env = \<lparr> TH_FIN = 0x0001, TH_SYN = 0x0002, TH_RST = 0x0004, TH_PUSH = 0x0008,
     TH_ACK = 0x0010, TCP_MAX_UNACKED_SEGMENTS = 10000,
     nstime_delta = (\<lambda>b a. \<lparr>secs = secs b - secs a, nsecs = nsecs b - nsecs a\<rparr>),
     tcp_track_bytes_in_flight = True \<rparr>"

definition at_time :: "guint32 \<Rightarrow> guint64 \<Rightarrow> guint32 \<Rightarrow> packet_info" where
  "at_time frame s ns =
     \<lparr> num = frame, fd_num = frame, abs_ts = \<lparr>secs = s, nsecs = ns\<rparr>, visited = False \<rparr>"

text \<open>A packet: frame number, time (s, ns), direction, seq, ack, length, flags, window.\<close>

definition a_packet ::
  "guint32 \<Rightarrow> guint64 \<Rightarrow> guint32 \<Rightarrow> int \<Rightarrow> guint32 \<Rightarrow> guint32 \<Rightarrow> guint32 \<Rightarrow> guint16 \<Rightarrow> guint32
   \<Rightarrow> tcp_packet" where
  "a_packet frame s ns direction seq ack seglen flags win =
     \<lparr> pk_pinfo = at_time frame s ns, pk_direction = direction, th_seq = seq, th_ack = ack,
       th_seglen = seglen, th_flags = flags, th_win = win, pk_other_conv = None \<rparr>"

text \<open>The state the analysis of packet \<open>pk\<close> starts in, after the packets \<open>pks\<close>.\<close>

definition state_before :: "tcp_env \<Rightarrow> tcp_packet list \<Rightarrow> tcp_packet \<Rightarrow> tcp_analysis \<Rightarrow> tcp_analysis" where
  "state_before e pks pk conv =
     dissect_tcp_conversation e pk (case first_pass e pks conv of None \<Rightarrow> conv | Some t \<Rightarrow> t)"

text \<open>The three-way handshake SYN(100), SYN/ACK(500, 101), ACK(101, 501).\<close>

definition handshake :: "tcp_packet list" where
  "handshake =
     [a_packet 1 10 0 1 100 0 0 0x0002 64240,
      a_packet 2 10 1000000 (- 1) 500 101 0 0x0012 65160,
      a_packet 3 10 2000000 1 101 501 0 0x0010 502]"

text \<open>
  A connection whose initial round-trip time was measured as 1 ms, a data segment, and
  the same bytes again 2 ms later.
\<close>

definition short_rtt_conv :: tcp_analysis where
  "short_rtt_conv = init_tcp_conversation_data\<lparr>ts_first_rtt := \<lparr>secs = 0, nsecs = 1000000\<rparr>\<rparr>"

definition late_segment :: "tcp_packet list" where
  "late_segment =
     [a_packet 1 10 0 1 101 1 50 0x0010 1000,
      a_packet 2 10 2000000 1 101 1 20 0x0010 1000]"

text \<open>Segments whose end passes the top of the 32-bit sequence space, then one from before.\<close>

definition wrapping_segments :: "tcp_packet list" where
  "wrapping_segments =
     [a_packet 1 10 0 1 0xFFFFFF00 1 0x10 0x0010 1000,
      a_packet 2 10 1000000 1 0xFFFFFF10 1 0xF0 0x0010 1000,
      a_packet 3 10 2000000 1 0xFFFFFF00 1 0x10 0x0010 1000]"

text \<open>A data segment, then a segment that leaves a hole after it.\<close>

definition segment_after_hole :: "tcp_packet list" where
  "segment_after_hole =
     [a_packet 1 10 0 1 101 1 50 0x0010 1000,
      a_packet 2 10 1000000 1 300 1 10 0x0010 1000]"

text \<open>The data segment seq=101, len=50, ack=501 three times with the same window.\<close>

definition repeated_segment :: "tcp_packet list" where
  "repeated_segment =
     [a_packet 1 10 0 1 101 501 50 0x0010 1000,
      a_packet 2 10 1000000 1 101 501 50 0x0010 1000,
      a_packet 3 10 2000000 1 101 501 50 0x0010 1000]"

text \<open>A data segment, then the same empty ACK twice.\<close>

definition repeated_ack :: "tcp_packet list" where
  "repeated_ack =
     [a_packet 1 10 0 1 101 401 50 0x0010 1000,
      a_packet 2 10 1000000 1 151 501 0 0x0010 1000,
      a_packet 3 10 2000000 1 151 501 0 0x0010 1000]"

text \<open>
  Reassembly until FIN: the values of packet-tcp.h for the two masks, and a reassembly
  table in which reassembly 5 is complete with the final fragment and no other is.
\<close>

definition example_reassembly :: "string reassembly_env" where
  "example_reassembly =
     \<lparr> TCP_FLOW_REASSEMBLE_UNTIL_FIN = 0x0001, MSP_FLAGS_MISSING_FIRST_SEGMENT = 0x0004,
       fragment_add = (\<lambda>pinfo id frag_offset len. if id = 5 then Some ''reassembled'' else None),
       fragment_get = (\<lambda>pinfo id. None) \<rparr>"

definition an_msp :: "guint32 \<Rightarrow> guint32 \<Rightarrow> guint32 \<Rightarrow> guint32 \<Rightarrow> tcp_multisegment_pdu" where
  "an_msp seq nxt frame_first frame_last =
     \<lparr> msp_seq = seq, nxtpdu = nxt, first_frame = frame_first,
       first_frame_with_seq = frame_first, last_frame = frame_last, last_frame_time = nstime_zero, msp_flags = 0 \<rparr>"

text \<open>A flow told to reassemble until FIN, with the given MSPs and no FIN seen.\<close>

definition until_fin_conv :: "(guint32 \<times> tcp_multisegment_pdu) list \<Rightarrow> tcp_analysis" where
  "until_fin_conv msps =
     init_tcp_conversation_data
       \<lparr>flow1 := (flow1 init_tcp_conversation_data)\<lparr>flow_flags := 0x0001,
                                                     multisegment_pdus := msps\<rparr>\<rparr>"

text \<open>
  A buffer of 100 bytes and a PDU callback that declares the length 0xFFFFFFFF
  everywhere. \<open>tvb_new_subset_length_caplen\<close> takes the declared length as an \<open>int\<close>: -1
  stands for "to the end of the buffer", and any other negative value is refused with
  an exception.
\<close>

definition overflow_env :: "(unit, unit) pdu_env" where
  "overflow_env =
     \<lparr> tvb_reported_length_remaining = (\<lambda>offset. 100 - offset),
       tvb_ensure_captured_length_remaining = (\<lambda>offset. Inr (100 - offset)),
       get_pdu_len = (\<lambda>pinfo offset. Inr 0xFFFFFFFF),
       proto_tree_add_uint = (\<lambda>offset plen. None),
       tvb_new_subset_length_caplen =
         (\<lambda>offset len plen. if sint plen < - 1 then Some () else None),
       dissect_pdu = (\<lambda>offset len plen pinfo. (None, pinfo)),
       nonfatal_error = (\<lambda>x. True),
       DESEGMENT_ONE_MORE_SEGMENT = 0x0fffffff,
       pdu_tcp_analyze_seq = True \<rparr>"

definition plain_pinfo :: "unit pdu_pinfo" where
  "plain_pinfo =
     \<lparr> can_desegment = 0, pd_visited = False, desegment_offset = 0, desegment_len = 0,
       want_pdu_tracking = 0, bytes_until_next_pdu = 0, dissector_state = () \<rparr>"

text \<open>A stand-in for the hash: the input followed by twelve bytes 7.\<close>

definition padding_hash :: "guint8 list \<Rightarrow> guint8 list" where
  "padding_hash bs = bs @ replicate 12 7"


subsection \<open>Order of two values of nextseq\<close>

text \<open>
  \<open>nextseq_kept_or_advanced old new\<close>: the value is kept, or the new one is greater in
  sequence-space order, or the old one was 0.
\<close>

definition nextseq_kept_or_advanced :: "guint32 \<Rightarrow> guint32 \<Rightarrow> bool" where
  "nextseq_kept_or_advanced old new = (new = old \<or> GT_SEQ new old \<or> old = 0)"

subsection \<open>More example captures\<close>

text \<open>The state of the conversation after the packets \<open>pks\<close>.\<close>

definition state_after :: "tcp_env \<Rightarrow> tcp_packet list \<Rightarrow> tcp_analysis \<Rightarrow> tcp_analysis" where
  "state_after e pks conv = (case first_pass e pks conv of None \<Rightarrow> conv | Some t \<Rightarrow> t)"


text \<open>
  A capture that starts in the middle of a connection: a segment of one direction with
  ACK set (seq=5000, ack=1000), then the first segment of the other direction
  (seq=2000, ack=5000), neither of them a SYN.
\<close>

definition midstream :: "tcp_packet list" where
  "midstream =
     [a_packet 1 10 0 1 5000 1000 0 0x0010 1000,
      a_packet 2 10 1000000 (- 1) 2000 5000 0 0x0010 1000]"

section \<open>Properties of the model\<close>

lemma fwd_fwd_upd [simp]: "fwd (fwd_upd f t) = f (fwd t)"
  by (simp add: fwd_def fwd_upd_def)

lemma rev_fwd_upd [simp]: "rev_flow (fwd_upd f t) = rev_flow t"
  by (simp add: rev_flow_def fwd_upd_def)

lemma fwd_rev_upd [simp]: "fwd (rev_upd f t) = fwd t"
  by (simp add: fwd_def rev_upd_def)

lemma rev_rev_upd [simp]: "rev_flow (rev_upd f t) = f (rev_flow t)"
  by (simp add: rev_flow_def rev_upd_def)

lemma misc_fwd_upd [simp]:
  "ta (fwd_upd f t) = ta t" "acked_table (fwd_upd f t) = acked_table t"
  "ts_first_rtt (fwd_upd f t) = ts_first_rtt t" "fwd_is_flow1 (fwd_upd f t) = fwd_is_flow1 t"
  by (simp_all add: fwd_upd_def)

lemma misc_rev_upd [simp]:
  "ta (rev_upd f t) = ta t" "acked_table (rev_upd f t) = acked_table t"
  "ts_first_rtt (rev_upd f t) = ts_first_rtt t" "fwd_is_flow1 (rev_upd f t) = fwd_is_flow1 t"
  by (simp_all add: rev_upd_def)

lemma ta_get_flow_upd [simp]:
  "ta_get (fwd_upd f t) = ta_get t" "ta_get (rev_upd f t) = ta_get t"
  by (simp_all add: ta_get_def split: option.splits)

lemma ta_or0_flow_upd [simp]:
  "ta_or0 (fwd_upd f t) = ta_or0 t" "ta_or0 (rev_upd f t) = ta_or0 t"
  by (simp_all add: ta_or0_def)

lemma ta_inv_flow_upd [simp]:
  "ta_inv k (fwd_upd f t) = ta_inv k t" "ta_inv k (rev_upd f t) = ta_inv k t"
  by (simp_all add: ta_inv_def)

lemma ta_has_flag_or0: "ta_has_flag fl t = (ta_flags (ta_or0 t) AND fl \<noteq> 0)"
  by (simp add: ta_has_flag_def ta_or0_def tcp_acked_new0_def split: option.splits)

lemma flows_ta_upd [simp]:
  "fwd (ta_upd g t) = fwd t" "rev_flow (ta_upd g t) = rev_flow t"
  "ts_first_rtt (ta_upd g t) = ts_first_rtt t" "fwd_is_flow1 (ta_upd g t) = fwd_is_flow1 t"
  "ta (ta_upd g t) = ta t"
  by (simp_all add: ta_upd_def fwd_def rev_flow_def split: option.splits)

lemma flows_get_acked [simp]:
  "fwd (tcp_analyze_get_acked_struct fr s a c t) = fwd t"
  "rev_flow (tcp_analyze_get_acked_struct fr s a c t) = rev_flow t"
  "ts_first_rtt (tcp_analyze_get_acked_struct fr s a c t) = ts_first_rtt t"
  "fwd_is_flow1 (tcp_analyze_get_acked_struct fr s a c t) = fwd_is_flow1 t"
  by (simp_all add: tcp_analyze_get_acked_struct_def fwd_def rev_flow_def split: option.splits)

lemma flows_with_ta [simp]:
  "fwd (with_ta fr s a g t) = fwd t" "rev_flow (with_ta fr s a g t) = rev_flow t"
  "ts_first_rtt (with_ta fr s a g t) = ts_first_rtt t"
  "fwd_is_flow1 (with_ta fr s a g t) = fwd_is_flow1 t"
  by (simp_all add: with_ta_def)

lemma flows_flag_ta [simp]:
  "fwd (flag_ta p s a fl t) = fwd t" "rev_flow (flag_ta p s a fl t) = rev_flow t"
  "ts_first_rtt (flag_ta p s a fl t) = ts_first_rtt t"
  "fwd_is_flow1 (flag_ta p s a fl t) = fwd_is_flow1 t"
  by (simp_all add: flag_ta_def)

lemma get_acked_inv:
  "ta_inv (fr, s, a) t \<Longrightarrow> ta_inv (fr, s, a) (tcp_analyze_get_acked_struct fr s a True t)"
  by (auto simp: ta_inv_def tcp_analyze_get_acked_struct_def split: option.splits)

lemma get_acked_or0:
  "ta_inv (fr, s, a) t \<Longrightarrow> ta_or0 (tcp_analyze_get_acked_struct fr s a True t) = ta_or0 t"
  by (auto simp: ta_inv_def ta_or0_def ta_get_def tcp_analyze_get_acked_struct_def split: option.splits)

lemma get_acked_ta:
  "ta (tcp_analyze_get_acked_struct fr s a True t) = Some (fr, s, a)"
  by (auto simp: tcp_analyze_get_acked_struct_def split: option.splits)

lemma ta_upd_inv: "ta_inv k (ta_upd g t) = ta_inv k t"
  by (auto simp: ta_inv_def ta_upd_def split: option.splits)

lemma ta_upd_or0:
  "ta t = Some k \<Longrightarrow> acked_table t k \<noteq> None \<Longrightarrow> ta_or0 (ta_upd g t) = g (ta_or0 t)"
  by (auto simp: ta_or0_def ta_get_def ta_upd_def split: option.splits)

lemma with_ta_inv:
  "ta_inv (fr, s, a) t \<Longrightarrow> ta_inv (fr, s, a) (with_ta fr s a g t)"
  by (auto simp: with_ta_def ta_upd_inv get_acked_inv)

lemma with_ta_or0:
  "ta_inv (fr, s, a) t \<Longrightarrow> ta_or0 (with_ta fr s a g t) = g (ta_or0 t)"
  by (auto simp: ta_inv_def ta_or0_def ta_get_def with_ta_def ta_upd_def tcp_analyze_get_acked_struct_def split: option.splits)

lemma with_ta_ta:
  "ta_inv (fr, s, a) t \<Longrightarrow> ta (with_ta fr s a g t) = Some (fr, s, a)"
  by (auto simp: ta_inv_def with_ta_def get_acked_ta)

lemma flag_ta_inv [simp]:
  "ta_inv (num p, s, a) t \<Longrightarrow> ta_inv (num p, s, a) (flag_ta p s a fl t)"
  by (simp add: flag_ta_def with_ta_inv)

lemma flag_ta_or0 [simp]:
  "ta_inv (num p, s, a) t \<Longrightarrow>
   ta_or0 (flag_ta p s a fl t) = (ta_or0 t)\<lparr>ta_flags := ta_flags (ta_or0 t) OR fl\<rparr>"
  by (simp add: flag_ta_def with_ta_or0)

lemma store_base_seq_misc [simp]:
  "ta_inv k (store_base_seq e s a fl t) = ta_inv k t"
  "ta_or0 (store_base_seq e s a fl t) = ta_or0 t"
  "ts_first_rtt (store_base_seq e s a fl t) = ts_first_rtt t"
  "fwd_is_flow1 (store_base_seq e s a fl t) = fwd_is_flow1 t"
  by (simp_all add: store_base_seq_def Let_def)

lemma store_base_seq_fwd:
  "fwd (store_base_seq e s a fl t) =
     (fwd t)\<lparr>base_seq := (if static_flags (fwd t) AND TCP_S_BASE_SEQ_SET = 0
                           then (if fl AND TH_SYN e \<noteq> 0 then s else s - 1)
                           else base_seq (fwd t)),
              static_flags := (if static_flags (fwd t) AND TCP_S_BASE_SEQ_SET = 0
                           then (if fl AND TH_SYN e \<noteq> 0
                                 then static_flags (fwd t) OR
                                      (if fl AND TH_ACK e \<noteq> 0 then TCP_S_SAW_SYNACK else TCP_S_SAW_SYN)
                                 else static_flags (fwd t)) OR TCP_S_BASE_SEQ_SET
                           else static_flags (fwd t))\<rparr>"
  by (simp add: store_base_seq_def Let_def)

lemma store_base_seq_rev:
  "rev_flow (store_base_seq e s a fl t) =
     (rev_flow t)\<lparr>base_seq := (if static_flags (rev_flow t) AND TCP_S_BASE_SEQ_SET = 0 \<and> fl AND TH_ACK e \<noteq> 0
                           then a - 1 else base_seq (rev_flow t)),
              static_flags := (if static_flags (rev_flow t) AND TCP_S_BASE_SEQ_SET = 0 \<and> fl AND TH_ACK e \<noteq> 0
                           then static_flags (rev_flow t) OR TCP_S_BASE_SEQ_SET
                           else static_flags (rev_flow t)),
              valid_bif := (fl AND TH_ACK e \<noteq> 0 \<or> valid_bif (rev_flow t))\<rparr>"
  by (simp add: store_base_seq_def Let_def)

lemma zero_window_flows [simp]:
  "fwd (zero_window e p s a fl w t) = fwd t" "rev_flow (zero_window e p s a fl w t) = rev_flow t"
  "ts_first_rtt (zero_window e p s a fl w t) = ts_first_rtt t"
  by (simp_all add: zero_window_def)

lemma zero_window_ta [simp]:
  "ta_inv (num p, s, a) t \<Longrightarrow> ta_inv (num p, s, a) (zero_window e p s a fl w t)"
  "ta_inv (num p, s, a) t \<Longrightarrow> ta_or0 (zero_window e p s a fl w t) =
     (ta_or0 t)\<lparr>ta_flags := ta_flags (ta_or0 t) OR
        (if zero_window_cond e fl w then TCP_A_ZERO_WINDOW else 0)\<rparr>"
  by (simp_all add: zero_window_def)

lemma lost_packet_flows [simp]:
  "fwd (lost_packet e p s a fl t) =
     (fwd t)\<lparr>valid_bif := (valid_bif (fwd t) \<and>
        \<not> lost_packet_cond e s fl t)\<rparr>"
  "rev_flow (lost_packet e p s a fl t) = rev_flow t"
  "ts_first_rtt (lost_packet e p s a fl t) = ts_first_rtt t"
  by (simp_all add: lost_packet_def)

lemma lost_packet_ta [simp]:
  "ta_inv (num p, s, a) t \<Longrightarrow> ta_inv (num p, s, a) (lost_packet e p s a fl t)"
  "ta_inv (num p, s, a) t \<Longrightarrow> ta_or0 (lost_packet e p s a fl t) =
     (ta_or0 t)\<lparr>ta_flags := ta_flags (ta_or0 t) OR
        (if lost_packet_cond e s fl t then TCP_A_LOST_PACKET else 0)\<rparr>"
  by (simp_all add: lost_packet_def)

lemma keep_alive_flows [simp]:
  "fwd (keep_alive e p s a l fl t) = fwd t" "rev_flow (keep_alive e p s a l fl t) = rev_flow t"
  "ts_first_rtt (keep_alive e p s a l fl t) = ts_first_rtt t"
  by (simp_all add: keep_alive_def)

lemma keep_alive_ta [simp]:
  "ta_inv (num p, s, a) t \<Longrightarrow> ta_inv (num p, s, a) (keep_alive e p s a l fl t)"
  "ta_inv (num p, s, a) t \<Longrightarrow> ta_or0 (keep_alive e p s a l fl t) =
     (ta_or0 t)\<lparr>ta_flags := ta_flags (ta_or0 t) OR
        (if keep_alive_cond e s l fl t then TCP_A_KEEP_ALIVE else 0)\<rparr>"
  by (simp_all add: keep_alive_def)

lemma tcp_window_update_flows [simp]:
  "fwd (tcp_window_update e p s a l fl w t) = fwd t"
  "rev_flow (tcp_window_update e p s a l fl w t) = rev_flow t"
  "ts_first_rtt (tcp_window_update e p s a l fl w t) = ts_first_rtt t"
  by (simp_all add: tcp_window_update_def)

lemma tcp_window_update_ta [simp]:
  "ta_inv (num p, s, a) t \<Longrightarrow> ta_inv (num p, s, a) (tcp_window_update e p s a l fl w t)"
  "ta_inv (num p, s, a) t \<Longrightarrow> ta_or0 (tcp_window_update e p s a l fl w t) =
     (ta_or0 t)\<lparr>ta_flags := ta_flags (ta_or0 t) OR
        (if window_update_cond e s a l fl w t then TCP_A_WINDOW_UPDATE else 0)\<rparr>"
  by (simp_all add: tcp_window_update_def)

lemma window_full_flows [simp]:
  "fwd (window_full e p s a l fl t) = fwd t" "rev_flow (window_full e p s a l fl t) = rev_flow t"
  "ts_first_rtt (window_full e p s a l fl t) = ts_first_rtt t"
  by (simp_all add: window_full_def)

lemma window_full_ta [simp]:
  "ta_inv (num p, s, a) t \<Longrightarrow> ta_inv (num p, s, a) (window_full e p s a l fl t)"
  "ta_inv (num p, s, a) t \<Longrightarrow> ta_or0 (window_full e p s a l fl t) =
     (ta_or0 t)\<lparr>ta_flags := ta_flags (ta_or0 t) OR
        (if window_full_cond e s l fl t then TCP_A_WINDOW_FULL else 0)\<rparr>"
  by (simp_all add: window_full_def)

lemma duplicate_ack_flows [simp]:
  "fwd (duplicate_ack e p s a l fl w t) =
     (fwd t)\<lparr>dupacknum := (if duplicate_ack_cond e s a l fl w t then dupacknum (fwd t) + 1
                            else dupacknum (fwd t))\<rparr>"
  "rev_flow (duplicate_ack e p s a l fl w t) = rev_flow t"
  "ts_first_rtt (duplicate_ack e p s a l fl w t) = ts_first_rtt t"
  by (simp_all add: duplicate_ack_def Let_def)

lemma duplicate_ack_ta [simp]:
  "ta_inv (num p, s, a) t \<Longrightarrow> ta_inv (num p, s, a) (duplicate_ack e p s a l fl w t)"
  "ta_inv (num p, s, a) t \<Longrightarrow> ta_or0 (duplicate_ack e p s a l fl w t) =
     (if duplicate_ack_cond e s a l fl w t
      then (ta_or0 t)\<lparr>ta_flags := ta_flags (ta_or0 t) OR TCP_A_DUPLICATE_ACK,
                       dupack_num := dupacknum (fwd t) + 1,
                       dupack_frame := lastnondupack (fwd t)\<rparr>
      else ta_or0 t)"
  by (simp_all add: duplicate_ack_def Let_def with_ta_inv with_ta_or0)

lemmas fwd_cond_defs = zero_window_probe_cond_def lost_packet_cond_def keep_alive_cond_def
  window_update_cond_def window_full_cond_def keep_alive_ack_cond_def
  zero_window_probe_ack_cond_def duplicate_ack_cond_def

lemma conds_zero_window [simp]:
  "lost_packet_cond e s fl (zero_window e' p s' a' fl' w' t) = lost_packet_cond e s fl t"
  "keep_alive_cond e s l fl (zero_window e' p s' a' fl' w' t) = keep_alive_cond e s l fl t"
  "window_update_cond e s a l fl w (zero_window e' p s' a' fl' w' t) = window_update_cond e s a l fl w t"
  "window_full_cond e s l fl (zero_window e' p s' a' fl' w' t) = window_full_cond e s l fl t"
  "keep_alive_ack_cond e s a l fl w (zero_window e' p s' a' fl' w' t) = keep_alive_ack_cond e s a l fl w t"
  "zero_window_probe_ack_cond e s a l fl w (zero_window e' p s' a' fl' w' t) = zero_window_probe_ack_cond e s a l fl w t"
  "duplicate_ack_cond e s a l fl w (zero_window e' p s' a' fl' w' t) = duplicate_ack_cond e s a l fl w t"
  by (simp_all add: fwd_cond_defs)

lemma conds_lost_packet [simp]:
  "keep_alive_cond e s l fl (lost_packet e' p s' a' fl' t) = keep_alive_cond e s l fl t"
  "window_update_cond e s a l fl w (lost_packet e' p s' a' fl' t) = window_update_cond e s a l fl w t"
  "window_full_cond e s l fl (lost_packet e' p s' a' fl' t) = window_full_cond e s l fl t"
  "keep_alive_ack_cond e s a l fl w (lost_packet e' p s' a' fl' t) = keep_alive_ack_cond e s a l fl w t"
  "zero_window_probe_ack_cond e s a l fl w (lost_packet e' p s' a' fl' t) = zero_window_probe_ack_cond e s a l fl w t"
  "duplicate_ack_cond e s a l fl w (lost_packet e' p s' a' fl' t) = duplicate_ack_cond e s a l fl w t"
  by (simp_all add: fwd_cond_defs)

lemma conds_keep_alive [simp]:
  "window_update_cond e s a l fl w (keep_alive e' p s' a' l' fl' t) = window_update_cond e s a l fl w t"
  "window_full_cond e s l fl (keep_alive e' p s' a' l' fl' t) = window_full_cond e s l fl t"
  "keep_alive_ack_cond e s a l fl w (keep_alive e' p s' a' l' fl' t) = keep_alive_ack_cond e s a l fl w t"
  "zero_window_probe_ack_cond e s a l fl w (keep_alive e' p s' a' l' fl' t) = zero_window_probe_ack_cond e s a l fl w t"
  "duplicate_ack_cond e s a l fl w (keep_alive e' p s' a' l' fl' t) = duplicate_ack_cond e s a l fl w t"
  by (simp_all add: fwd_cond_defs)

lemma conds_window_update [simp]:
  "window_full_cond e s l fl (tcp_window_update e' p s' a' l' fl' w' t) = window_full_cond e s l fl t"
  "keep_alive_ack_cond e s a l fl w (tcp_window_update e' p s' a' l' fl' w' t) = keep_alive_ack_cond e s a l fl w t"
  "zero_window_probe_ack_cond e s a l fl w (tcp_window_update e' p s' a' l' fl' w' t) = zero_window_probe_ack_cond e s a l fl w t"
  "duplicate_ack_cond e s a l fl w (tcp_window_update e' p s' a' l' fl' w' t) = duplicate_ack_cond e s a l fl w t"
  by (simp_all add: fwd_cond_defs)

lemma conds_window_full [simp]:
  "keep_alive_ack_cond e s a l fl w (window_full e' p s' a' l' fl' t) = keep_alive_ack_cond e s a l fl w t"
  "zero_window_probe_ack_cond e s a l fl w (window_full e' p s' a' l' fl' t) = zero_window_probe_ack_cond e s a l fl w t"
  "duplicate_ack_cond e s a l fl w (window_full e' p s' a' l' fl' t) = duplicate_ack_cond e s a l fl w t"
  by (simp_all add: fwd_cond_defs)

lemma fwd_checks_flows:
  "fwd (fwd_checks e p s a l fl w t) =
     (fwd t)\<lparr>valid_bif := (valid_bif (fwd t) \<and>
                 \<not> (\<not> zero_window_probe_cond s l t \<and> lost_packet_cond e s fl t)),
              dupacknum := (if counts_dupack e s a l fl w t
                            then dupacknum (fwd t) + 1 else dupacknum (fwd t))\<rparr>"
  "rev_flow (fwd_checks e p s a l fl w t) = rev_flow t"
  "ts_first_rtt (fwd_checks e p s a l fl w t) = ts_first_rtt t"
  by (simp_all add: fwd_checks_def Let_def counts_dupack_def)

lemma fwd_checks_inv [simp]:
  "ta_inv (num p, s, a) t \<Longrightarrow> ta_inv (num p, s, a) (fwd_checks e p s a l fl w t)"
  by (simp add: fwd_checks_def Let_def)

lemma fwd_checks_or0:
  assumes "ta_inv (num p, s, a) t"
  shows "ta_or0 (fwd_checks e p s a l fl w t) =
     (ta_or0 t)\<lparr>ta_flags := ta_flags (ta_or0 t) OR fwd_check_flags e s a l fl w t,
                 dupack_num := (if counts_dupack e s a l fl w t then dupacknum (fwd t) + 1
                                else dupack_num (ta_or0 t)),
                 dupack_frame := (if counts_dupack e s a l fl w t then lastnondupack (fwd t)
                                else dupack_frame (ta_or0 t))\<rparr>"
proof (cases "zero_window_probe_cond s l t")
  case True
  with assms show ?thesis
    by (simp add: fwd_checks_def fwd_check_flags_def counts_dupack_def)
next
  case zwp: False
  show ?thesis
  proof (cases "keep_alive_ack_cond e s a l fl w t")
    case True
    with assms zwp show ?thesis
      by (simp add: fwd_checks_def Let_def fwd_check_flags_def counts_dupack_def word_bw_assocs
            split del: if_split)
  next
    case kaa: False
    show ?thesis
    proof (cases "zero_window_probe_ack_cond e s a l fl w t")
      case True
      with assms zwp kaa show ?thesis
        by (simp add: fwd_checks_def Let_def fwd_check_flags_def counts_dupack_def word_bw_assocs
              split del: if_split)
    next
      case zpa: False
      show ?thesis
      proof (cases "duplicate_ack_cond e s a l fl w t")
        case True
        with assms zwp kaa zpa show ?thesis
          by (simp add: fwd_checks_def Let_def fwd_check_flags_def counts_dupack_def word_bw_assocs
              split del: if_split)
      next
        case False
        with assms zwp kaa zpa show ?thesis
          by (simp add: fwd_checks_def Let_def fwd_check_flags_def counts_dupack_def word_bw_assocs
              split del: if_split)
      qed
    qed
  qed
qed

lemma reset_dupack_flows [simp]:
  "fwd (reset_dupack p a t) =
     (fwd t)\<lparr>lastnondupack := (if a \<noteq> lastack (fwd t) then num p else lastnondupack (fwd t)),
              dupacknum := (if a \<noteq> lastack (fwd t) then 0 else dupacknum (fwd t))\<rparr>"
  "rev_flow (reset_dupack p a t) = rev_flow t"
  "ts_first_rtt (reset_dupack p a t) = ts_first_rtt t"
  "ta_inv k (reset_dupack p a t) = ta_inv k t"
  "ta_or0 (reset_dupack p a t) = ta_or0 t"
  by (simp_all add: reset_dupack_def)

lemma acked_lost_packet_flows [simp]:
  "fwd (acked_lost_packet e p s a fl t) = fwd t"
  "rev_flow (acked_lost_packet e p s a fl t) =
     (rev_flow t)\<lparr>maxseqtobeacked := (if acked_lost_packet_cond e a fl t then nextseq (rev_flow t)
                                        else maxseqtobeacked (rev_flow t))\<rparr>"
  "ts_first_rtt (acked_lost_packet e p s a fl t) = ts_first_rtt t"
  by (simp_all add: acked_lost_packet_def)

lemma acked_lost_packet_ta [simp]:
  "ta_inv (num p, s, a) t \<Longrightarrow> ta_inv (num p, s, a) (acked_lost_packet e p s a fl t)"
  "ta_inv (num p, s, a) t \<Longrightarrow> ta_or0 (acked_lost_packet e p s a fl t) =
     (ta_or0 t)\<lparr>ta_flags := ta_flags (ta_or0 t) OR
        (if acked_lost_packet_cond e a fl t then TCP_A_ACK_LOST_PACKET else 0)\<rparr>"
  by (simp_all add: acked_lost_packet_def)

lemma retransmission_check_flows [simp]:
  "fwd (retransmission_check e p s a l fl t) = fwd t"
  "rev_flow (retransmission_check e p s a l fl t) = rev_flow t"
  "ts_first_rtt (retransmission_check e p s a l fl t) = ts_first_rtt t"
  by (simp_all add: retransmission_check_def Let_def)

lemma retransmission_check_inv [simp]:
  "ta_inv (num p, s, a) t \<Longrightarrow> ta_inv (num p, s, a) (retransmission_check e p s a l fl t)"
  by (simp add: retransmission_check_def Let_def with_ta_inv)

lemma retransmission_check_or0:
  assumes "ta_inv (num p, s, a) t"
  shows "ta_or0 (retransmission_check e p s a l fl t) =
     (if checks_retransmission e l fl \<and> ta_flags (ta_or0 t) AND TCP_A_KEEP_ALIVE = 0
      then (let c = retransmission_family (ooo_thres t) p s l t
            in (ta_or0 t)\<lparr>ta_flags := ta_flags (ta_or0 t) OR retransmission_flag c,
                 rto_ts := (if c = Retransmission then nstime_delta e (abs_ts p) (nextseqtime (fwd t))
                            else rto_ts (ta_or0 t)),
                 rto_frame := (if c = Retransmission then nextseqframe (fwd t)
                               else rto_frame (ta_or0 t))\<rparr>)
      else ta_or0 t)"
proof (cases "checks_retransmission e l fl \<and> ta_flags (ta_or0 t) AND TCP_A_KEEP_ALIVE = 0")
  case False
  then show ?thesis
    by (auto simp add: retransmission_check_def Let_def ta_has_flag_or0 checks_retransmission_def)
next
  case True
  define c where "c = retransmission_family (ooo_thres t) p s l t"
  have sna: "(if 1 < l \<and> nextseq (fwd t) - 1 = s then False
              else nextseq (fwd t) \<noteq> 0 \<and> LT_SEQ s (nextseq (fwd t))) = seq_not_advanced s l t"
    by (auto simp add: seq_not_advanced_def)
  show ?thesis
  proof (cases c)
    case Not_Retransmission
    with True assms show ?thesis unfolding c_def
      by (auto simp add: retransmission_check_def Let_def ta_has_flag_or0 checks_retransmission_def sna
          retransmission_family_def with_ta_or0 split: if_splits)
  next
    case Fast_Retransmission
    with True assms show ?thesis unfolding c_def
      by (auto simp add: retransmission_check_def Let_def ta_has_flag_or0 checks_retransmission_def sna
          retransmission_family_def with_ta_or0 split: if_splits)
  next
    case Out_Of_Order
    with True assms show ?thesis unfolding c_def
      by (auto simp add: retransmission_check_def Let_def ta_has_flag_or0 checks_retransmission_def sna
          retransmission_family_def with_ta_or0 split: if_splits)
  next
    case Spurious_Retransmission
    with True assms show ?thesis unfolding c_def
      by (auto simp add: retransmission_check_def Let_def ta_has_flag_or0 checks_retransmission_def sna
          retransmission_family_def with_ta_or0 split: if_splits)
  next
    case Retransmission
    with True assms show ?thesis unfolding c_def
      by (auto simp add: retransmission_check_def Let_def ta_has_flag_or0 checks_retransmission_def sna
          retransmission_family_def with_ta_or0 split: if_splits)
  qed
qed

lemma add_unacked_flows [simp]:
  "fwd (add_unacked e p s l fl t) =
     (fwd t)\<lparr>segments := (if adds_unacked e l fl t
                 then \<lparr>ua_frame = num p, ua_seq = s, ua_nextseq = local_nextseq e s l fl t,
                       ua_ts = abs_ts p\<rparr> # segments (fwd t)
                 else segments (fwd t)),
              segment_count := (if adds_unacked e l fl t then segment_count (fwd t) + 1
                                else segment_count (fwd t))\<rparr>"
  "rev_flow (add_unacked e p s l fl t) = rev_flow t"
  "ts_first_rtt (add_unacked e p s l fl t) = ts_first_rtt t"
  "ta_inv k (add_unacked e p s l fl t) = ta_inv k t"
  "ta_or0 (add_unacked e p s l fl t) = ta_or0 t"
  by (simp_all add: add_unacked_def)

lemma store_nextseq_flows [simp]:
  "fwd (store_nextseq p n t) =
     (fwd t)\<lparr>nextseq := (if advances_nextseq n t then n else nextseq (fwd t)),
              nextseqframe := (if advances_nextseq n t then num p else nextseqframe (fwd t)),
              nextseqtime := (if advances_nextseq n t then abs_ts p else nextseqtime (fwd t))\<rparr>"
  "rev_flow (store_nextseq p n t) = rev_flow t"
  "ts_first_rtt (store_nextseq p n t) = ts_first_rtt t"
  "ta_inv k (store_nextseq p n t) = ta_inv k t"
  "ta_or0 (store_nextseq p n t) = ta_or0 t"
  by (simp_all add: store_nextseq_def advances_nextseq_def)

lemma store_maxseqtobeacked_flows [simp]:
  "fwd (store_maxseqtobeacked s t) =
     (fwd t)\<lparr>maxseqtobeacked := (if advances_maxseqtobeacked s t then nextseq (fwd t)
                                   else maxseqtobeacked (fwd t))\<rparr>"
  "rev_flow (store_maxseqtobeacked s t) = rev_flow t"
  "ts_first_rtt (store_maxseqtobeacked s t) = ts_first_rtt t"
  "ta_inv k (store_maxseqtobeacked s t) = ta_inv k t"
  "ta_or0 (store_maxseqtobeacked s t) = ta_or0 t"
  by (simp_all add: store_maxseqtobeacked_def advances_maxseqtobeacked_def)

lemma remember_segment_flows [simp]:
  "fwd (remember_segment p a w t) =
     (fwd t)\<lparr>window := w, lastack := a, lastacktime := abs_ts p,
              lastsegmentflags := ta_flags (ta_or0 t)\<rparr>"
  "rev_flow (remember_segment p a w t) = rev_flow t"
  "ts_first_rtt (remember_segment p a w t) = ts_first_rtt t"
  "ta_inv k (remember_segment p a w t) = ta_inv k t"
  "ta_or0 (remember_segment p a w t) = ta_or0 t"
  by (simp_all add: remember_segment_def ta_or0_def tcp_acked_new0_def split: option.splits)

lemma delete_unacked_flows [simp]:
  "fwd (delete_unacked u t) =
     (fwd t)\<lparr>maxsizeacked := (if scps_capable (rev_flow t)
                                   \<and> ua_nextseq u - ua_seq u > maxsizeacked (fwd t)
                                then ua_nextseq u - ua_seq u else maxsizeacked (fwd t))\<rparr>"
  "rev_flow (delete_unacked u t) = (rev_flow t)\<lparr>segment_count := segment_count (rev_flow t) - 1\<rparr>"
  "ts_first_rtt (delete_unacked u t) = ts_first_rtt t"
  "ta_inv k (delete_unacked u t) = ta_inv k t"
  "ta_or0 (delete_unacked u t) = ta_or0 t"
  by (simp_all add: delete_unacked_def Let_def)

lemma GT_SEQ_irrefl [simp]: "\<not> GT_SEQ x x"
  by (simp add: GT_SEQ_def)

lemma ack_unacked_preserves:
  "(\<And>u t. Q t \<Longrightarrow> Q (delete_unacked u t)) \<Longrightarrow>
   (\<And>(u :: tcp_unacked_t) t. Q t \<Longrightarrow> Q (ta_upd (\<lambda>a. a\<lparr>frame_acked := ua_frame u,
                               ta_ts := nstime_delta e (abs_ts p) (ua_ts u)\<rparr>)
                         (tcp_analyze_get_acked_struct (num p) s a True t))) \<Longrightarrow>
   Q t \<Longrightarrow> Q (snd (ack_unacked e p s a l t))"
proof (induction e p s a l t rule: ack_unacked.induct)
  case (1 e pinfo seq ack tcpd)
  then show ?case by simp
next
  case (2 e pinfo seq ack ual rest tcpd)
  note h1 = "2.prems"(1) and h2 = "2.prems"(2) and h3 = "2.prems"(3)
  show ?case
  proof (cases "ack = ua_nextseq ual")
    case True
    have "Q (delete_unacked ual
                (ta_upd (\<lambda>a. a\<lparr>frame_acked := ua_frame ual,
                               ta_ts := nstime_delta e (abs_ts pinfo) (ua_ts ual)\<rparr>)
                   (tcp_analyze_get_acked_struct (num pinfo) seq ack True tcpd)))"
      apply (rule h1)
      apply (rule h2)
      apply (rule h3)
      done
    from "2.IH"(1)[OF True h1 h2 this] True show ?thesis by (auto split: prod.splits)
  next
    case n1: False
    show ?thesis
    proof (cases "GT_SEQ ack (ua_seq ual) \<and> LE_SEQ ack (ua_nextseq ual)")
      case True
      from "2.IH"(2)[OF n1 True h1 h2 h3] n1 True show ?thesis by (auto split: prod.splits)
    next
      case n2: False
      show ?thesis
      proof (cases "GT_SEQ (ua_nextseq ual) ack")
        case True
        from "2.IH"(3)[OF n1 n2 True h1 h2 h3] n1 n2 True show ?thesis
          by (auto split: prod.splits)
      next
        case False
        have "Q (delete_unacked ual tcpd)" by (rule h1, rule h3)
        from "2.IH"(4)[OF n1 n2 False h1 h2 this] n1 n2 False show ?thesis by (auto split: prod.splits)
      qed
    qed
  qed
qed

lemma ack_flow_inv_refl: "ack_flow_inv t t"
  unfolding ack_flow_inv_def
  apply (intro conjI)
    apply (rule exI[of _ "maxsizeacked (fwd t)"], simp)
   apply (rule exI[of _ "segment_count (rev_flow t)"], simp)
  apply simp
  done

lemma ack_ta_inv_refl: "ta_inv k t \<Longrightarrow> ack_ta_inv k t t"
  unfolding ack_ta_inv_def
  apply (intro conjI)
   apply simp
  apply (rule exI[of _ "frame_acked (ta_or0 t)"], rule exI[of _ "ta_ts (ta_or0 t)"], simp)
  done

lemma ack_flow_inv_delete: "ack_flow_inv t x \<Longrightarrow> ack_flow_inv t (delete_unacked u x)"
  unfolding ack_flow_inv_def by (clarsimp, metis)

lemma ack_ta_inv_delete: "ack_ta_inv k t x \<Longrightarrow> ack_ta_inv k t (delete_unacked u x)"
  unfolding ack_ta_inv_def by simp

lemma ack_flow_inv_upd:
  "ack_flow_inv t x \<Longrightarrow> ack_flow_inv t (ta_upd g (tcp_analyze_get_acked_struct fr s a c x))"
  unfolding ack_flow_inv_def by simp

lemma ack_ta_inv_upd:
  "ack_ta_inv (fr, s, a) t x \<Longrightarrow>
   ack_ta_inv (fr, s, a) t (ta_upd (\<lambda>a. a\<lparr>frame_acked := fa, ta_ts := ts\<rparr>)
                            (tcp_analyze_get_acked_struct fr s a True x))"
proof -
  assume h: "ack_ta_inv (fr, s, a) t x"
  let ?g = "\<lambda>a. a\<lparr>frame_acked := fa, ta_ts := ts\<rparr>"
  let ?y = "tcp_analyze_get_acked_struct fr s a True x"
  from h have inv: "ta_inv (fr, s, a) x" by (simp add: ack_ta_inv_def)
  have invy: "ta_inv (fr, s, a) ?y" by (rule get_acked_inv[OF inv])
  have tay: "ta ?y = Some (fr, s, a)" by (rule get_acked_ta)
  from invy tay have tab: "acked_table ?y (fr, s, a) \<noteq> None" by (simp add: ta_inv_def)
  have or0: "ta_or0 (ta_upd ?g ?y) = ?g (ta_or0 x)"
    using ta_upd_or0[OF tay tab, of ?g] get_acked_or0[OF inv] by simp
  from h obtain fa' ts' where "ta_or0 x = (ta_or0 t)\<lparr>frame_acked := fa', ta_ts := ts'\<rparr>"
    unfolding ack_ta_inv_def by blast
  then have "ta_or0 (ta_upd ?g ?y) = (ta_or0 t)\<lparr>frame_acked := fa, ta_ts := ts\<rparr>"
    using or0 by simp
  then have ex: "\<exists>fa ts. ta_or0 (ta_upd ?g ?y) = (ta_or0 t)\<lparr>frame_acked := fa, ta_ts := ts\<rparr>"
    by blast
  show ?thesis
    using h ex unfolding ack_ta_inv_def
    by (simp add: ta_upd_inv invy)
qed

lemma ack_unacked_flow_inv: "ack_flow_inv t (snd (ack_unacked e p s a l t))"
  by (rule ack_unacked_preserves[where Q = "ack_flow_inv t"])
     (auto intro: ack_flow_inv_delete ack_flow_inv_upd ack_flow_inv_refl)

lemma ack_unacked_ta_inv:
  "ta_inv (num p, s, a) t \<Longrightarrow> ack_ta_inv (num p, s, a) t (snd (ack_unacked e p s a l t))"
  by (rule ack_unacked_preserves[where Q = "ack_ta_inv (num p, s, a) t"])
     (auto intro: ack_ta_inv_delete ack_ta_inv_upd ack_ta_inv_refl)

lemma ack_segments_flows [simp]:
  "fwd (ack_segments e p s a t) = (fwd t)\<lparr>maxsizeacked := acked_fwd_maxsizeacked e p s a t\<rparr>"
  "rev_flow (ack_segments e p s a t) =
     (rev_flow t)\<lparr>segments := acked_rev_segments e p s a t,
                   segment_count := acked_rev_segment_count e p s a t\<rparr>"
  "ts_first_rtt (ack_segments e p s a t) = ts_first_rtt t"
proof -
  let ?x = "snd (ack_unacked e p s a (segments (rev_flow t)) t)"
  let ?k = "fst (ack_unacked e p s a (segments (rev_flow t)) t)"
  have eq: "ack_segments e p s a t = rev_upd (\<lambda>f. f\<lparr>segments := ?k\<rparr>) ?x"
    by (simp add: ack_segments_def split: prod.splits)
  from ack_unacked_flow_inv[of t e p s a "segments (rev_flow t)"]
  obtain m c where m: "fwd ?x = (fwd t)\<lparr>maxsizeacked := m\<rparr>"
    and c: "rev_flow ?x = (rev_flow t)\<lparr>segment_count := c\<rparr>"
    and r: "ts_first_rtt ?x = ts_first_rtt t"
    unfolding ack_flow_inv_def by blast
  show "fwd (ack_segments e p s a t) = (fwd t)\<lparr>maxsizeacked := acked_fwd_maxsizeacked e p s a t\<rparr>"
    unfolding acked_fwd_maxsizeacked_def eq using m by simp
  show "rev_flow (ack_segments e p s a t) =
     (rev_flow t)\<lparr>segments := acked_rev_segments e p s a t,
                   segment_count := acked_rev_segment_count e p s a t\<rparr>"
    unfolding acked_rev_segments_def acked_rev_segment_count_def eq using c by simp
  show "ts_first_rtt (ack_segments e p s a t) = ts_first_rtt t"
    unfolding eq using r by simp
qed

lemma ack_segments_ta [simp]:
  assumes "ta_inv (num p, s, a) t"
  shows "ta_inv (num p, s, a) (ack_segments e p s a t)"
    and "ta_or0 (ack_segments e p s a t) =
       (ta_or0 t)\<lparr>frame_acked := acked_frame_acked e p s a t, ta_ts := acked_ta_ts e p s a t\<rparr>"
proof -
  let ?x = "snd (ack_unacked e p s a (segments (rev_flow t)) t)"
  let ?k = "fst (ack_unacked e p s a (segments (rev_flow t)) t)"
  have eq: "ack_segments e p s a t = rev_upd (\<lambda>f. f\<lparr>segments := ?k\<rparr>) ?x"
    by (simp add: ack_segments_def split: prod.splits)
  from ack_unacked_ta_inv[OF assms, of e "segments (rev_flow t)"]
  obtain fa ts where i: "ta_inv (num p, s, a) ?x"
    and o: "ta_or0 ?x = (ta_or0 t)\<lparr>frame_acked := fa, ta_ts := ts\<rparr>"
    unfolding ack_ta_inv_def by blast
  show "ta_inv (num p, s, a) (ack_segments e p s a t)"
    unfolding eq using i by simp
  show "ta_or0 (ack_segments e p s a t) =
       (ta_or0 t)\<lparr>frame_acked := acked_frame_acked e p s a t, ta_ts := acked_ta_ts e p s a t\<rparr>"
    unfolding acked_frame_acked_def acked_ta_ts_def eq using o by simp
qed

lemma push_bytes_eq:
  "push_bytes e l fl f =
     f\<lparr>push_bytes_sent := push_bytes_sent (push_bytes e l fl f),
       push_set_last := push_set_last (push_bytes e l fl f)\<rparr>"
  by (simp add: push_bytes_def)

lemma track_bytes_in_flight_flows [simp]:
  "fwd (track_bytes_in_flight e p s a l fl t) =
     (fwd t)\<lparr>push_bytes_sent := (if bif_cond e l t then push_bytes_sent (push_bytes e l fl (fwd t))
                                   else push_bytes_sent (fwd t)),
              push_set_last := (if bif_cond e l t then push_set_last (push_bytes e l fl (fwd t))
                                else push_set_last (fwd t))\<rparr>"
  "rev_flow (track_bytes_in_flight e p s a l fl t) = rev_flow t"
  "ts_first_rtt (track_bytes_in_flight e p s a l fl t) = ts_first_rtt t"
  using push_bytes_eq[of e l fl "fwd t"]
  by (auto simp add: track_bytes_in_flight_def Let_def)

lemma track_bytes_in_flight_ta:
  assumes "ta_inv (num p, s, a) t" and "fd_num p = num p"
  shows "ta_inv (num p, s, a) (track_bytes_in_flight e p s a l fl t)"
    and "ta_or0 (track_bytes_in_flight e p s a l fl t) =
       (ta_or0 t)\<lparr>bytes_in_flight := (if bif_cond e l t \<and> bif_in_range (fwd t)
                                        then in_flight (fwd t) else bytes_in_flight (ta_or0 t)),
                   ta_push_bytes_sent := (if bif_cond e l t
                                        then push_bytes_sent (push_bytes e l fl (fwd t))
                                        else ta_push_bytes_sent (ta_or0 t))\<rparr>"
  using assms
  by (simp_all add: track_bytes_in_flight_def Let_def with_ta_inv with_ta_or0 bif_in_range_def)

lemma in_flight_upd [simp]:
  "in_flight (f\<lparr>maxsizeacked := m\<rparr>) = in_flight f"
  "in_flight (f\<lparr>window := w\<rparr>) = in_flight f"
  "in_flight (f\<lparr>lastack := a\<rparr>) = in_flight f"
  "in_flight (f\<lparr>lastacktime := ts\<rparr>) = in_flight f"
  "in_flight (f\<lparr>lastsegmentflags := fl\<rparr>) = in_flight f"
  "in_flight (f\<lparr>maxseqtobeacked := m\<rparr>) = in_flight f"
  "in_flight (f\<lparr>nextseq := m\<rparr>) = in_flight f"
  "in_flight (f\<lparr>nextseqframe := m\<rparr>) = in_flight f"
  "in_flight (f\<lparr>nextseqtime := ts\<rparr>) = in_flight f"
  by (simp_all add: in_flight_def split: list.splits)

lemma ta_has_flag_upd [simp]:
  "ta_has_flag x (fwd_upd f t) = ta_has_flag x t"
  "ta_has_flag x (rev_upd f t) = ta_has_flag x t"
  by (simp_all add: ta_has_flag_def)

lemma tcp_analyze_sequence_number_Some:
  "tcp_analyze_sequence_number e p s a l fl w (Some t) =
     Some (track_bytes_in_flight e p s a l fl
             (ack_segments e p s a (after_remember e p s a l fl w t)))"
  by (simp add: tcp_analyze_sequence_number_def after_remember_def before_retransmission_def Let_def)

lemma fwd_conds_store_base_seq [simp]:
  "zero_window_probe_cond s l (store_base_seq e s2 a2 fl2 t) = zero_window_probe_cond s l t"
  "lost_packet_cond e s fl (store_base_seq e s2 a2 fl2 t) = lost_packet_cond e s fl t"
  "keep_alive_cond e s l fl (store_base_seq e s2 a2 fl2 t) = keep_alive_cond e s l fl t"
  "window_update_cond e s a l fl w (store_base_seq e s2 a2 fl2 t) = window_update_cond e s a l fl w t"
  "window_full_cond e s l fl (store_base_seq e s2 a2 fl2 t) = window_full_cond e s l fl t"
  "keep_alive_ack_cond e s a l fl w (store_base_seq e s2 a2 fl2 t) = keep_alive_ack_cond e s a l fl w t"
  "zero_window_probe_ack_cond e s a l fl w (store_base_seq e s2 a2 fl2 t) = zero_window_probe_ack_cond e s a l fl w t"
  "duplicate_ack_cond e s a l fl w (store_base_seq e s2 a2 fl2 t) = duplicate_ack_cond e s a l fl w t"
  by (simp_all add: fwd_cond_defs store_base_seq_fwd store_base_seq_rev)

lemma fwd_check_flags_store_base_seq [simp]:
  "fwd_check_flags e s a l fl w (store_base_seq e s2 a2 fl2 t) = fwd_check_flags e s a l fl w t"
  "counts_dupack e s a l fl w (store_base_seq e s2 a2 fl2 t) = counts_dupack e s a l fl w t"
  by (simp_all add: fwd_check_flags_def counts_dupack_def)

lemma acked_lost_packet_cond_pre [simp]:
  "acked_lost_packet_cond e a fl
     (reset_dupack p a1 (fwd_checks e p s a2 l fl1 w (store_base_seq e s2 a3 fl2 t))) =
   acked_lost_packet_cond e a fl t"
  by (simp add: acked_lost_packet_cond_def fwd_checks_flows store_base_seq_rev)

lemma before_retransmission_fwd:
  "fwd (before_retransmission e p s a l fl w t) =
     (fwd (store_base_seq e s a fl t))
       \<lparr>valid_bif := (valid_bif (fwd t) \<and>
                 \<not> (\<not> zero_window_probe_cond s l t \<and> lost_packet_cond e s fl t)),
        lastnondupack := (if a \<noteq> lastack (fwd t) then num p else lastnondupack (fwd t)),
        dupacknum := (if a \<noteq> lastack (fwd t) then 0
                      else if counts_dupack e s a l fl w t then dupacknum (fwd t) + 1
                      else dupacknum (fwd t))\<rparr>"
  by (simp add: before_retransmission_def fwd_checks_flows store_base_seq_fwd)

lemma before_retransmission_rev:
  "rev_flow (before_retransmission e p s a l fl w t) =
     (rev_flow (store_base_seq e s a fl t))
       \<lparr>maxseqtobeacked := (if acked_lost_packet_cond e a fl t then nextseq (rev_flow t)
                             else maxseqtobeacked (rev_flow t))\<rparr>"
  by (simp add: before_retransmission_def fwd_checks_flows store_base_seq_rev)

lemma before_retransmission_misc [simp]:
  "ts_first_rtt (before_retransmission e p s a l fl w t) = ts_first_rtt t"
  "ta_inv (num p, s, a) t \<Longrightarrow> ta_inv (num p, s, a) (before_retransmission e p s a l fl w t)"
  by (simp_all add: before_retransmission_def fwd_checks_flows)

lemma before_retransmission_or0:
  "ta_inv (num p, s, a) t \<Longrightarrow>
   ta_or0 (before_retransmission e p s a l fl w t) =
     (ta_or0 t)\<lparr>ta_flags := flags_before_retransmission e s a l fl w t,
                 dupack_num := (if counts_dupack e s a l fl w t then dupacknum (fwd t) + 1
                                else dupack_num (ta_or0 t)),
                 dupack_frame := (if counts_dupack e s a l fl w t then lastnondupack (fwd t)
                                else dupack_frame (ta_or0 t))\<rparr>"
  by (simp add: before_retransmission_def fwd_checks_or0 flags_before_retransmission_def
        store_base_seq_fwd)

lemma word16_has_OR: "((x OR y) AND (fl::guint16) \<noteq> 0) = (x AND fl \<noteq> 0 \<or> y AND fl \<noteq> 0)"
  by (simp add: bit.conj_disj_distrib2 or_eq_0_iff)

lemma word16_has_if: "((if c then A else 0) AND (fl::guint16) \<noteq> 0) = (c \<and> A AND fl \<noteq> 0)"
  by simp

lemma store_base_seq_fwd_fields [simp]:
  "window (fwd (store_base_seq e s a fl t)) = window (fwd t)"
  "valid_bif (fwd (store_base_seq e s a fl t)) = valid_bif (fwd t)"
  "segments (fwd (store_base_seq e s a fl t)) = segments (fwd t)"
  "segment_count (fwd (store_base_seq e s a fl t)) = segment_count (fwd t)"
  "lastack (fwd (store_base_seq e s a fl t)) = lastack (fwd t)"
  "lastacktime (fwd (store_base_seq e s a fl t)) = lastacktime (fwd t)"
  "lastnondupack (fwd (store_base_seq e s a fl t)) = lastnondupack (fwd t)"
  "dupacknum (fwd (store_base_seq e s a fl t)) = dupacknum (fwd t)"
  "nextseq (fwd (store_base_seq e s a fl t)) = nextseq (fwd t)"
  "maxseqtobeacked (fwd (store_base_seq e s a fl t)) = maxseqtobeacked (fwd t)"
  "nextseqframe (fwd (store_base_seq e s a fl t)) = nextseqframe (fwd t)"
  "nextseqtime (fwd (store_base_seq e s a fl t)) = nextseqtime (fwd t)"
  "lastsegmentflags (fwd (store_base_seq e s a fl t)) = lastsegmentflags (fwd t)"
  by (simp_all add: store_base_seq_fwd)

lemma store_base_seq_rev_fields [simp]:
  "window (rev_flow (store_base_seq e s a fl t)) = window (rev_flow t)"
  "win_scale (rev_flow (store_base_seq e s a fl t)) = win_scale (rev_flow t)"
  "segments (rev_flow (store_base_seq e s a fl t)) = segments (rev_flow t)"
  "segment_count (rev_flow (store_base_seq e s a fl t)) = segment_count (rev_flow t)"
  "lastack (rev_flow (store_base_seq e s a fl t)) = lastack (rev_flow t)"
  "lastacktime (rev_flow (store_base_seq e s a fl t)) = lastacktime (rev_flow t)"
  "dupacknum (rev_flow (store_base_seq e s a fl t)) = dupacknum (rev_flow t)"
  "nextseq (rev_flow (store_base_seq e s a fl t)) = nextseq (rev_flow t)"
  "maxseqtobeacked (rev_flow (store_base_seq e s a fl t)) = maxseqtobeacked (rev_flow t)"
  "lastsegmentflags (rev_flow (store_base_seq e s a fl t)) = lastsegmentflags (rev_flow t)"
  "scps_capable (rev_flow (store_base_seq e s a fl t)) = scps_capable (rev_flow t)"
  by (simp_all add: store_base_seq_rev)

lemma before_retransmission_fwd_fields [simp]:
  "window (fwd (before_retransmission e p s a l fl w t)) = window (fwd t)"
  "segments (fwd (before_retransmission e p s a l fl w t)) = segments (fwd t)"
  "segment_count (fwd (before_retransmission e p s a l fl w t)) = segment_count (fwd t)"
  "lastack (fwd (before_retransmission e p s a l fl w t)) = lastack (fwd t)"
  "lastacktime (fwd (before_retransmission e p s a l fl w t)) = lastacktime (fwd t)"
  "nextseq (fwd (before_retransmission e p s a l fl w t)) = nextseq (fwd t)"
  "maxseqtobeacked (fwd (before_retransmission e p s a l fl w t)) = maxseqtobeacked (fwd t)"
  "nextseqframe (fwd (before_retransmission e p s a l fl w t)) = nextseqframe (fwd t)"
  "nextseqtime (fwd (before_retransmission e p s a l fl w t)) = nextseqtime (fwd t)"
  by (simp_all add: before_retransmission_fwd)

lemma before_retransmission_rev_fields [simp]:
  "window (rev_flow (before_retransmission e p s a l fl w t)) = window (rev_flow t)"
  "segments (rev_flow (before_retransmission e p s a l fl w t)) = segments (rev_flow t)"
  "segment_count (rev_flow (before_retransmission e p s a l fl w t)) = segment_count (rev_flow t)"
  "lastack (rev_flow (before_retransmission e p s a l fl w t)) = lastack (rev_flow t)"
  "lastacktime (rev_flow (before_retransmission e p s a l fl w t)) = lastacktime (rev_flow t)"
  "dupacknum (rev_flow (before_retransmission e p s a l fl w t)) = dupacknum (rev_flow t)"
  "nextseq (rev_flow (before_retransmission e p s a l fl w t)) = nextseq (rev_flow t)"
  "scps_capable (rev_flow (before_retransmission e p s a l fl w t)) = scps_capable (rev_flow t)"
  by (simp_all add: before_retransmission_rev)

lemma seq_not_advanced_before [simp]:
  "seq_not_advanced s l (before_retransmission e p' s' a' l' fl' w' t) = seq_not_advanced s l t"
  by (simp add: seq_not_advanced_def)

lemma retransmission_family_before [simp]:
  "retransmission_family th p s l (before_retransmission e p' s' a' l' fl' w' t) =
   retransmission_family th p s l t"
  by (simp add: retransmission_family_def)

lemma ooo_thres_before [simp]:
  "ooo_thres (before_retransmission e p s a l fl w t) = ooo_thres t"
  by (simp add: ooo_thres_def)

lemma local_nextseq_before [simp]:
  "adds_unacked e l fl (retransmission_check e' p s a l' fl' (before_retransmission e'' p' s' a' l'' fl'' w t))
     = adds_unacked e l fl t"
  "local_nextseq e s l fl (retransmission_check e' p s2 a l' fl' (before_retransmission e'' p' s' a' l'' fl'' w t))
     = local_nextseq e s l fl t"
  by (simp_all add: local_nextseq_def adds_unacked_def)

lemma after_retransmission_or0:
  assumes "ta_inv (num p, s, a) t"
  shows "ta_or0 (retransmission_check e p s a l fl (before_retransmission e p s a l fl w t)) =
     (ta_or0 t)\<lparr>ta_flags := flags_after_retransmission e p s a l fl w t,
                 dupack_num := (if counts_dupack e s a l fl w t then dupacknum (fwd t) + 1
                                else dupack_num (ta_or0 t)),
                 dupack_frame := (if counts_dupack e s a l fl w t then lastnondupack (fwd t)
                                else dupack_frame (ta_or0 t)),
                 rto_ts := (if records_rto e p s a l fl w t
                            then nstime_delta e (abs_ts p) (nextseqtime (fwd t))
                            else rto_ts (ta_or0 t)),
                 rto_frame := (if records_rto e p s a l fl w t then nextseqframe (fwd t)
                               else rto_frame (ta_or0 t))\<rparr>"
proof -
  have eq: "(checks_retransmission e l fl
           \<and> flags_before_retransmission e s a l fl w t AND TCP_A_KEEP_ALIVE = 0)
      = runs_retransmission_check e s a l fl w t"
    by (simp add: runs_retransmission_check_def)
  show ?thesis
  proof (cases "runs_retransmission_check e s a l fl w t")
    case True
    with assms show ?thesis
      by (simp add: retransmission_check_or0 before_retransmission_or0 Let_def eq
          flags_after_retransmission_def records_rto_def split del: if_split cong: if_cong)
  next
    case False
    with assms show ?thesis
      by (simp add: retransmission_check_or0 before_retransmission_or0 Let_def eq
          flags_after_retransmission_def records_rto_def split del: if_split cong: if_cong)
  qed
qed

lemma after_retransmission_has_zwp:
  "ta_inv (num p, s, a) t \<Longrightarrow>
   ta_has_flag TCP_A_ZERO_WINDOW_PROBE
     (retransmission_check e p s a l fl (before_retransmission e p s a l fl w t)) =
   (ta_has_flag TCP_A_ZERO_WINDOW_PROBE t \<or> zero_window_probe_cond s l t)"
  apply (simp add: ta_has_flag_or0 after_retransmission_or0 flags_after_retransmission_def
      flags_before_retransmission_def fwd_check_flags_def word16_has_OR word16_has_if
      split del: if_split)
  apply (cases "retransmission_family (ooo_thres t) p s l t")
  apply (simp_all add: TCP_A_RETRANSMISSION_def TCP_A_LOST_PACKET_def TCP_A_ACK_LOST_PACKET_def
  TCP_A_KEEP_ALIVE_def TCP_A_DUPLICATE_ACK_def TCP_A_ZERO_WINDOW_def
  TCP_A_ZERO_WINDOW_PROBE_def TCP_A_ZERO_WINDOW_PROBE_ACK_def TCP_A_KEEP_ALIVE_ACK_def
  TCP_A_OUT_OF_ORDER_def TCP_A_FAST_RETRANSMISSION_def TCP_A_WINDOW_UPDATE_def
  TCP_A_WINDOW_FULL_def TCP_A_REUSED_PORTS_def TCP_A_SPURIOUS_RETRANSMISSION_def
      word16_has_OR word16_has_if)
  done

lemma after_remember_misc [simp]:
  "rev_flow (after_remember e p s a l fl w t) = rev_flow (before_retransmission e p s a l fl w t)"
  "ts_first_rtt (after_remember e p s a l fl w t) = ts_first_rtt t"
  "ta_inv (num p, s, a) t \<Longrightarrow> ta_inv (num p, s, a) (after_remember e p s a l fl w t)"
  "ta_or0 (after_remember e p s a l fl w t) =
     ta_or0 (retransmission_check e p s a l fl (before_retransmission e p s a l fl w t))"
  by (simp_all add: after_remember_def Let_def)

lemma after_remember_fwd:
  assumes "ta_inv (num p, s, a) t"
  shows "fwd (after_remember e p s a l fl w t) =
     (fwd (before_retransmission e p s a l fl w t))
       \<lparr>segments := (if adds_unacked e l fl t
                 then \<lparr>ua_frame = num p, ua_seq = s, ua_nextseq = local_nextseq e s l fl t,
                       ua_ts = abs_ts p\<rparr> # segments (fwd t)
                 else segments (fwd t)),
        segment_count := (if adds_unacked e l fl t then segment_count (fwd t) + 1
                          else segment_count (fwd t)),
        nextseq := new_nextseq e s l fl t,
        nextseqframe := (if nextseq_advances e s l fl t then num p else nextseqframe (fwd t)),
        nextseqtime := (if nextseq_advances e s l fl t then abs_ts p else nextseqtime (fwd t)),
        maxseqtobeacked := new_maxseqtobeacked e s l fl t,
        window := w, lastack := a, lastacktime := abs_ts p,
        lastsegmentflags := flags_after_retransmission e p s a l fl w t\<rparr>"
proof -
  let ?t5 = "retransmission_check e p s a l fl (before_retransmission e p s a l fl w t)"
  have z: "ta_has_flag TCP_A_ZERO_WINDOW_PROBE ?t5 = classified_zwp s l t"
    using assms by (simp add: after_retransmission_has_zwp classified_zwp_def)
  have adv: "advances_nextseq (local_nextseq e s l fl t) (add_unacked e p s l fl ?t5) =
       nextseq_advances e s l fl t"
    by (simp add: advances_nextseq_def add_unacked_def z nextseq_advances_def)
  have advm: "advances_maxseqtobeacked s (store_nextseq p n (add_unacked e p s l fl ?t5)) =
       maxseqtobeacked_advances s l t" for n
    by (simp add: advances_maxseqtobeacked_def add_unacked_def store_nextseq_def z
          maxseqtobeacked_advances_def)
  show ?thesis
    using assms
    by (simp add: after_remember_def Let_def adv advm after_retransmission_or0
        new_nextseq_def new_maxseqtobeacked_def split del: if_split cong: if_cong)
qed

lemma analysis_result_eq:
  "tcp_analyze_sequence_number e p s a l fl w (Some t) = Some t' \<Longrightarrow>
   t' = analysis_result e p s a l fl w t"
  by (simp add: tcp_analyze_sequence_number_Some analysis_result_def)

lemma analysis_result_fwd:
  "fwd (analysis_result e p s a l fl w t) =
     (fwd (after_remember e p s a l fl w t))
       \<lparr>maxsizeacked := maxsizeacked (fwd (analysis_result e p s a l fl w t)),
        push_bytes_sent := push_bytes_sent (fwd (analysis_result e p s a l fl w t)),
        push_set_last := push_set_last (fwd (analysis_result e p s a l fl w t))\<rparr>"
  by (simp add: analysis_result_def)

lemma analysis_result_rev:
  "rev_flow (analysis_result e p s a l fl w t) =
     (rev_flow (before_retransmission e p s a l fl w t))
       \<lparr>segments := segments (rev_flow (analysis_result e p s a l fl w t)),
        segment_count := segment_count (rev_flow (analysis_result e p s a l fl w t))\<rparr>"
  by (simp add: analysis_result_def)

lemma analysis_result_inv:
  "ta_inv (num p, s, a) t \<Longrightarrow> fd_num p = num p \<Longrightarrow>
   ta_inv (num p, s, a) (analysis_result e p s a l fl w t)"
  by (simp add: analysis_result_def track_bytes_in_flight_ta)

lemma bif_cond_cong:
  "segments (fwd t) = segments (fwd t') \<Longrightarrow> valid_bif (fwd t) = valid_bif (fwd t') \<Longrightarrow>
   bif_cond e l t = bif_cond e l t'"
  by (simp add: bif_cond_def)

lemma in_flight_cong:
  "segments f = segments f' \<Longrightarrow> base_seq f = base_seq f' \<Longrightarrow> in_flight f = in_flight f'"
  by (simp add: in_flight_def split: list.splits)

lemma analysis_result_ta_fields:
  assumes "ta_inv (num p, s, a) t" and "fd_num p = num p"
  shows "ta_flags (ta_or0 (analysis_result e p s a l fl w t)) =
           flags_after_retransmission e p s a l fl w t"
    and "dupack_num (ta_or0 (analysis_result e p s a l fl w t)) =
           (if counts_dupack e s a l fl w t then dupacknum (fwd t) + 1 else dupack_num (ta_or0 t))"
    and "dupack_frame (ta_or0 (analysis_result e p s a l fl w t)) =
           (if counts_dupack e s a l fl w t then lastnondupack (fwd t) else dupack_frame (ta_or0 t))"
    and "rto_ts (ta_or0 (analysis_result e p s a l fl w t)) =
           (if records_rto e p s a l fl w t then nstime_delta e (abs_ts p) (nextseqtime (fwd t))
            else rto_ts (ta_or0 t))"
    and "rto_frame (ta_or0 (analysis_result e p s a l fl w t)) =
           (if records_rto e p s a l fl w t then nextseqframe (fwd t) else rto_frame (ta_or0 t))"
  using assms
  by (simp_all add: analysis_result_def track_bytes_in_flight_ta after_retransmission_or0
        split del: if_split cong: if_cong)

lemma analysis_result_bytes_in_flight:
  assumes "ta_inv (num p, s, a) t" and "fd_num p = num p"
  shows "bytes_in_flight (ta_or0 (analysis_result e p s a l fl w t)) =
           (if bif_cond e l (analysis_result e p s a l fl w t)
               \<and> bif_in_range (fwd (analysis_result e p s a l fl w t))
            then in_flight (fwd (analysis_result e p s a l fl w t))
            else bytes_in_flight (ta_or0 t))"
proof -
  let ?r = "after_remember e p s a l fl w t"
  let ?k = "ack_segments e p s a ?r"
  let ?t' = "analysis_result e p s a l fl w t"
  have i1: "ta_inv (num p, s, a) ?r" using assms by simp
  have i2: "ta_inv (num p, s, a) ?k" using i1 by simp
  have seg: "segments (fwd ?k) = segments (fwd ?t')" "valid_bif (fwd ?k) = valid_bif (fwd ?t')"
    "base_seq (fwd ?k) = base_seq (fwd ?t')"
    by (simp_all add: analysis_result_def)
  have b: "bif_cond e l ?k = bif_cond e l ?t'" by (rule bif_cond_cong[OF seg(1,2)])
  have f: "in_flight (fwd ?k) = in_flight (fwd ?t')" by (rule in_flight_cong[OF seg(1,3)])
  have r: "bif_in_range (fwd ?k) = bif_in_range (fwd ?t')" by (simp only: bif_in_range_def f)
  have bo: "bytes_in_flight (ta_or0 ?k) = bytes_in_flight (ta_or0 t)"
    using assms(1) i1 by (simp add: after_retransmission_or0)
  have "bytes_in_flight (ta_or0 ?t') =
          (if bif_cond e l ?k \<and> bif_in_range (fwd ?k) then in_flight (fwd ?k)
           else bytes_in_flight (ta_or0 ?k))"
    unfolding analysis_result_def
    by (simp only: track_bytes_in_flight_ta(2)[OF i2 assms(2)]) simp
  then show ?thesis by (simp only: b f r bo)
qed

lemma analysis_result_fwd_fields:
  assumes "ta_inv (num p, s, a) t"
  shows "window (fwd (analysis_result e p s a l fl w t)) = w"
    and "lastack (fwd (analysis_result e p s a l fl w t)) = a"
    and "lastacktime (fwd (analysis_result e p s a l fl w t)) = abs_ts p"
    and "lastsegmentflags (fwd (analysis_result e p s a l fl w t)) =
           flags_after_retransmission e p s a l fl w t"
    and "nextseq (fwd (analysis_result e p s a l fl w t)) = new_nextseq e s l fl t"
    and "maxseqtobeacked (fwd (analysis_result e p s a l fl w t)) = new_maxseqtobeacked e s l fl t"
    and "dupacknum (fwd (analysis_result e p s a l fl w t)) =
           (if a \<noteq> lastack (fwd t) then 0
            else if counts_dupack e s a l fl w t then dupacknum (fwd t) + 1
            else dupacknum (fwd t))"
  using assms
  by (simp_all add: analysis_result_def after_remember_fwd before_retransmission_fwd
        split del: if_split cong: if_cong)

lemma analysis_result_base_seq:
  "base_seq (fwd (analysis_result e p s a l fl w t)) = base_seq (fwd (store_base_seq e s a fl t))"
  "static_flags (fwd (analysis_result e p s a l fl w t)) = static_flags (fwd (store_base_seq e s a fl t))"
  "base_seq (rev_flow (analysis_result e p s a l fl w t)) = base_seq (rev_flow (store_base_seq e s a fl t))"
  "static_flags (rev_flow (analysis_result e p s a l fl w t)) = static_flags (rev_flow (store_base_seq e s a fl t))"
  "nextseq (rev_flow (analysis_result e p s a l fl w t)) = nextseq (rev_flow t)"
  by (simp_all add: analysis_result_def after_remember_def Let_def before_retransmission_fwd
        before_retransmission_rev)


subsection \<open>Byte order\<close>

lemma be_bytes_8: "be_bytes 8 (w::guint64) =
  [ucast (drop_bit 56 w), ucast (drop_bit 48 w), ucast (drop_bit 40 w), ucast (drop_bit 32 w),
   ucast (drop_bit 24 w), ucast (drop_bit 16 w), ucast (drop_bit 8 w), ucast w]"
  by (simp add: be_bytes_def upt_rec)

lemma be_bytes_4: "be_bytes 4 (w::guint32) =
  [ucast (drop_bit 24 w), ucast (drop_bit 16 w), ucast (drop_bit 8 w), ucast w]"
  by (simp add: be_bytes_def upt_rec)

lemma be_bytes_be_word_4: "be_bytes 4 (be_word [a, b, c, d] :: guint32) = [a, b, c, d]"
  unfolding be_bytes_4
  apply (simp add: be_word_def)
  apply (intro conjI; rule bit_word_eqI; auto simp: bit_simps dest: bit_imp_le_length)
  done

lemma be_bytes_be_word_8:
  "be_bytes 8 (be_word [a, b, c, d, e, f, g, h] :: guint64) = [a, b, c, d, e, f, g, h]"
  unfolding be_bytes_8
  apply (simp add: be_word_def)
  apply (intro conjI; rule bit_word_eqI; auto simp: bit_simps dest: bit_imp_le_length)
  done

lemma list4: "length bs = 4 \<Longrightarrow> \<exists>a b c d. bs = [a, b, c, d]"
  by (cases bs; simp; cases "tl bs"; simp; cases "tl (tl bs)"; simp; cases "tl (tl (tl bs))"; simp)

lemma swap32_be_word: "length bs = 4 \<Longrightarrow> GUINT32_SWAP_LE_BE (be_word (rev bs)) = be_word bs"
proof -
  assume "length bs = 4"
  then obtain a b c d where "bs = [a, b, c, d]" using list4 by blast
  then show ?thesis by (simp add: GUINT32_SWAP_LE_BE_def be_bytes_be_word_4)
qed

lemma list8: "length bs = 8 \<Longrightarrow> \<exists>a b c d e f g h. bs = [a, b, c, d, e, f, g, h]"
proof -
  assume l: "length bs = 8"
  then have t: "length (take 4 bs) = 4" and d: "length (drop 4 bs) = 4" by simp_all
  from list4[OF t] obtain a b c d where "take 4 bs = [a, b, c, d]" by blast
  moreover from list4[OF d] obtain e f g h where "drop 4 bs = [e, f, g, h]" by blast
  ultimately
  have "take 4 bs @ drop 4 bs = [a, b, c, d, e, f, g, h]" by simp
  then show ?thesis by (simp only: append_take_drop_id) blast
qed

lemma swap64_be_word: "length bs = 8 \<Longrightarrow> GUINT64_SWAP_LE_BE (be_word (rev bs)) = be_word bs"
proof -
  assume "length bs = 8"
  then obtain a b c d e f g h where "bs = [a, b, c, d, e, f, g, h]" using list8 by blast
  then show ?thesis by (simp add: GUINT64_SWAP_LE_BE_def be_bytes_be_word_8)
qed

lemma length_be_bytes [simp]: "length (be_bytes n w) = n"
  by (simp add: be_bytes_def)

lemma swap64_be_bytes: "rev (be_bytes 8 (GUINT64_SWAP_LE_BE w)) = be_bytes 8 w"
proof -
  obtain a b c d e f g h where e: "rev (be_bytes 8 w) = [a, b, c, d, e, f, g, h]"
    using list8[of "rev (be_bytes 8 w)"] by auto
  then have "be_bytes 8 w = rev [a, b, c, d, e, f, g, h]" by (metis rev_rev_ident)
  with e show ?thesis by (simp add: GUINT64_SWAP_LE_BE_def be_bytes_be_word_8)
qed

lemma pseudokey_bytes:
  "object_bytes little_endian 8 (GUINT64_TO_BE little_endian key) = be_bytes 8 key"
  by (simp add: object_bytes_def GUINT64_TO_BE_def swap64_be_bytes)

lemma token_from_be:
  "length bs = 4 \<Longrightarrow> GUINT32_FROM_BE little_endian (object_value little_endian bs) = be_word bs"
  by (simp add: GUINT32_FROM_BE_def object_value_def swap32_be_word)

lemma idsn_from_be:
  "length bs = 8 \<Longrightarrow> GUINT64_FROM_BE little_endian (object_value little_endian bs) = be_word bs"
  by (simp add: GUINT64_FROM_BE_def object_value_def swap64_be_word)


subsection \<open>The PDU loop\<close>

lemma Next_PDU_advances:
  "tcp_dissect_pdus_step env pd fixed_len offset pinfo = Next_PDU offset' pinfo' \<Longrightarrow>
   sint offset < sint offset'"
  by (auto simp add: tcp_dissect_pdus_step_def Let_def
      split: if_splits sum.splits option.splits prod.splits)

declare tcp_dissect_pdus_loop.simps [simp del]

lemma offsets_advance_Nil: "offsets_advance offset []"
  using sint_lt [where 'a = 32, of offset] by (simp add: offsets_advance_def)

lemma offsets_advance_single: "offsets_advance offset [offset]"
  using sint_lt [where 'a = 32, of offset] by (simp add: offsets_advance_def)

lemma offsets_advance_Cons:
  "sint offset < sint offset' \<Longrightarrow> offsets_advance offset' offsets \<Longrightarrow>
   offsets_advance offset (offset # offsets)"
  by (fastforce simp add: offsets_advance_def)

lemma loop_offsets_advance:
  "offsets_advance offset (fst (snd (tcp_dissect_pdus_loop env pd fixed_len offset pinfo)))"
proof (induction env pd fixed_len offset pinfo rule: tcp_dissect_pdus_loop.induct)
  case (1 env proto_desegment fixed_len offset pinfo)
  show ?case
  proof (cases "tcp_dissect_pdus_step env proto_desegment fixed_len offset pinfo")
    case (Return outcome p)
    then show ?thesis
      by (simp add: tcp_dissect_pdus_loop.simps[of env proto_desegment fixed_len offset pinfo]
            offsets_advance_Nil)
  next
    case (Break_After_PDU outcome p)
    then show ?thesis
      by (simp add: tcp_dissect_pdus_loop.simps[of env proto_desegment fixed_len offset pinfo]
            offsets_advance_single)
  next
    case (Next_PDU offset' p)
    from offsets_advance_Cons[OF Next_PDU_advances[OF Next_PDU] 1[OF Next_PDU]] Next_PDU
    show ?thesis
      by (auto simp add: tcp_dissect_pdus_loop.simps[of env proto_desegment fixed_len offset pinfo]
            split: prod.splits)
  qed
qed

lemma step_overflow_breaks:
  "tcp_dissect_pdus_step env pd fixed_len offset pinfo = Next_PDU offset' pinfo' \<Longrightarrow>
   (\<exists>plen. get_pdu_len env pinfo offset = Inr plen \<and> offset' = offset + plen)"
  by (auto simp add: tcp_dissect_pdus_step_def Let_def
      split: if_splits sum.splits option.splits prod.splits)

subsection \<open>The direction of a conversation\<close>

lemma direction_delete_unacked [simp]: "fwd_is_flow1 (delete_unacked u t) = fwd_is_flow1 t"
  by (simp add: delete_unacked_def Let_def)

lemma direction_ack_unacked: "fwd_is_flow1 (snd (ack_unacked e p s a l t)) = fwd_is_flow1 t"
  by (rule ack_unacked_preserves[where Q = "\<lambda>x. fwd_is_flow1 x = fwd_is_flow1 t"]) simp_all

lemma direction_steps [simp]:
  "fwd_is_flow1 (zero_window e p s a fl w t) = fwd_is_flow1 t"
  "fwd_is_flow1 (lost_packet e p s a fl t) = fwd_is_flow1 t"
  "fwd_is_flow1 (keep_alive e p s a l fl t) = fwd_is_flow1 t"
  "fwd_is_flow1 (tcp_window_update e p s a l fl w t) = fwd_is_flow1 t"
  "fwd_is_flow1 (window_full e p s a l fl t) = fwd_is_flow1 t"
  "fwd_is_flow1 (duplicate_ack e p s a l fl w t) = fwd_is_flow1 t"
  "fwd_is_flow1 (reset_dupack p a t) = fwd_is_flow1 t"
  "fwd_is_flow1 (acked_lost_packet e p s a fl t) = fwd_is_flow1 t"
  "fwd_is_flow1 (retransmission_check e p s a l fl t) = fwd_is_flow1 t"
  "fwd_is_flow1 (add_unacked e p s l fl t) = fwd_is_flow1 t"
  "fwd_is_flow1 (store_nextseq p n t) = fwd_is_flow1 t"
  "fwd_is_flow1 (store_maxseqtobeacked s t) = fwd_is_flow1 t"
  "fwd_is_flow1 (remember_segment p a w t) = fwd_is_flow1 t"
  "fwd_is_flow1 (track_bytes_in_flight e p s a l fl t) = fwd_is_flow1 t"
  by (simp_all add: zero_window_def lost_packet_def keep_alive_def tcp_window_update_def
        window_full_def duplicate_ack_def reset_dupack_def acked_lost_packet_def
        retransmission_check_def add_unacked_def store_nextseq_def store_maxseqtobeacked_def
        remember_segment_def track_bytes_in_flight_def Let_def)

lemma direction_fwd_checks [simp]: "fwd_is_flow1 (fwd_checks e p s a l fl w t) = fwd_is_flow1 t"
  by (simp add: fwd_checks_def Let_def)

lemma direction_ack_segments [simp]: "fwd_is_flow1 (ack_segments e p s a t) = fwd_is_flow1 t"
  using direction_ack_unacked[of e p s a "segments (rev_flow t)" t]
  by (auto simp add: ack_segments_def split: prod.splits)

lemma analysis_result_direction:
  "fwd_is_flow1 (analysis_result e p s a l fl w t) = fwd_is_flow1 t"
  by (simp add: analysis_result_def after_remember_def before_retransmission_def Let_def)

lemma flow1_cases: "flow1 t = (if fwd_is_flow1 t then fwd t else rev_flow t)"
  by (simp add: fwd_def rev_flow_def)

lemma flow2_cases: "flow2 t = (if fwd_is_flow1 t then rev_flow t else fwd t)"
  by (simp add: fwd_def rev_flow_def)

subsection \<open>The analysis flags\<close>

lemmas TCP_A_defs = TCP_A_RETRANSMISSION_def TCP_A_LOST_PACKET_def TCP_A_ACK_LOST_PACKET_def
  TCP_A_KEEP_ALIVE_def TCP_A_DUPLICATE_ACK_def TCP_A_ZERO_WINDOW_def
  TCP_A_ZERO_WINDOW_PROBE_def TCP_A_ZERO_WINDOW_PROBE_ACK_def TCP_A_KEEP_ALIVE_ACK_def
  TCP_A_OUT_OF_ORDER_def TCP_A_FAST_RETRANSMISSION_def TCP_A_WINDOW_UPDATE_def
  TCP_A_WINDOW_FULL_def TCP_A_REUSED_PORTS_def TCP_A_SPURIOUS_RETRANSMISSION_def

section \<open>The claims\<close>

lemma if_AND: "(if c then x else y) AND (m::guint16) = (if c then x AND m else y AND m)"
  by simp

lemma fwd_check_flags_family:
  "fwd_check_flags e s a l fl w t AND retransmission_family_mask = 0"
  by (simp add: fwd_check_flags_def retransmission_family_mask_def TCP_A_defs
        bit.conj_disj_distrib2 if_AND)

lemma flags_before_retransmission_family:
  "flags_before_retransmission e s a l fl w t AND retransmission_family_mask =
   ta_flags (ta_or0 t) AND retransmission_family_mask"
proof -
  have x: "(if c then TCP_A_ACK_LOST_PACKET else 0) AND retransmission_family_mask = 0" for c
    by (simp add: retransmission_family_mask_def TCP_A_defs)
  show ?thesis
    by (simp add: flags_before_retransmission_def bit.conj_disj_distrib2 fwd_check_flags_family x
          split del: if_split)
qed

lemma retransmission_flag_family:
  "retransmission_flag c AND retransmission_family_mask = retransmission_flag c"
  by (cases c) (simp_all add: retransmission_family_mask_def TCP_A_defs)

lemma flags_before_keep_alive:
  "flags_after_retransmission e p s a l fl w t AND TCP_A_KEEP_ALIVE = 0 \<Longrightarrow>
   flags_before_retransmission e s a l fl w t AND TCP_A_KEEP_ALIVE = 0"
  by (simp add: flags_after_retransmission_def bit.conj_disj_distrib2 or_eq_0_iff
        split del: if_split)

text \<open>
  C1 (amended). For a segment with payload or with SYN or FIN that is not flagged
  keep-alive, \<open>tcp_analyze_sequence_number\<close> sets at most one flag of the retransmission
  family, the one of the first test that holds in the order fast retransmission,
  out-of-order, spurious retransmission, retransmission, with the tests as the
  specification gives them except for the out-of-order threshold: the time since
  \<open>nextseqtime\<close> is compared with the initial round-trip time when one is recorded, and
  with 3 ms only when none is, not with the larger of the two. A plain retransmission
  records the RTO as the time since \<open>nextseqtime\<close> and the frame that set it.
\<close>

theorem retransmission_family_first_match:
  assumes "ta_inv (num p, s, a) t" and "fd_num p = num p"
    and "ta_flags (ta_or0 t) AND retransmission_family_mask = 0"
    and "0 < l \<or> fl AND (TH_SYN e OR TH_FIN e) \<noteq> 0"
    and "tcp_analyze_sequence_number e p s a l fl w (Some t) = Some t'"
    and "ta_flags (ta_or0 t') AND TCP_A_KEEP_ALIVE = 0"
  shows "ta_flags (ta_or0 t') AND retransmission_family_mask =
           retransmission_flag
             (retransmission_family
                (if nsecs (ts_first_rtt t) = 0 \<and> secs (ts_first_rtt t) = 0 then 3000000
                 else scast (nsecs (ts_first_rtt t)) + secs (ts_first_rtt t) * 1000000000)
                p s l t)
       \<and> (retransmission_family
                (if nsecs (ts_first_rtt t) = 0 \<and> secs (ts_first_rtt t) = 0 then 3000000
                 else scast (nsecs (ts_first_rtt t)) + secs (ts_first_rtt t) * 1000000000)
                p s l t = Retransmission
          \<longrightarrow> rto_ts (ta_or0 t') = nstime_delta e (abs_ts p) (nextseqtime (fwd t))
              \<and> rto_frame (ta_or0 t') = nextseqframe (fwd t))"
proof -
  have r: "t' = analysis_result e p s a l fl w t" by (rule analysis_result_eq[OF assms(5)])
  note g = analysis_result_ta_fields[OF assms(1,2), of e l fl w]
  have o: "(if nsecs (ts_first_rtt t) = 0 \<and> secs (ts_first_rtt t) = 0 then 3000000
            else scast (nsecs (ts_first_rtt t)) + secs (ts_first_rtt t) * 1000000000) = ooo_thres t"
    by (simp add: ooo_thres_def)
  from assms(6) have k: "flags_after_retransmission e p s a l fl w t AND TCP_A_KEEP_ALIVE = 0"
    unfolding r by (simp add: g(1))
  have run: "runs_retransmission_check e s a l fl w t"
    using assms(4) flags_before_keep_alive[OF k]
    by (simp add: runs_retransmission_check_def checks_retransmission_def)
  have f: "ta_flags (ta_or0 t') AND retransmission_family_mask =
           retransmission_flag (retransmission_family (ooo_thres t) p s l t)"
    unfolding r
    by (simp add: g(1) flags_after_retransmission_def run bit.conj_disj_distrib2
          flags_before_retransmission_family assms(3) retransmission_flag_family)
  have t: "retransmission_family (ooo_thres t) p s l t = Retransmission
          \<longrightarrow> rto_ts (ta_or0 t') = nstime_delta e (abs_ts p) (nextseqtime (fwd t))
              \<and> rto_frame (ta_or0 t') = nextseqframe (fwd t)"
    unfolding r by (simp add: g(4,5) records_rto_def run)
  from f t show ?thesis unfolding o by blast
qed

theorem retransmission_family_example:
  "ta_inv (2, 101, 1)
     (state_before example_env (take 1 late_segment) (late_segment ! 1) short_rtt_conv)
   \<and> tcp_analyze_sequence_number example_env (at_time 2 10 2000000) 101 1 20 0x0010 1000
       (Some (state_before example_env (take 1 late_segment) (late_segment ! 1) short_rtt_conv))
     = Some (analysis_result example_env (at_time 2 10 2000000) 101 1 20 0x0010 1000
          (state_before example_env (take 1 late_segment) (late_segment ! 1) short_rtt_conv))
   \<and> ta_flags (ta_or0 (analysis_result example_env (at_time 2 10 2000000) 101 1 20 0x0010 1000
          (state_before example_env (take 1 late_segment) (late_segment ! 1) short_rtt_conv)))
        AND retransmission_family_mask = TCP_A_RETRANSMISSION
   \<and> rto_frame (ta_or0 (analysis_result example_env (at_time 2 10 2000000) 101 1 20 0x0010 1000
          (state_before example_env (take 1 late_segment) (late_segment ! 1) short_rtt_conv)))
        = 1"
proof -
  let ?t = "state_before example_env (take 1 late_segment) (late_segment ! 1) short_rtt_conv"
  let ?p = "at_time 2 10 2000000"
  let ?t' = "analysis_result example_env ?p 101 1 20 0x0010 1000 ?t"
  have i: "ta_inv (num ?p, 101, 1) ?t" by code_simp
  have i': "ta_inv (2, 101, 1) ?t" by code_simp
  have d: "fd_num ?p = num ?p" by (simp add: at_time_def)
  have o: "ta_flags (ta_or0 ?t) AND retransmission_family_mask = 0" by code_simp
  have h: "0 < (20 :: guint32) \<or> (0x0010 :: guint16) AND (TH_SYN example_env OR TH_FIN example_env) \<noteq> 0"
    by simp
  have c: "tcp_analyze_sequence_number example_env ?p 101 1 20 0x0010 1000 (Some ?t) = Some ?t'"
    by (simp add: tcp_analyze_sequence_number_Some analysis_result_def)
  have k: "ta_flags (ta_or0 ?t') AND TCP_A_KEEP_ALIVE = 0" by code_simp
  have f: "retransmission_family
             (if nsecs (ts_first_rtt ?t) = 0 \<and> secs (ts_first_rtt ?t) = 0 then 3000000
              else scast (nsecs (ts_first_rtt ?t)) + secs (ts_first_rtt ?t) * 1000000000)
             ?p 101 20 ?t = Retransmission"
    by code_simp
  have n: "nextseqframe (fwd ?t) = 1" by code_simp
  from retransmission_family_first_match[OF i d o h c k] f n
  have "ta_flags (ta_or0 ?t') AND retransmission_family_mask = TCP_A_RETRANSMISSION
        \<and> rto_frame (ta_or0 ?t') = 1"
    by simp
  with i' c show ?thesis by blast
qed

text \<open>
  C1 (as stated). On a connection whose initial round-trip time is 1 ms, the bytes of
  a segment arrive again 2 ms after it. With the threshold max(3 ms, initial RTT) the
  chain stops at out-of-order; the code compares with 1 ms and flags the segment as a
  retransmission.
\<close>

theorem out_of_order_threshold_is_not_the_maximum:
  "map_option (\<lambda>c. packet_flags c (2, 101, 1))
     (first_pass example_env late_segment short_rtt_conv) = Some TCP_A_RETRANSMISSION
   \<and> retransmission_family
       (claimed_ooo_thres
          (state_before example_env (take 1 late_segment) (late_segment ! 1) short_rtt_conv))
       (at_time 2 10 2000000) 101 20
       (state_before example_env (take 1 late_segment) (late_segment ! 1) short_rtt_conv)
     = Out_Of_Order
   \<and> retransmission_flag Out_Of_Order \<noteq> TCP_A_RETRANSMISSION
   \<and> TCP_A_RETRANSMISSION AND TCP_A_KEEP_ALIVE = 0"
  by code_simp

text \<open>
  C2. When \<open>desegment_tcp\<close> is called with a segment whose sequence number is the key of
  an MSP, whose end does not exceed the MSP's \<open>nxtpdu\<close>, where the MSP is not flagged as
  missing its first segment and the frame is neither the MSP's first frame, nor its
  first frame with that sequence number, nor its last frame, the function returns from
  its head: the only thing it does is to add the item "Retransmitted TCP segment data".
  The rest of the function, where the subdissector is called and the index of MSPs is
  changed, is not reached, and \<open>tcpd\<close>, with the index, is as before; delivering the
  segment again gives the same result.
\<close>

theorem desegment_tcp_retransmitted_segment:
  assumes "wmem_tree_lookup32 (multisegment_pdus (fwd tcpd)) seq = Some msp"
    and "nxtseq \<le> nxtpdu msp"
    and "msp_flags msp AND MSP_FLAGS_MISSING_FIRST_SEGMENT r = 0"
    and "first_frame msp \<noteq> num pinfo" and "first_frame_with_seq msp \<noteq> num pinfo"
    and "last_frame msp \<noteq> num pinfo"
  shows "desegment_tcp r rest pinfo seq nxtseq nbytes (Some tcpd) =
           ([Segment_Data ''Retransmitted '' nbytes], Some tcpd)
       \<and> desegment_tcp r rest pinfo seq nxtseq nbytes
           (snd (desegment_tcp r rest pinfo seq nxtseq nbytes (Some tcpd))) =
           desegment_tcp r rest pinfo seq nxtseq nbytes (Some tcpd)"
  using assms by (simp add: desegment_tcp_def desegment_tcp_head_def)

theorem desegment_tcp_retransmitted_example:
  "wmem_tree_lookup32 (multisegment_pdus (fwd (until_fin_conv [(900, an_msp 900 2000 4 6)]))) 900
     = Some (an_msp 900 2000 4 6)
   \<and> (1400 :: guint32) \<le> nxtpdu (an_msp 900 2000 4 6)
   \<and> msp_flags (an_msp 900 2000 4 6) AND MSP_FLAGS_MISSING_FIRST_SEGMENT example_reassembly = 0
   \<and> first_frame (an_msp 900 2000 4 6) \<noteq> num (at_time 9 10 0)
   \<and> first_frame_with_seq (an_msp 900 2000 4 6) \<noteq> num (at_time 9 10 0)
   \<and> last_frame (an_msp 900 2000 4 6) \<noteq> num (at_time 9 10 0)
   \<and> desegment_tcp example_reassembly (\<lambda>msp tcpd. ([Payload_Processed ''payload''], None))
       (at_time 9 10 0) 900 1400 500 (Some (until_fin_conv [(900, an_msp 900 2000 4 6)]))
     = ([Segment_Data ''Retransmitted '' 500], Some (until_fin_conv [(900, an_msp 900 2000 4 6)]))"
proof -
  let ?m = "an_msp 900 2000 4 6"
  let ?t = "until_fin_conv [(900, ?m)]"
  let ?p = "at_time 9 10 0"
  have a: "wmem_tree_lookup32 (multisegment_pdus (fwd ?t)) 900 = Some ?m" by code_simp
  have b: "(1400 :: guint32) \<le> nxtpdu ?m" by code_simp
  have c: "msp_flags ?m AND MSP_FLAGS_MISSING_FIRST_SEGMENT example_reassembly = 0" by code_simp
  have d: "first_frame ?m \<noteq> num ?p" by code_simp
  have e: "first_frame_with_seq ?m \<noteq> num ?p" by code_simp
  have f: "last_frame ?m \<noteq> num ?p" by code_simp
  from desegment_tcp_retransmitted_segment[OF a b c d e f,
         of "\<lambda>msp tcpd. ([Payload_Processed ''payload''], None)" 500]
  have "desegment_tcp example_reassembly (\<lambda>msp tcpd. ([Payload_Processed ''payload''], None))
          ?p 900 1400 500 (Some ?t) = ([Segment_Data ''Retransmitted '' 500], Some ?t)"
    by blast
  with a b c d e f show ?thesis by blast
qed

lemma get_tcp_conversation_data_flows [simp]:
  "flow1 (get_tcp_conversation_data d c) = flow1 c"
  "flow2 (get_tcp_conversation_data d c) = flow2 c"
  by (simp_all add: get_tcp_conversation_data_def)

lemma flag_ta_flow12 [simp]:
  "flow1 (flag_ta p s a fl t) = flow1 t" "flow2 (flag_ta p s a fl t) = flow2 t"
  by (simp_all add: flow1_cases[of "flag_ta p s a fl t"] flow2_cases[of "flag_ta p s a fl t"]
        flow1_cases[of t] flow2_cases[of t])

lemma port_reuse_synack_flag_ta [simp]:
  "port_reuse_synack e pk (flag_ta p s a fl t) = port_reuse_synack e pk t"
  by (simp add: port_reuse_synack_def)


lemma win_scale_upd_nextseq [simp]:
  "nextseq (flow1 (fwd_upd (\<lambda>f. f\<lparr>win_scale := x\<rparr>) t)) = nextseq (flow1 t)"
  "nextseq (flow2 (fwd_upd (\<lambda>f. f\<lparr>win_scale := x\<rparr>) t)) = nextseq (flow2 t)"
  "nextseq (flow1 (rev_upd (\<lambda>f. f\<lparr>win_scale := x\<rparr>) t)) = nextseq (flow1 t)"
  "nextseq (flow2 (rev_upd (\<lambda>f. f\<lparr>win_scale := x\<rparr>) t)) = nextseq (flow2 t)"
  by (simp_all add: fwd_upd_def rev_upd_def)

lemma verify_tcp_window_scaling_nextseq [simp]:
  "nextseq (flow1 (verify_tcp_window_scaling b t)) = nextseq (flow1 t)"
  "nextseq (flow2 (verify_tcp_window_scaling b t)) = nextseq (flow2 t)"
  by (simp_all add: verify_tcp_window_scaling_def)

lemma verify_scps_nextseq [simp]:
  "nextseq (flow1 (verify_scps t)) = nextseq (flow1 t)"
  "nextseq (flow2 (verify_scps t)) = nextseq (flow2 t)"
  by (simp_all add: verify_scps_def)


lemma nextseq_kept_or_advanced_refl [simp]: "nextseq_kept_or_advanced x x"
  by (simp add: nextseq_kept_or_advanced_def)






lemma local_nextseq_below_cap:
  "segment_count (fwd t) < TCP_MAX_UNACKED_SEGMENTS e \<Longrightarrow>
   local_nextseq e s l fl t = s + l + (if fl AND (TH_SYN e OR TH_FIN e) \<noteq> 0 then 1 else 0)"
  by (simp add: local_nextseq_def adds_unacked_def)

lemma claimed_advance_local_nextseq:
  "segment_count (fwd t) < TCP_MAX_UNACKED_SEGMENTS e \<Longrightarrow>
   claimed_advance e s l fl (nextseq (fwd t)) =
     (if GT_SEQ (local_nextseq e s l fl t) (nextseq (fwd t))
      then local_nextseq e s l fl t else nextseq (fwd t))"
  by (simp add: claimed_advance_def local_nextseq_def adds_unacked_def Let_def)

text \<open>
  C4 (amended). At the end of a call of \<open>tcp_analyze_sequence_number\<close> the forward flow
  has the window, the ack and the timestamp of the packet, and \<open>lastsegmentflags\<close> holds
  the analysis flags of the packet (0 when it has no analysis struct). A packet
  classified as a zero-window probe leaves \<open>nextseq\<close> and \<open>maxseqtobeacked\<close> alone.
  Otherwise, while the list of unacknowledged segments is below its cap, \<open>nextseq\<close>
  advances to the maximum, in sequence-space order, of its value and \<open>seq + length\<close>
  (plus one for SYN or FIN) when it is not 0, and is set to \<open>seq + length\<close> (plus one for
  SYN or FIN) when it is 0. \<open>maxseqtobeacked\<close> does not advance to that maximum: it is
  set to the new \<open>nextseq\<close> only when the segment starts exactly at \<open>maxseqtobeacked\<close>
  or \<open>maxseqtobeacked\<close> was 0, and is left alone otherwise.
\<close>

theorem state_at_end_of_call:
  assumes "ta_inv (num p, s, a) t" and "fd_num p = num p"
    and "tcp_analyze_sequence_number e p s a l fl w (Some t) = Some t'"
  shows "window (fwd t') = w \<and> lastack (fwd t') = a \<and> lastacktime (fwd t') = abs_ts p
       \<and> lastsegmentflags (fwd t') = ta_flags (ta_or0 t')
       \<and> (classified_zwp s l t \<longrightarrow> nextseq (fwd t') = nextseq (fwd t))
       \<and> (\<not> classified_zwp s l t \<and> segment_count (fwd t) < TCP_MAX_UNACKED_SEGMENTS e
          \<longrightarrow> nextseq (fwd t') =
               (if nextseq (fwd t) = 0
                then s + l + (if fl AND (TH_SYN e OR TH_FIN e) \<noteq> 0 then 1 else 0)
                else claimed_advance e s l fl (nextseq (fwd t))))
       \<and> maxseqtobeacked (fwd t') =
           (if \<not> classified_zwp s l t
               \<and> (s = maxseqtobeacked (fwd t) \<or> maxseqtobeacked (fwd t) = 0)
            then nextseq (fwd t') else maxseqtobeacked (fwd t))"
proof -
  have r: "t' = analysis_result e p s a l fl w t" by (rule analysis_result_eq[OF assms(3)])
  note f = analysis_result_fwd_fields[OF assms(1), of e l fl w]
  note g = analysis_result_ta_fields[OF assms(1,2), of e l fl w]
  have n: "nextseq (fwd t') =
           (if classified_zwp s l t then nextseq (fwd t)
            else if GT_SEQ (local_nextseq e s l fl t) (nextseq (fwd t)) \<or> nextseq (fwd t) = 0
            then local_nextseq e s l fl t else nextseq (fwd t))"
    unfolding r by (simp add: f(5) new_nextseq_def nextseq_advances_def)
  have z: "classified_zwp s l t \<longrightarrow> nextseq (fwd t') = nextseq (fwd t)"
    using n by simp
  have c: "\<not> classified_zwp s l t \<and> segment_count (fwd t) < TCP_MAX_UNACKED_SEGMENTS e
          \<longrightarrow> nextseq (fwd t') =
               (if nextseq (fwd t) = 0
                then s + l + (if fl AND (TH_SYN e OR TH_FIN e) \<noteq> 0 then 1 else 0)
                else claimed_advance e s l fl (nextseq (fwd t)))"
  proof (intro impI, elim conjE)
    assume nz: "\<not> classified_zwp s l t"
      and b: "segment_count (fwd t) < TCP_MAX_UNACKED_SEGMENTS e"
    show "nextseq (fwd t') =
               (if nextseq (fwd t) = 0
                then s + l + (if fl AND (TH_SYN e OR TH_FIN e) \<noteq> 0 then 1 else 0)
                else claimed_advance e s l fl (nextseq (fwd t)))"
    proof (cases "nextseq (fwd t) = 0")
      case True
      with n nz show ?thesis by (simp add: local_nextseq_below_cap[OF b])
    next
      case False
      with n nz show ?thesis by (simp add: claimed_advance_local_nextseq[OF b])
    qed
  qed
  have m: "maxseqtobeacked (fwd t') =
           (if \<not> classified_zwp s l t
               \<and> (s = maxseqtobeacked (fwd t) \<or> maxseqtobeacked (fwd t) = 0)
            then nextseq (fwd t') else maxseqtobeacked (fwd t))"
    unfolding r
    by (simp add: f(5,6) new_maxseqtobeacked_def maxseqtobeacked_advances_def EQ_SEQ_def)
  have o: "window (fwd t') = w \<and> lastack (fwd t') = a \<and> lastacktime (fwd t') = abs_ts p
       \<and> lastsegmentflags (fwd t') = ta_flags (ta_or0 t')"
    unfolding r by (simp add: f(1-4) g(1))
  from o z c m show ?thesis by blast
qed

theorem state_at_end_of_call_example:
  "ta_inv (2, 300, 1)
     (state_before example_env [segment_after_hole ! 0] (segment_after_hole ! 1)
        init_tcp_conversation_data)
   \<and> tcp_analyze_sequence_number example_env (at_time 2 10 1000000) 300 1 10 0x0010 1000
       (Some (state_before example_env [segment_after_hole ! 0] (segment_after_hole ! 1)
          init_tcp_conversation_data))
     = Some (analysis_result example_env (at_time 2 10 1000000) 300 1 10 0x0010 1000
          (state_before example_env [segment_after_hole ! 0] (segment_after_hole ! 1)
             init_tcp_conversation_data))
   \<and> nextseq (fwd (analysis_result example_env (at_time 2 10 1000000) 300 1 10 0x0010 1000
          (state_before example_env [segment_after_hole ! 0] (segment_after_hole ! 1)
             init_tcp_conversation_data))) = 310
   \<and> maxseqtobeacked (fwd (analysis_result example_env (at_time 2 10 1000000) 300 1 10 0x0010 1000
          (state_before example_env [segment_after_hole ! 0] (segment_after_hole ! 1)
             init_tcp_conversation_data))) = 151
   \<and> window (fwd (analysis_result example_env (at_time 2 10 1000000) 300 1 10 0x0010 1000
          (state_before example_env [segment_after_hole ! 0] (segment_after_hole ! 1)
             init_tcp_conversation_data))) = 1000"
proof -
  let ?t = "state_before example_env [segment_after_hole ! 0] (segment_after_hole ! 1)
        init_tcp_conversation_data"
  let ?p = "at_time 2 10 1000000"
  let ?t' = "analysis_result example_env ?p 300 1 10 0x0010 1000 ?t"
  have i: "ta_inv (num ?p, 300, 1) ?t" by code_simp
  have i': "ta_inv (2, 300, 1) ?t" by code_simp
  have d: "fd_num ?p = num ?p" by (simp add: at_time_def)
  have c: "tcp_analyze_sequence_number example_env ?p 300 1 10 0x0010 1000 (Some ?t) = Some ?t'"
    by (simp add: tcp_analyze_sequence_number_Some analysis_result_def)
  have z: "\<not> classified_zwp 300 10 ?t" by code_simp
  have b: "segment_count (fwd ?t) < TCP_MAX_UNACKED_SEGMENTS example_env" by code_simp
  have n: "nextseq (fwd ?t) = 151" by code_simp
  have m: "maxseqtobeacked (fwd ?t) = 151" by code_simp
  have l: "claimed_advance example_env 300 10 0x0010 151 = 310" by code_simp
  from state_at_end_of_call[OF i d c] z b n m l
  have "nextseq (fwd ?t') = 310 \<and> maxseqtobeacked (fwd ?t') = 151 \<and> window (fwd ?t') = 1000"
    by simp
  with i' c show ?thesis by simp
qed

text \<open>
  C4 (as stated). A data segment seq=101, len=50 followed by seq=300, len=10, neither a
  zero-window probe: \<open>nextseq\<close> advances to 310, the maximum of 151 and 310, while
  \<open>maxseqtobeacked\<close> stays at 151. And when \<open>nextseq\<close> has reached 0 by advancing past the
  top of the sequence space, a segment that ends at 0xFFFFFF10 sets \<open>nextseq\<close> to
  0xFFFFFF10, although the maximum of the two in sequence-space order is 0.
\<close>

theorem maxseqtobeacked_does_not_advance:
  "map (\<lambda>n. map_option (\<lambda>c. (nextseq (flow1 c), maxseqtobeacked (flow1 c)))
              (first_pass example_env (take n segment_after_hole) init_tcp_conversation_data))
     [1, 2]
   = [Some (151, 151), Some (310, 151)]
   \<and> claimed_advance example_env 300 10 0x0010 151 = 310
   \<and> (151 :: guint32) \<noteq> 310
   \<and> \<not> classified_zwp 300 10
         (state_before example_env [segment_after_hole ! 0] (segment_after_hole ! 1)
            init_tcp_conversation_data)
   \<and> nextseq (flow1 (state_after example_env (take 2 wrapping_segments)
         init_tcp_conversation_data)) = 0
   \<and> nextseq (flow1 (state_after example_env wrapping_segments init_tcp_conversation_data))
       = 0xFFFFFF10
   \<and> claimed_advance example_env 0xFFFFFF00 0x10 0x0010 0 = 0
   \<and> \<not> classified_zwp 0xFFFFFF00 0x10
         (state_before example_env (take 2 wrapping_segments) (wrapping_segments ! 2)
            init_tcp_conversation_data)"
  by code_simp

text \<open>
  C5. \<open>mptcp_cryptodata_sha1\<close> is a function of the key alone, whatever the byte order
  of the host: it hashes the 8-byte big-endian encoding of the key, and returns as token
  the first 4 bytes of the digest read as a big-endian 32-bit integer and as IDSN the
  last 8 bytes of the 20-byte digest read as a big-endian 64-bit integer.
\<close>

theorem mptcp_cryptodata_sha1_digest:
  assumes "length (sha1 (be_bytes 8 key)) = HASH_SHA1_LENGTH"
  shows "mptcp_cryptodata_sha1 little_endian sha1 key =
           (be_word (take 4 (sha1 (be_bytes 8 key))),
            be_word (drop 12 (sha1 (be_bytes 8 key))))"
proof -
  let ?d = "sha1 (be_bytes 8 key)"
  from assms have l: "length ?d = 20" by (simp add: HASH_SHA1_LENGTH_def)
  then have t: "length (take 4 ?d) = 4" and i: "length (drop 12 ?d) = 8" by simp_all
  from l have "take 8 (drop 12 ?d) = drop 12 ?d" by simp
  then show ?thesis
    by (simp add: mptcp_cryptodata_sha1_def Let_def pseudokey_bytes HASH_SHA1_LENGTH_def
          token_from_be[OF t] idsn_from_be[OF i])
qed

theorem mptcp_cryptodata_sha1_example:
  "length (padding_hash (be_bytes 8 (0x0102030405060708 :: guint64))) = HASH_SHA1_LENGTH
   \<and> mptcp_cryptodata_sha1 True padding_hash 0x0102030405060708 = (0x01020304, 0x0707070707070707)
   \<and> mptcp_cryptodata_sha1 False padding_hash 0x0102030405060708 = (0x01020304, 0x0707070707070707)"
proof -
  have l: "length (padding_hash (be_bytes 8 (0x0102030405060708 :: guint64))) = HASH_SHA1_LENGTH"
    by (simp add: padding_hash_def HASH_SHA1_LENGTH_def)
  have t: "(be_word (take 4 (padding_hash (be_bytes 8 (0x0102030405060708 :: guint64)))) :: guint32)
             = 0x01020304"
    by code_simp
  have i: "(be_word (drop 12 (padding_hash (be_bytes 8 (0x0102030405060708 :: guint64)))) :: guint64)
             = 0x0707070707070707"
    by code_simp
  from mptcp_cryptodata_sha1_digest[of padding_hash "0x0102030405060708" True]
    mptcp_cryptodata_sha1_digest[of padding_hash "0x0102030405060708" False] l t i
  show ?thesis by simp
qed

lemma base_seq_flag_set: "(x OR TCP_S_BASE_SEQ_SET) AND TCP_S_BASE_SEQ_SET \<noteq> 0"
  by (simp add: word_ao_absorbs) (simp add: TCP_S_BASE_SEQ_SET_def)

lemma base_seq_flag_nonzero: "TCP_S_BASE_SEQ_SET \<noteq> 0"
  by (simp add: TCP_S_BASE_SEQ_SET_def)

lemma analysis_result_flags_fwd:
  "static_flags (fwd (analysis_result e p s a l fl w t)) AND TCP_S_BASE_SEQ_SET \<noteq> 0"
  by (simp add: analysis_result_base_seq store_base_seq_fwd base_seq_flag_set base_seq_flag_nonzero)

lemma analysis_result_flags_rev:
  "(static_flags (rev_flow (analysis_result e p s a l fl w t)) AND TCP_S_BASE_SEQ_SET \<noteq> 0) =
   (static_flags (rev_flow t) AND TCP_S_BASE_SEQ_SET \<noteq> 0 \<or> fl AND TH_ACK e \<noteq> 0)"
  by (simp add: analysis_result_base_seq store_base_seq_rev base_seq_flag_set base_seq_flag_nonzero)

text \<open>
  C6 (amended). A call of \<open>tcp_analyze_sequence_number\<close> leaves the base sequence number
  of a direction alone once the flag \<open>TCP_S_BASE_SEQ_SET\<close> is recorded for it, so
  \<open>base_seq\<close> is assigned at most once. A segment processed while the flag is not
  recorded for its own direction fixes that base to \<open>seq\<close> if SYN is set and to
  \<open>seq - 1\<close> otherwise, and a segment carrying ACK fixes the base of the peer direction
  to \<open>ack - 1\<close> while the flag is not recorded for the peer; the flag is recorded
  whenever a base is fixed. The first segment of a direction therefore fixes the base
  of its direction only if no earlier segment of the peer carried an ACK. For the
  handshake SYN(seq=100), SYN/ACK(seq=500, ack=101), ACK(seq=101, ack=501) the bases
  end up 100 and 500 and no analysis flag is stored for any of the three packets.
\<close>

theorem base_seq_set_once:
  assumes "tcp_analyze_sequence_number e p s a l fl w (Some t) = Some t'"
  shows "base_seq (fwd t') =
           (if static_flags (fwd t) AND TCP_S_BASE_SEQ_SET \<noteq> 0 then base_seq (fwd t)
            else if fl AND TH_SYN e \<noteq> 0 then s else s - 1)
       \<and> base_seq (rev_flow t') =
           (if static_flags (rev_flow t) AND TCP_S_BASE_SEQ_SET \<noteq> 0 then base_seq (rev_flow t)
            else if fl AND TH_ACK e \<noteq> 0 then a - 1 else base_seq (rev_flow t))
       \<and> static_flags (fwd t') AND TCP_S_BASE_SEQ_SET \<noteq> 0
       \<and> (static_flags (rev_flow t') AND TCP_S_BASE_SEQ_SET \<noteq> 0) =
           (static_flags (rev_flow t) AND TCP_S_BASE_SEQ_SET \<noteq> 0 \<or> fl AND TH_ACK e \<noteq> 0)
       \<and> fwd_is_flow1 t' = fwd_is_flow1 t
       \<and> map_option (\<lambda>c. (base_seq (flow1 c), base_seq (flow2 c),
                            map (packet_flags c) [(1, 100, 0), (2, 500, 101), (3, 101, 501)]))
            (first_pass example_env handshake init_tcp_conversation_data)
          = Some (100, 500, [0, 0, 0])"
proof -
  have r: "t' = analysis_result e p s a l fl w t" by (rule analysis_result_eq[OF assms])
  have hs: "map_option (\<lambda>c. (base_seq (flow1 c), base_seq (flow2 c),
                            map (packet_flags c) [(1, 100, 0), (2, 500, 101), (3, 101, 501)]))
            (first_pass example_env handshake init_tcp_conversation_data)
          = Some (100, 500, [0, 0, 0])"
    by code_simp
  have d: "fwd_is_flow1 (analysis_result e p s a l fl w t) = fwd_is_flow1 t"
    by (rule analysis_result_direction)
  have b: "base_seq (fwd t') =
           (if static_flags (fwd t) AND TCP_S_BASE_SEQ_SET \<noteq> 0 then base_seq (fwd t)
            else if fl AND TH_SYN e \<noteq> 0 then s else s - 1)"
    unfolding r by (simp add: analysis_result_base_seq store_base_seq_fwd)
  have c: "base_seq (rev_flow t') =
           (if static_flags (rev_flow t) AND TCP_S_BASE_SEQ_SET \<noteq> 0 then base_seq (rev_flow t)
            else if fl AND TH_ACK e \<noteq> 0 then a - 1 else base_seq (rev_flow t))"
    unfolding r by (simp add: analysis_result_base_seq store_base_seq_rev)
  from b c hs show ?thesis
    unfolding r
    by (simp only: analysis_result_flags_fwd analysis_result_flags_rev d simp_thms)
qed

theorem base_seq_set_once_synack:
  "tcp_analyze_sequence_number example_env (at_time 2 10 1000000) 500 101 0 0x0012 65160
     (Some (state_before example_env [handshake ! 0] (handshake ! 1) init_tcp_conversation_data))
   = Some (analysis_result example_env (at_time 2 10 1000000) 500 101 0 0x0012 65160
             (state_before example_env [handshake ! 0] (handshake ! 1) init_tcp_conversation_data))
   \<and> base_seq (fwd (analysis_result example_env (at_time 2 10 1000000) 500 101 0 0x0012 65160
             (state_before example_env [handshake ! 0] (handshake ! 1) init_tcp_conversation_data)))
       = 500
   \<and> base_seq (rev_flow (analysis_result example_env (at_time 2 10 1000000) 500 101 0 0x0012 65160
             (state_before example_env [handshake ! 0] (handshake ! 1) init_tcp_conversation_data)))
       = 100"
proof -
  let ?t = "state_before example_env [handshake ! 0] (handshake ! 1) init_tcp_conversation_data"
  let ?t' = "analysis_result example_env (at_time 2 10 1000000) 500 101 0 0x0012 65160 ?t"
  have c: "tcp_analyze_sequence_number example_env (at_time 2 10 1000000) 500 101 0 0x0012 65160
             (Some ?t) = Some ?t'"
    by (simp add: tcp_analyze_sequence_number_Some analysis_result_def)
  have f: "static_flags (fwd ?t) AND TCP_S_BASE_SEQ_SET = 0" by code_simp
  have g: "static_flags (rev_flow ?t) AND TCP_S_BASE_SEQ_SET \<noteq> 0" by code_simp
  have h: "base_seq (rev_flow ?t) = 100" by code_simp
  have y: "(0x0012 :: guint16) AND TH_SYN example_env \<noteq> 0" by code_simp
  from base_seq_set_once[OF c] f g h y
  have "base_seq (fwd ?t') = 500 \<and> base_seq (rev_flow ?t') = 100" by simp
  with c show ?thesis by simp
qed

text \<open>
  C6 (as stated). A capture that starts in the middle of a connection. The first
  packet, of one direction, carries ACK with ack=1000 and fixes the base of the other
  direction to 999. The second packet is the first segment processed in that other
  direction; it has seq=2000 and no SYN, and the base of its direction stays 999, not
  \<open>seq - 1\<close> = 1999.
\<close>

theorem first_segment_does_not_fix_base_seq:
  "segments (flow2 (state_after example_env (take 1 midstream) init_tcp_conversation_data)) = []
   \<and> nextseq (flow2 (state_after example_env (take 1 midstream) init_tcp_conversation_data)) = 0
   \<and> base_seq (flow2 (state_after example_env (take 1 midstream) init_tcp_conversation_data))
       = 999
   \<and> fwd (dissect_tcp_conversation example_env (midstream ! 1)
             (state_after example_env (take 1 midstream) init_tcp_conversation_data))
       = flow2 (state_after example_env (take 1 midstream) init_tcp_conversation_data)
   \<and> th_seq (midstream ! 1) = 2000
   \<and> th_flags (midstream ! 1) AND TH_SYN example_env = 0
   \<and> first_pass example_env midstream init_tcp_conversation_data \<noteq> None
   \<and> base_seq (flow2 (state_after example_env midstream init_tcp_conversation_data)) = 999
   \<and> th_seq (midstream ! 1) - 1 = 1999"
  by code_simp

text \<open>
  C7 (amended). When a segment with FIN arrives on a flow that carries the
  reassemble-until-FIN flag, and no FIN is recorded for the flow or the recorded FIN is
  this frame, \<open>dissect_tcp\<close> records the frame as the flow's FIN and changes nothing else
  in \<open>tcpd\<close>. The reassembled data is handed to the subdissector only if an MSP is found
  at or before \<open>seq - 1\<close> and \<open>fragment_add\<close>, given the final chunk for that MSP,
  returns a completed reassembly; when no MSP is found, or the reassembly is not
  complete, the FIN is recorded and nothing is delivered. When the recorded FIN is
  another frame, the FIN is shown as a retransmission of the final FIN, \<open>tcpd\<close> is left
  as it is and nothing is delivered.
\<close>

theorem dissect_tcp_fin_delivery:
  assumes "flags AND TH_FIN e \<noteq> 0"
    and "flow_flags (fwd tcpd) AND TCP_FLOW_REASSEMBLE_UNTIL_FIN r \<noteq> 0"
    and "dissect_tcp_fin e r pinfo True seq seglen flags (Some tcpd) = (tcpd', events, returned)"
  shows "(fin (fwd tcpd) = 0 \<or> fin (fwd tcpd) = num pinfo \<longrightarrow>
            tcpd' = Some (fwd_upd (\<lambda>f. f\<lparr>fin := num pinfo\<rparr>) tcpd)
            \<and> (\<forall>d. (Payload_Processed d \<in> set events) =
                 (\<exists>msp. wmem_tree_lookup32_le (multisegment_pdus (fwd tcpd)) (seq - 1) = Some msp
                    \<and> fragment_add r pinfo (first_frame msp) (seq - msp_seq msp) seglen = Some d))
            \<and> (\<forall>i off n. (Fragment_Added i off n \<in> set events) =
                 (\<exists>msp. wmem_tree_lookup32_le (multisegment_pdus (fwd tcpd)) (seq - 1) = Some msp
                    \<and> i = first_frame msp \<and> off = seq - msp_seq msp \<and> n = seglen))
            \<and> returned = (\<exists>d. Payload_Processed d \<in> set events))
       \<and> (fin (fwd tcpd) \<noteq> 0 \<and> fin (fwd tcpd) \<noteq> num pinfo \<longrightarrow>
            tcpd' = Some tcpd \<and> events = [Fin_Retransmission (fin (fwd tcpd))] \<and> \<not> returned)"
proof -
  have m: "multisegment_pdus (fwd (fwd_upd (\<lambda>f. f\<lparr>fin := num pinfo\<rparr>) tcpd)) =
           multisegment_pdus (fwd tcpd)"
    by simp
  show ?thesis
    using assms
    by (auto simp add: dissect_tcp_fin_def Let_def m split: option.splits if_splits)
qed

theorem dissect_tcp_fin_delivery_example:
  "(0x0011 :: guint16) AND TH_FIN example_env \<noteq> 0
   \<and> flow_flags (fwd (until_fin_conv [(900, an_msp 900 2000 5 0)]))
        AND TCP_FLOW_REASSEMBLE_UNTIL_FIN example_reassembly \<noteq> 0
   \<and> dissect_tcp_fin example_env example_reassembly (at_time 9 10 0) True 1000 0 0x0011
        (Some (until_fin_conv [(900, an_msp 900 2000 5 0)]))
      = (Some (fwd_upd (\<lambda>f. f\<lparr>fin := 9\<rparr>) (until_fin_conv [(900, an_msp 900 2000 5 0)])),
         [Fragment_Added 5 100 0, Payload_Processed ''reassembled''], True)
   \<and> fin (fwd (until_fin_conv [(900, an_msp 900 2000 5 0)])) = 0"
proof -
  let ?t = "until_fin_conv [(900, an_msp 900 2000 5 0)]"
  let ?p = "at_time 9 10 0"
  have a: "(0x0011 :: guint16) AND TH_FIN example_env \<noteq> 0" by code_simp
  have b: "flow_flags (fwd ?t) AND TCP_FLOW_REASSEMBLE_UNTIL_FIN example_reassembly \<noteq> 0"
    by code_simp
  have z: "fin (fwd ?t) = 0" by code_simp
  have n: "num ?p = 9" by (simp add: at_time_def)
  obtain t' ev rt where
    c: "dissect_tcp_fin example_env example_reassembly ?p True 1000 0 0x0011 (Some ?t) = (t', ev, rt)"
    by (cases "dissect_tcp_fin example_env example_reassembly ?p True 1000 0 0x0011 (Some ?t)")
  have ev: "ev = [Fragment_Added 5 100 0, Payload_Processed ''reassembled'']"
  proof -
    have "fst (snd (dissect_tcp_fin example_env example_reassembly ?p True 1000 0 0x0011 (Some ?t)))
          = [Fragment_Added 5 100 0, Payload_Processed ''reassembled'']"
      by code_simp
    with c show ?thesis by simp
  qed
  from dissect_tcp_fin_delivery[OF a b c] z n ev
  have "t' = Some (fwd_upd (\<lambda>f. f\<lparr>fin := 9\<rparr>) ?t) \<and> rt"
    by auto
  with a b c z ev show ?thesis by simp
qed

text \<open>
  C7 (as stated). A FIN on a flow that carries the reassemble-until-FIN flag and has
  no FIN recorded. With no MSP at or before \<open>seq - 1\<close> the frame is recorded as the FIN
  and nothing else happens; with an MSP whose reassembly the final chunk does not
  complete, the chunk is added and nothing is delivered to the subdissector.
\<close>

theorem fin_without_delivery:
  "dissect_tcp_fin example_env example_reassembly (at_time 9 10 0) True 1000 0 0x0011
     (Some (until_fin_conv []))
   = (Some (fwd_upd (\<lambda>f. f\<lparr>fin := 9\<rparr>) (until_fin_conv [])), [], False)
   \<and> dissect_tcp_fin example_env example_reassembly (at_time 9 10 0) True 1000 0 0x0011
       (Some (until_fin_conv [(900, an_msp 900 2000 4 0)]))
     = (Some (fwd_upd (\<lambda>f. f\<lparr>fin := 9\<rparr>) (until_fin_conv [(900, an_msp 900 2000 4 0)])),
        [Fragment_Added 4 100 0], False)
   \<and> (0x0011 :: guint16) AND TH_FIN example_env \<noteq> 0
   \<and> flow_flags (fwd (until_fin_conv [])) AND TCP_FLOW_REASSEMBLE_UNTIL_FIN example_reassembly \<noteq> 0
   \<and> fin (fwd (until_fin_conv [])) = 0"
  by code_simp

lemma retransmission_flag_not_dupack:
  "retransmission_flag c AND TCP_A_DUPLICATE_ACK = 0"
  by (cases c) (simp_all add: TCP_A_defs)

lemma fwd_check_flags_dupack:
  "(fwd_check_flags e s a l fl w t AND TCP_A_DUPLICATE_ACK \<noteq> 0) = counts_dupack e s a l fl w t"
  by (simp add: fwd_check_flags_def counts_dupack_def word16_has_OR word16_has_if TCP_A_defs)

lemma flags_after_retransmission_dupack:
  "(flags_after_retransmission e p s a l fl w t AND TCP_A_DUPLICATE_ACK \<noteq> 0) =
   (ta_flags (ta_or0 t) AND TCP_A_DUPLICATE_ACK \<noteq> 0 \<or> counts_dupack e s a l fl w t)"
proof -
  have x: "(if c then TCP_A_ACK_LOST_PACKET else 0) AND TCP_A_DUPLICATE_ACK = 0" for c
    by (simp add: TCP_A_defs)
  have y: "(if c then retransmission_flag k else 0) AND TCP_A_DUPLICATE_ACK = 0" for c k
    by (simp add: retransmission_flag_not_dupack)
  show ?thesis
    by (simp add: flags_after_retransmission_def flags_before_retransmission_def word16_has_OR
        fwd_check_flags_dupack x y split del: if_split)
qed

lemma counts_dupack_iff:
  "counts_dupack e s a l fl w t =
     (duplicate_ack_cond e s a l fl w t \<and> lastsegmentflags (rev_flow t) AND TCP_A_KEEP_ALIVE = 0)"
  by (auto simp add: counts_dupack_def duplicate_ack_cond_def keep_alive_ack_cond_def
        zero_window_probe_ack_cond_def zero_window_probe_cond_def)

text \<open>
  C8 (amended). A packet is counted as a duplicate ACK (flag set, \<open>dupacknum\<close>
  incremented and stored with the frame of the last change of ack) exactly when the
  test of the DUPLICATE ACK block holds, that is the segment is empty, the window is
  not 0 and equal to the last window, seq equals \<open>nextseq\<close>, ack equals \<open>lastack\<close>, none
  of SYN, FIN and RST is set, and moreover the last segment of the reverse direction
  was not a keep-alive (the packet is then a keep-alive ACK and the block is skipped).
  \<open>dupacknum\<close> is reset to 0 whenever ack differs from \<open>lastack\<close>. A segment that carries
  data is never a duplicate ACK.
\<close>

theorem duplicate_ack_counted:
  assumes "ta_inv (num p, s, a) t" and "fd_num p = num p"
    and "ta_flags (ta_or0 t) AND TCP_A_DUPLICATE_ACK = 0"
    and "tcp_analyze_sequence_number e p s a l fl w (Some t) = Some t'"
  shows "(ta_flags (ta_or0 t') AND TCP_A_DUPLICATE_ACK \<noteq> 0) =
           (duplicate_ack_cond e s a l fl w t
            \<and> lastsegmentflags (rev_flow t) AND TCP_A_KEEP_ALIVE = 0)
       \<and> dupack_num (ta_or0 t') =
           (if duplicate_ack_cond e s a l fl w t
               \<and> lastsegmentflags (rev_flow t) AND TCP_A_KEEP_ALIVE = 0
            then dupacknum (fwd t) + 1 else dupack_num (ta_or0 t))
       \<and> dupack_frame (ta_or0 t') =
           (if duplicate_ack_cond e s a l fl w t
               \<and> lastsegmentflags (rev_flow t) AND TCP_A_KEEP_ALIVE = 0
            then lastnondupack (fwd t) else dupack_frame (ta_or0 t))
       \<and> dupacknum (fwd t') =
           (if a \<noteq> lastack (fwd t) then 0
            else if duplicate_ack_cond e s a l fl w t
               \<and> lastsegmentflags (rev_flow t) AND TCP_A_KEEP_ALIVE = 0
            then dupacknum (fwd t) + 1 else dupacknum (fwd t))
       \<and> (l \<noteq> 0 \<longrightarrow> ta_flags (ta_or0 t') AND TCP_A_DUPLICATE_ACK = 0)"
proof -
  have r: "t' = analysis_result e p s a l fl w t" by (rule analysis_result_eq[OF assms(4)])
  note f = analysis_result_fwd_fields[OF assms(1), of e l fl w]
  note g = analysis_result_ta_fields[OF assms(1,2), of e l fl w]
  have c: "counts_dupack e s a l fl w t =
     (duplicate_ack_cond e s a l fl w t \<and> lastsegmentflags (rev_flow t) AND TCP_A_KEEP_ALIVE = 0)"
    by (rule counts_dupack_iff)
  have x: "(ta_flags (ta_or0 t') AND TCP_A_DUPLICATE_ACK \<noteq> 0) = counts_dupack e s a l fl w t"
    unfolding r using assms(3) by (simp add: g(1) flags_after_retransmission_dupack)
  have n: "dupack_num (ta_or0 t') =
           (if counts_dupack e s a l fl w t then dupacknum (fwd t) + 1 else dupack_num (ta_or0 t))"
    unfolding r by (rule g(2))
  have d: "dupack_frame (ta_or0 t') =
           (if counts_dupack e s a l fl w t then lastnondupack (fwd t) else dupack_frame (ta_or0 t))"
    unfolding r by (rule g(3))
  have u: "dupacknum (fwd t') =
           (if a \<noteq> lastack (fwd t) then 0
            else if counts_dupack e s a l fl w t then dupacknum (fwd t) + 1
            else dupacknum (fwd t))"
    unfolding r by (rule f(7))
  have z: "l \<noteq> 0 \<longrightarrow> ta_flags (ta_or0 t') AND TCP_A_DUPLICATE_ACK = 0"
    using x by (auto simp add: c duplicate_ack_cond_def)
  from x n d u z show ?thesis unfolding c by blast
qed

theorem duplicate_ack_counted_example:
  "ta_inv (3, 151, 501)
     (state_before example_env (take 2 repeated_ack) (repeated_ack ! 2) init_tcp_conversation_data)
   \<and> tcp_analyze_sequence_number example_env (at_time 3 10 2000000) 151 501 0 0x0010 1000
       (Some (state_before example_env (take 2 repeated_ack) (repeated_ack ! 2)
          init_tcp_conversation_data))
     = Some (analysis_result example_env (at_time 3 10 2000000) 151 501 0 0x0010 1000
          (state_before example_env (take 2 repeated_ack) (repeated_ack ! 2)
             init_tcp_conversation_data))
   \<and> ta_flags (ta_or0 (analysis_result example_env (at_time 3 10 2000000) 151 501 0 0x0010 1000
          (state_before example_env (take 2 repeated_ack) (repeated_ack ! 2)
             init_tcp_conversation_data))) AND TCP_A_DUPLICATE_ACK \<noteq> 0
   \<and> dupack_num (ta_or0 (analysis_result example_env (at_time 3 10 2000000) 151 501 0 0x0010 1000
          (state_before example_env (take 2 repeated_ack) (repeated_ack ! 2)
             init_tcp_conversation_data))) = 1
   \<and> dupack_frame (ta_or0 (analysis_result example_env (at_time 3 10 2000000) 151 501 0 0x0010 1000
          (state_before example_env (take 2 repeated_ack) (repeated_ack ! 2)
             init_tcp_conversation_data))) = 2"
proof -
  let ?t = "state_before example_env (take 2 repeated_ack) (repeated_ack ! 2)
        init_tcp_conversation_data"
  let ?p = "at_time 3 10 2000000"
  let ?t' = "analysis_result example_env ?p 151 501 0 0x0010 1000 ?t"
  have i: "ta_inv (num ?p, 151, 501) ?t" by code_simp
  have i': "ta_inv (3, 151, 501) ?t" by code_simp
  have d: "fd_num ?p = num ?p" by (simp add: at_time_def)
  have o: "ta_flags (ta_or0 ?t) AND TCP_A_DUPLICATE_ACK = 0" by code_simp
  have c: "tcp_analyze_sequence_number example_env ?p 151 501 0 0x0010 1000 (Some ?t) = Some ?t'"
    by (simp add: tcp_analyze_sequence_number_Some analysis_result_def)
  have q: "duplicate_ack_cond example_env 151 501 0 0x0010 1000 ?t" by code_simp
  have k: "lastsegmentflags (rev_flow ?t) AND TCP_A_KEEP_ALIVE = 0" by code_simp
  have n: "dupacknum (fwd ?t) = 0" by code_simp
  have m: "lastnondupack (fwd ?t) = 2" by code_simp
  from duplicate_ack_counted[OF i d o c] q k n m
  have "ta_flags (ta_or0 ?t') AND TCP_A_DUPLICATE_ACK \<noteq> 0 \<and> dupack_num (ta_or0 ?t') = 1
        \<and> dupack_frame (ta_or0 ?t') = 2"
    by simp
  with i' c show ?thesis by simp
qed

text \<open>
  C8 (as stated). The data segment seq=101, len=50, ack=501 sent three times with the
  same window: the third occurrence carries the flag of a retransmission and not that
  of a duplicate ACK, and its \<open>dupack_num\<close> and \<open>dupack_frame\<close> are 0.
\<close>

theorem repeated_segment_is_no_duplicate_ack:
  "map_option
     (\<lambda>c. map (\<lambda>k. case acked_table c k of
                      None \<Rightarrow> None
                    | Some x \<Rightarrow> Some (ta_flags x, dupack_num x, dupack_frame x))
             [(2, 101, 501), (3, 101, 501)])
     (first_pass example_env repeated_segment init_tcp_conversation_data)
   = Some [Some (TCP_A_RETRANSMISSION, 0, 0), Some (TCP_A_RETRANSMISSION, 0, 0)]
   \<and> TCP_A_RETRANSMISSION AND TCP_A_DUPLICATE_ACK = 0"
  by code_simp

lemma loop_stops_without_Next_PDU:
  "(\<And>offset' pinfo'. tcp_dissect_pdus_step env pd fixed_len offset pinfo \<noteq> Next_PDU offset' pinfo') \<Longrightarrow>
   length (fst (snd (tcp_dissect_pdus_loop env pd fixed_len offset pinfo))) \<le> 1"
  by (cases "tcp_dissect_pdus_step env pd fixed_len offset pinfo")
     (auto simp add: tcp_dissect_pdus_loop.simps[of env pd fixed_len offset pinfo])

lemma overflow_stops_loop:
  assumes "get_pdu_len env pinfo offset = Inr plen" and "sint (offset + plen) \<le> sint offset"
  shows "length (fst (snd (tcp_dissect_pdus_loop env pd fixed_len offset pinfo))) \<le> 1"
proof (rule loop_stops_without_Next_PDU)
  fix offset' pinfo'
  show "tcp_dissect_pdus_step env pd fixed_len offset pinfo \<noteq> Next_PDU offset' pinfo'"
  proof
    assume n: "tcp_dissect_pdus_step env pd fixed_len offset pinfo = Next_PDU offset' pinfo'"
    from step_overflow_breaks[OF n] assms(1) have "offset' = offset + plen" by auto
    with Next_PDU_advances[OF n] assms(2) show False by simp
  qed
qed

text \<open>
  C9. \<open>tcp_dissect_pdus\<close> returns for every buffer and every pair of callbacks, whether
  the calls into the libraries throw or not (the loop is a total function), the
  offsets at which it dissects a PDU are strictly increasing,
  so the offset never moves backward, and when the offset after a PDU of declared
  length \<open>plen\<close> would be less than or equal to the offset before it, the loop ends with
  that PDU: at most one PDU is dissected from there.
\<close>

theorem tcp_dissect_pdus_never_moves_backward:
  "offsets_advance offset
     (fst (snd (tcp_dissect_pdus_loop env proto_desegment fixed_len offset pinfo)))
   \<and> offsets_advance 0 (fst (snd (tcp_dissect_pdus env proto_desegment fixed_len pinfo)))
   \<and> (\<forall>plen. get_pdu_len env pinfo offset = Inr plen \<longrightarrow> sint (offset + plen) \<le> sint offset \<longrightarrow>
         length (fst (snd (tcp_dissect_pdus_loop env proto_desegment fixed_len offset pinfo))) \<le> 1)"
  using loop_offsets_advance[of offset env proto_desegment fixed_len pinfo]
    loop_offsets_advance[of 0 env proto_desegment fixed_len pinfo]
    overflow_stops_loop[of env pinfo offset _ proto_desegment fixed_len]
  by (simp add: tcp_dissect_pdus_def)

theorem tcp_dissect_pdus_overflow_example:
  "get_pdu_len overflow_env plain_pinfo 0x20 = Inr 0xFFFFFFFF
   \<and> sint (0x20 + 0xFFFFFFFF :: gint) \<le> sint (0x20 :: gint)
   \<and> length (fst (snd (tcp_dissect_pdus_loop overflow_env False 4 0x20 plain_pinfo))) \<le> 1
   \<and> fst (tcp_dissect_pdus_loop overflow_env False 4 0x20 plain_pinfo) = Offset_Overflow
   \<and> fst (snd (tcp_dissect_pdus_loop overflow_env False 4 0x20 plain_pinfo)) = [0x20]"
proof -
  have a: "get_pdu_len overflow_env plain_pinfo 0x20 = Inr 0xFFFFFFFF"
    by (simp add: overflow_env_def)
  have b: "sint (0x20 + 0xFFFFFFFF :: gint) \<le> sint (0x20 :: gint)" by simp
  have c: "fst (tcp_dissect_pdus_loop overflow_env False 4 0x20 plain_pinfo) = Offset_Overflow"
    by code_simp
  have d: "fst (snd (tcp_dissect_pdus_loop overflow_env False 4 0x20 plain_pinfo)) = [0x20]"
    by code_simp
  from tcp_dissect_pdus_never_moves_backward[of "0x20" overflow_env False 4 plain_pinfo] a b
  have "length (fst (snd (tcp_dissect_pdus_loop overflow_env False 4 0x20 plain_pinfo))) \<le> 1"
    by blast
  with a b c d show ?thesis by blast
qed

lemma bif_scan_min_max:
  "bif_scan base xs (lo, hi) =
     (fold min (map (\<lambda>u. ua_seq u - base) xs) lo, fold max (map (\<lambda>u. ua_nextseq u - base) xs) hi)"
proof (induction xs arbitrary: lo hi)
  case Nil
  show ?case by simp
next
  case (Cons u xs)
  have a: "(if ua_seq u - base < lo then ua_seq u - base else lo) = min (ua_seq u - base) lo"
    by (auto simp add: min_def)
  have b: "(if hi < ua_nextseq u - base then ua_nextseq u - base else hi) = max (ua_nextseq u - base) hi"
    by (auto simp add: max_def)
  show ?case by (simp add: Cons.IH a b)
qed

lemma in_flight_claimed: "segments f \<noteq> [] \<Longrightarrow> in_flight f = claimed_in_flight f"
proof -
  assume "segments f \<noteq> []"
  then obtain u rest where s: "segments f = u # rest" by (cases "segments f") auto
  have mn: "Min ((\<lambda>u. ua_seq u - base_seq f) ` set (u # rest)) =
        fold min (map (\<lambda>u. ua_seq u - base_seq f) rest) (ua_seq u - base_seq f)"
    using Min.set_eq_fold[of "ua_seq u - base_seq f" "map (\<lambda>u. ua_seq u - base_seq f) rest"]
    by simp
  have mx: "Max ((\<lambda>u. ua_nextseq u - base_seq f) ` set (u # rest)) =
        fold max (map (\<lambda>u. ua_nextseq u - base_seq f) rest) (ua_nextseq u - base_seq f)"
    using Max.set_eq_fold[of "ua_nextseq u - base_seq f" "map (\<lambda>u. ua_nextseq u - base_seq f) rest"]
    by simp
  show ?thesis
    unfolding in_flight_def claimed_in_flight_def s mn mx
    by (simp add: bif_scan_min_max)
qed

text \<open>
  C10. The bytes-in-flight value of the packet's analysis result is written by
  \<open>tcp_analyze_sequence_number\<close> only when tracking is enabled, the segment carries
  payload, the list of unacknowledged segments of the forward flow is not empty, the
  flow's \<open>valid_bif\<close> is set, and the estimate, the greatest \<open>nextseq\<close> minus the least
  \<open>seq\<close> of the unacknowledged segments relative to \<open>base_seq\<close>, is greater than 0 and
  less than 2000000000; the value written is that estimate. Otherwise the value is left
  as it was, so a packet without payload never gets one: it stays 0 for a packet that
  had no analysis struct.
\<close>

theorem bytes_in_flight_only_with_payload:
  assumes "ta_inv (num p, s, a) t" and "fd_num p = num p"
    and "tcp_analyze_sequence_number e p s a l fl w (Some t) = Some t'"
  shows "bytes_in_flight (ta_or0 t') =
           (if tcp_track_bytes_in_flight e \<and> l \<noteq> 0 \<and> segments (fwd t') \<noteq> []
               \<and> valid_bif (fwd t')
               \<and> 0 < claimed_in_flight (fwd t') \<and> claimed_in_flight (fwd t') < 2000000000
            then claimed_in_flight (fwd t') else bytes_in_flight (ta_or0 t))
       \<and> (l = 0 \<longrightarrow> bytes_in_flight (ta_or0 t') = bytes_in_flight (ta_or0 t))
       \<and> (l = 0 \<longrightarrow> ta t = None \<longrightarrow> bytes_in_flight (ta_or0 t') = 0)"
proof -
  have r: "t' = analysis_result e p s a l fl w t" by (rule analysis_result_eq[OF assms(3)])
  have z: "ta t = None \<Longrightarrow> bytes_in_flight (ta_or0 t) = 0"
    by (simp add: ta_or0_def ta_get_def tcp_acked_new0_def)
  have m: "bytes_in_flight (ta_or0 t') =
           (if tcp_track_bytes_in_flight e \<and> l \<noteq> 0 \<and> segments (fwd t') \<noteq> []
               \<and> valid_bif (fwd t')
               \<and> 0 < claimed_in_flight (fwd t') \<and> claimed_in_flight (fwd t') < 2000000000
            then claimed_in_flight (fwd t') else bytes_in_flight (ta_or0 t))"
  proof (cases "segments (fwd t') = []")
    case True
    then show ?thesis
      unfolding r using analysis_result_bytes_in_flight[OF assms(1,2), of e l fl w]
      by (simp add: bif_cond_def)
  next
    case False
    from in_flight_claimed[OF False] show ?thesis
      unfolding r using analysis_result_bytes_in_flight[OF assms(1,2), of e l fl w]
      by (simp add: bif_cond_def bif_in_range_def)
  qed
  from m z show ?thesis by simp
qed

theorem bytes_in_flight_example:
  "ta_inv (2, 151, 501)
     (state_before example_env (take 1 repeated_ack) (repeated_ack ! 1) init_tcp_conversation_data)
   \<and> tcp_analyze_sequence_number example_env (at_time 2 10 1000000) 151 501 0 0x0010 1000
       (Some (state_before example_env (take 1 repeated_ack) (repeated_ack ! 1)
          init_tcp_conversation_data))
     = Some (analysis_result example_env (at_time 2 10 1000000) 151 501 0 0x0010 1000
          (state_before example_env (take 1 repeated_ack) (repeated_ack ! 1)
             init_tcp_conversation_data))
   \<and> segments (fwd (analysis_result example_env (at_time 2 10 1000000) 151 501 0 0x0010 1000
          (state_before example_env (take 1 repeated_ack) (repeated_ack ! 1)
             init_tcp_conversation_data))) \<noteq> []
   \<and> bytes_in_flight (ta_or0 (analysis_result example_env (at_time 2 10 1000000) 151 501 0 0x0010 1000
          (state_before example_env (take 1 repeated_ack) (repeated_ack ! 1)
             init_tcp_conversation_data))) = 0
   \<and> map_option (\<lambda>c. map_option bytes_in_flight (acked_table c (1, 101, 401)))
       (first_pass example_env (take 1 repeated_ack) init_tcp_conversation_data) = Some (Some 50)"
proof -
  let ?t = "state_before example_env (take 1 repeated_ack) (repeated_ack ! 1)
        init_tcp_conversation_data"
  let ?p = "at_time 2 10 1000000"
  let ?t' = "analysis_result example_env ?p 151 501 0 0x0010 1000 ?t"
  have i: "ta_inv (num ?p, 151, 501) ?t" by code_simp
  have i': "ta_inv (2, 151, 501) ?t" by code_simp
  have d: "fd_num ?p = num ?p" by (simp add: at_time_def)
  have c: "tcp_analyze_sequence_number example_env ?p 151 501 0 0x0010 1000 (Some ?t) = Some ?t'"
    by (simp add: tcp_analyze_sequence_number_Some analysis_result_def)
  have n: "ta ?t = None" by code_simp
  have g: "segments (fwd ?t') \<noteq> []" by code_simp
  have f: "map_option (\<lambda>c. map_option bytes_in_flight (acked_table c (1, 101, 401)))
       (first_pass example_env (take 1 repeated_ack) init_tcp_conversation_data) = Some (Some 50)"
    by code_simp
  from bytes_in_flight_only_with_payload[OF i d c] n
  have "bytes_in_flight (ta_or0 ?t') = 0" by blast
  with i' c g f show ?thesis by blast
qed

end
